theory Spec2Isabelle
  imports Complex_Main "HOL-Library.Sublist" "HOL-Library.Multiset"
begin

section \<open>Python values, exceptions and the scripted remote\<close>

text \<open>
  \<^verbatim>\<open>setup.py\<close> is a sequential script: every function talks to a remote service
  (boto3 clients, \<^verbatim>\<open>requests\<close>), reads the decoded JSON answer and either returns,
  raises, or prints a message and calls \<^verbatim>\<open>sys.exit(1)\<close>.

  JSON documents and boto3 response dictionaries are values of \<open>pyval\<close>. A Python
  dictionary keeps its keys in insertion order, so \<open>PDict\<close> is an association list;
  lookups take the first entry of a key.
\<close>

datatype pyval =
    PNone
  | PBool bool
  | PInt int
  | PStr string
  | PList "pyval list"
  | PDict "(string \<times> pyval) list"

text \<open>Python's \<^verbatim>\<open>==\<close> on such values: lists compare element by element, dictionaries
  compare as sets of items whatever their key order, \<^verbatim>\<open>True == 1\<close>.\<close>

fun py_eq :: "pyval \<Rightarrow> pyval \<Rightarrow> bool" where
  "py_eq PNone PNone = True"
| "py_eq (PBool a) (PBool b) = (a = b)"
| "py_eq (PBool a) (PInt b) = ((if a then 1 else 0) = b)"
| "py_eq (PInt a) (PBool b) = (a = (if b then 1 else 0))"
| "py_eq (PInt a) (PInt b) = (a = b)"
| "py_eq (PStr a) (PStr b) = (a = b)"
| "py_eq (PList xs) (PList ys) = list_all2 py_eq xs ys"
| "py_eq (PDict a) (PDict b) =
     (length a = length b \<and>
      list_all (\<lambda>(k, v). case map_of b k of None \<Rightarrow> False | Some v' \<Rightarrow> py_eq v v') a)"
| "py_eq _ _ = False"

text \<open>Truthiness, as \<^verbatim>\<open>if x:\<close> and \<^verbatim>\<open>not x\<close> read it.\<close>

fun truthy :: "pyval \<Rightarrow> bool" where
  "truthy PNone = False"
| "truthy (PBool b) = b"
| "truthy (PInt i) = (i \<noteq> 0)"
| "truthy (PStr s) = (s \<noteq> [])"
| "truthy (PList xs) = (xs \<noteq> [])"
| "truthy (PDict kvs) = (kvs \<noteq> [])"

datatype exn =
    ClientError string
  | KeyError
  | TypeError
  | AttributeError
  | IndexError
  | ValueError
  | OtherError string

text \<open>
  How a piece of the script ends: it returns a value, raises an exception (which a
  \<^verbatim>\<open>try\<close> block further out may catch and which ends the run with a traceback
  otherwise), or calls \<^verbatim>\<open>sys.exit(1)\<close> after printing a message. \<open>Exit\<close> carries the
  message: its fixed words without the emoji and the quotation marks, followed by the
  interpolated value where the model has it (a name, a URL, a conclusion; not the text of
  an exception or of a response body). Other output of \<^verbatim>\<open>print\<close> is not modelled.
  \<^verbatim>\<open>SystemExit\<close> is not an \<^verbatim>\<open>Exception\<close>, so no handler of the script
  catches it. \<open>Stuck\<close> is the border of the model: the script of remote replies has run
  out, or a reply has a shape the service cannot produce.
\<close>

datatype 'a outcome = Return 'a | Raise exn | Exit string | Stuck

fun then_outcome :: "'a outcome \<Rightarrow> ('a \<Rightarrow> 'b outcome) \<Rightarrow> 'b outcome" where
  "then_outcome (Return a) f = f a"
| "then_outcome (Raise e) f = Raise e"
| "then_outcome (Exit m) f = Exit m"
| "then_outcome Stuck f = Stuck"

text \<open>\<^verbatim>\<open>d[k]\<close> and \<^verbatim>\<open>d.get(k, default)\<close>; only a dictionary has \<^verbatim>\<open>get\<close>, and a
  string key indexes nothing but a dictionary.\<close>

fun py_item :: "pyval \<Rightarrow> string \<Rightarrow> pyval outcome" where
  "py_item (PDict kvs) k = (case map_of kvs k of None \<Rightarrow> Raise KeyError | Some v \<Rightarrow> Return v)"
| "py_item _ k = Raise TypeError"

fun py_get :: "pyval \<Rightarrow> string \<Rightarrow> pyval \<Rightarrow> pyval outcome" where
  "py_get (PDict kvs) k d = (case map_of kvs k of None \<Rightarrow> Return d | Some v \<Rightarrow> Return v)"
| "py_get _ k d = Raise AttributeError"

text \<open>\<^verbatim>\<open>for x in v\<close>: a list yields its elements, a dictionary its keys, a string its
  characters; nothing else is iterable.\<close>

fun py_iter :: "pyval \<Rightarrow> pyval list outcome" where
  "py_iter (PList xs) = Return xs"
| "py_iter (PDict kvs) = Return (map (\<lambda>kv. PStr (fst kv)) kvs)"
| "py_iter (PStr s) = Return (map (\<lambda>c. PStr [c]) s)"
| "py_iter _ = Raise TypeError"

text \<open>A member that the service's response shape types as a string.\<close>

fun as_str :: "pyval \<Rightarrow> string outcome" where
  "as_str (PStr s) = Return s"
| "as_str _ = Stuck"

text \<open>
  The remote world is a script: the replies the services will give, in the order the calls
  are made, and the trace of the calls made so far. A boto3 call answers with its response
  dictionary or raises; an HTTP request answers with a status code and a body (\<open>None\<close>
  when the body is not JSON, so that \<^verbatim>\<open>response.json()\<close> raises) or raises.
\<close>

datatype call =
    Boto string string "(string \<times> pyval) list"
  | HttpGet string
  | HttpPost string
  | HttpPut string
  | Sleep real
  | WriteFile string pyval

datatype reply =
    Ok pyval
  | Fails exn
  | Http nat "pyval option"

type_synonym world = "reply list \<times> call list"

type_synonym 'a run = "world \<Rightarrow> 'a outcome \<times> world"

definition unit :: "'a \<Rightarrow> 'a run" where
  "unit a w = (Return a, w)"

definition lift :: "'a outcome \<Rightarrow> 'a run" where
  "lift r w = (r, w)"

definition exit_with :: "string \<Rightarrow> 'a run" where
  "exit_with m w = (Exit m, w)"

definition and_then :: "'a run \<Rightarrow> ('a \<Rightarrow> 'b run) \<Rightarrow> 'b run" where
  "and_then m f w =
     (case m w of
        (Return a, w') \<Rightarrow> f a w'
      | (Raise e, w') \<Rightarrow> (Raise e, w')
      | (Exit msg, w') \<Rightarrow> (Exit msg, w')
      | (Stuck, w') \<Rightarrow> (Stuck, w'))"

text \<open>\<^verbatim>\<open>try: m except ...\<close>: the handler says which exceptions it catches.\<close>

definition handle :: "'a run \<Rightarrow> (exn \<Rightarrow> 'a run option) \<Rightarrow> 'a run" where
  "handle m h w =
     (case m w of
        (Raise e, w') \<Rightarrow> (case h e of Some k \<Rightarrow> k w' | None \<Rightarrow> (Raise e, w'))
      | r \<Rightarrow> r)"

definition boto :: "string \<Rightarrow> string \<Rightarrow> (string \<times> pyval) list \<Rightarrow> pyval run" where
  "boto service operation kwargs w =
     (let tr = snd w @ [Boto service operation kwargs] in
      case fst w of
        [] \<Rightarrow> (Stuck, ([], tr))
      | Ok v # rest \<Rightarrow> (Return v, (rest, tr))
      | Fails e # rest \<Rightarrow> (Raise e, (rest, tr))
      | Http code body # rest \<Rightarrow> (Stuck, (rest, tr)))"

definition request :: "call \<Rightarrow> (nat \<times> pyval option) run" where
  "request c w =
     (let tr = snd w @ [c] in
      case fst w of
        [] \<Rightarrow> (Stuck, ([], tr))
      | Http code body # rest \<Rightarrow> (Return (code, body), (rest, tr))
      | Fails e # rest \<Rightarrow> (Raise e, (rest, tr))
      | Ok v # rest \<Rightarrow> (Stuck, (rest, tr)))"

definition sleep :: "real \<Rightarrow> unit run" where
  "sleep seconds w = (Return (), (fst w, snd w @ [Sleep seconds]))"

text \<open>\<^verbatim>\<open>response.json()\<close>\<close>

fun json_body :: "pyval option \<Rightarrow> pyval outcome" where
  "json_body (Some v) = Return v"
| "json_body None = Raise ValueError"

text \<open>
  A call mutates the remote account unless it is one of the read operations
  (\<^verbatim>\<open>get_*\<close>, \<^verbatim>\<open>list_*\<close>, \<^verbatim>\<open>describe_*\<close>, \<^verbatim>\<open>head_*\<close>, a waiter) or an HTTP GET;
  sleeping and writing a local file are not remote calls.
\<close>

definition read_operation :: "string \<Rightarrow> bool" where
  "read_operation operation =
     list_ex (\<lambda>p. prefix p operation) [''get_'', ''list_'', ''describe_'', ''head_'', ''wait_'']"

fun mutating :: "call \<Rightarrow> bool" where
  "mutating (Boto service operation kwargs) = (\<not> read_operation operation)"
| "mutating (HttpGet url) = False"
| "mutating (HttpPost url) = True"
| "mutating (HttpPut url) = True"
| "mutating (Sleep seconds) = False"
| "mutating (WriteFile path content) = False"

fun reading :: "call \<Rightarrow> bool" where
  "reading (Boto service operation kwargs) = read_operation operation"
| "reading (HttpGet url) = True"
| "reading (HttpPost url) = False"
| "reading (HttpPut url) = False"
| "reading (Sleep seconds) = False"
| "reading (WriteFile path content) = False"

text \<open>The calls a run adds to the trace, and its outcome.\<close>

definition outcome_of :: "'a run \<Rightarrow> reply list \<Rightarrow> 'a outcome" where
  "outcome_of m tape = fst (m (tape, []))"

definition calls_of :: "'a run \<Rightarrow> reply list \<Rightarrow> call list" where
  "calls_of m tape = snd (snd (m (tape, [])))"

section \<open>String helpers of the Python library\<close>

text \<open>\<^verbatim>\<open>s.replace(old, new)\<close>: every non-overlapping occurrence, from the left.\<close>

function py_replace :: "string \<Rightarrow> string \<Rightarrow> string \<Rightarrow> string" where
  "py_replace old new s =
     (if old = [] then new @ concat (map (\<lambda>c. c # new) s)
      else if s = [] then []
      else if prefix old s then new @ py_replace old new (drop (length old) s)
      else hd s # py_replace old new (tl s))"
  by pat_completeness auto
termination
  by (relation "measure (\<lambda>(old, new, s). length s)") auto

declare py_replace.simps [simp del]

text \<open>\<^verbatim>\<open>old in s\<close> on strings is containment as a contiguous substring: \<open>sublist old s\<close>.\<close>










section \<open>More operations on Python values\<close>

text \<open>\<^verbatim>\<open>v[0]\<close>: the first element of a list, the first character of a string; a JSON
  dictionary has string keys only, so the key 0 is missing.\<close>

fun py_first :: "pyval \<Rightarrow> pyval outcome" where
  "py_first (PList xs) = (case xs of [] \<Rightarrow> Raise IndexError | x # rest \<Rightarrow> Return x)"
| "py_first (PStr s) = (case s of [] \<Rightarrow> Raise IndexError | c # rest \<Rightarrow> Return (PStr [c]))"
| "py_first (PDict kvs) = Raise KeyError"
| "py_first _ = Raise TypeError"

text \<open>\<^verbatim>\<open>name in s\<close> for a string \<open>name\<close>: substring of a string, element of a list,
  key of a dictionary.\<close>

fun py_contains :: "string \<Rightarrow> pyval \<Rightarrow> bool outcome" where
  "py_contains name (PStr s) = Return (sublist name s)"
| "py_contains name (PList xs) = Return (list_ex (\<lambda>x. py_eq x (PStr name)) xs)"
| "py_contains name (PDict kvs) = Return (name \<in> set (map fst kvs))"
| "py_contains name _ = Raise TypeError"

text \<open>\<^verbatim>\<open>any(name in s for s in services)\<close> stops at the first hit.\<close>

fun any_contains :: "string \<Rightarrow> pyval list \<Rightarrow> bool outcome" where
  "any_contains name [] = Return False"
| "any_contains name (s # rest) =
     then_outcome (py_contains name s)
       (\<lambda>hit. if hit then Return True else any_contains name rest)"

text \<open>\<^verbatim>\<open>d[k] = v\<close>, \<^verbatim>\<open>d.update(other)\<close> and \<^verbatim>\<open>xs.append(x)\<close>: an existing key keeps
  its place, a new key goes to the end.\<close>

fun dict_set :: "(string \<times> pyval) list \<Rightarrow> string \<Rightarrow> pyval \<Rightarrow> (string \<times> pyval) list" where
  "dict_set [] k v = [(k, v)]"
| "dict_set ((k', v') # rest) k v =
     (if k' = k then (k, v) # rest else (k', v') # dict_set rest k v)"

fun py_update :: "pyval \<Rightarrow> pyval \<Rightarrow> pyval outcome" where
  "py_update (PDict a) (PDict b) = Return (PDict (foldl (\<lambda>d kv. dict_set d (fst kv) (snd kv)) a b))"
| "py_update (PDict a) other = Raise TypeError"
| "py_update v other = Raise AttributeError"

fun py_append :: "pyval \<Rightarrow> pyval \<Rightarrow> pyval outcome" where
  "py_append (PList xs) x = Return (PList (xs @ [x]))"
| "py_append v x = Raise AttributeError"

text \<open>How an f-string renders a value. A list or a dictionary in such a place is outside
  the model.\<close>

function show_nat :: "nat \<Rightarrow> string" where
  "show_nat n =
     (if n < 10 then [char_of (48 + n)] else show_nat (n div 10) @ [char_of (48 + n mod 10)])"
  by pat_completeness auto
termination
  by (relation "measure id") auto

declare show_nat.simps [simp del]

fun py_format :: "pyval \<Rightarrow> string outcome" where
  "py_format (PStr s) = Return s"
| "py_format PNone = Return ''None''"
| "py_format (PBool b) = Return (if b then ''True'' else ''False'')"
| "py_format (PInt i) = Return (if i < 0 then ''-'' @ show_nat (nat (- i)) else show_nat (nat i))"
| "py_format (PList xs) = Stuck"
| "py_format (PDict kvs) = Stuck"

text \<open>The \<^verbatim>\<open>except\<close> clauses of the script: \<^verbatim>\<open>except ClientError\<close>, a modelled
  exception of one error code (\<^verbatim>\<open>NoSuchEntityException\<close>), \<^verbatim>\<open>except Exception\<close>.\<close>

definition on_client_error :: "(string \<Rightarrow> 'a run) \<Rightarrow> exn \<Rightarrow> 'a run option" where
  "on_client_error k e = (case e of ClientError code \<Rightarrow> Some (k code) | _ \<Rightarrow> None)"

definition on_error_code :: "string \<Rightarrow> 'a run \<Rightarrow> exn \<Rightarrow> 'a run option" where
  "on_error_code code k e = (if e = ClientError code then Some k else None)"

definition on_exception :: "(exn \<Rightarrow> 'a run) \<Rightarrow> exn \<Rightarrow> 'a run option" where
  "on_exception k e = Some (k e)"

section \<open>GitHub functions\<close>

text \<open>
  \<^verbatim>\<open>re.match\<close> of \<^verbatim>\<open>PREFIX(?P<owner>[^/]+)/(?P<repo>[^/]+)(\.git)?\<close>, where the
  prefix is a literal: the match is anchored at the start only; \<open>owner\<close> is the text up
  to the first slash and must not be empty; \<open>repo\<close> is greedy, so it takes every
  character up to the next slash or the end (a final \<^verbatim>\<open>.git\<close> included, which leaves
  the optional group empty) and must not be empty. The result is the two named groups.
\<close>

definition not_slash :: "char \<Rightarrow> bool" where
  "not_slash c = (c \<noteq> CHR ''/'')"

definition re_match_repo :: "string \<Rightarrow> string \<Rightarrow> (string \<times> string) option" where
  "re_match_repo literal url =
     (if prefix literal url then
        (let rest = drop (length literal) url;
             owner = takeWhile not_slash rest;
             after = dropWhile not_slash rest
         in if owner = [] \<or> after = [] then None
            else (let repo = takeWhile not_slash (tl after)
                  in if repo = [] then None else Some (owner, repo)))
      else None)"

definition ssh_literal :: string where
  "ssh_literal = ''git@github.com:''"

definition https_literal :: string where
  "https_literal = ''https://github.com/''"

definition parse_github_repo :: "string \<Rightarrow> (string \<times> string) outcome" where
  "parse_github_repo url =
     (case (case re_match_repo ssh_literal url of
              Some m \<Rightarrow> Some m
            | None \<Rightarrow> re_match_repo https_literal url) of
        Some (owner, repo) \<Rightarrow> Return (owner, py_replace ''.git'' '''' repo)
      | None \<Rightarrow> Exit (''Could not parse GitHub repository info from remote URL: '' @ url))"

section \<open>Network prompts\<close>



text \<open>The shape of a URL that one of the two patterns matches, after the literal:
  \<open>owner\<close>, a slash, \<open>repo\<close>, and a remainder that is empty or starts with a slash.\<close>

definition repo_segments :: "string \<Rightarrow> string \<Rightarrow> string \<Rightarrow> bool" where
  "repo_segments owner repo rest =
     (owner \<noteq> [] \<and> CHR ''/'' \<notin> set owner \<and> repo \<noteq> [] \<and> CHR ''/'' \<notin> set repo \<and>
      (case rest of [] \<Rightarrow> True | c # cs \<Rightarrow> c = CHR ''/''))"

section \<open>OIDC provider\<close>










section \<open>S3 bucket\<close>

definition get_account_id :: "string run" where
  "get_account_id =
     handle
       (and_then (boto ''sts'' ''get_caller_identity'' [])
          (\<lambda>identity. lift (then_outcome (py_item identity ''Account'') as_str)))
       (on_client_error (\<lambda>code. exit_with ''Failed to retrieve AWS account ID''))"

definition public_access_block :: pyval where
  "public_access_block =
     PDict [(''BlockPublicAcls'', PBool True), (''IgnorePublicAcls'', PBool True),
            (''BlockPublicPolicy'', PBool True), (''RestrictPublicBuckets'', PBool True)]"

definition create_s3_bucket :: "string \<Rightarrow> string \<Rightarrow> string run" where
  "create_s3_bucket base_bucket_name region =
     and_then get_account_id (\<lambda>account_id.
     let bucket_name = base_bucket_name @ ''-'' @ account_id @ ''-'' @ region in
     and_then
       (handle
          (and_then (boto ''s3'' ''head_bucket'' [(''Bucket'', PStr bucket_name)])
             (\<lambda>response. unit ()))
          (on_client_error (\<lambda>error_code.
             if error_code \<in> set [''404'', ''NoSuchBucket''] then
               handle
                 (and_then
                    (boto ''s3'' ''create_bucket''
                       [(''Bucket'', PStr bucket_name),
                        (''CreateBucketConfiguration'',
                           PDict [(''LocationConstraint'', PStr region)])])
                    (\<lambda>response.
                       and_then (boto ''s3'' ''wait_bucket_exists'' [(''Bucket'', PStr bucket_name)])
                         (\<lambda>waited. unit ())))
                 (on_client_error (\<lambda>code.
                    exit_with (''Failed to create S3 bucket '' @ bucket_name)))
             else exit_with (''Error checking S3 bucket '' @ bucket_name))))
       (\<lambda>checked.
          and_then
            (handle
               (boto ''s3'' ''put_public_access_block''
                  [(''Bucket'', PStr bucket_name),
                   (''PublicAccessBlockConfiguration'', public_access_block)])
               (on_client_error (\<lambda>code.
                  exit_with (''Failed to set public access block for bucket '' @ bucket_name))))
            (\<lambda>response. unit bucket_name)))"

definition state_policy_document :: pyval where
  "state_policy_document =
     PDict [(''Version'', PStr ''2012-10-17''),
       (''Statement'', PList [
          PDict [(''Sid'', PStr ''AllowS3ListBucket''), (''Effect'', PStr ''Allow''),
                 (''Action'', PStr ''s3:ListBucket''),
                 (''Resource'', PStr ''arn:aws:s3:::resourcely-campaigns*'')],
          PDict [(''Sid'', PStr ''AllowS3ObjectAccess''), (''Effect'', PStr ''Allow''),
                 (''Action'', PList [PStr ''s3:GetObject'', PStr ''s3:PutObject'',
                                     PStr ''s3:DeleteObject'']),
                 (''Resource'', PStr ''arn:aws:s3:::resourcely-campaigns*/*'')],
          PDict [(''Sid'', PStr ''AllowFullS3BucketManagementForCampaigns''),
                 (''Effect'', PStr ''Allow''), (''Action'', PStr ''s3:*''),
                 (''Resource'', PStr ''*'')],
          PDict [(''Sid'', PStr ''AllowS3GetBucketPolicy''), (''Effect'', PStr ''Allow''),
                 (''Action'', PStr ''s3:GetBucketPolicy''),
                 (''Resource'', PStr ''arn:aws:s3:::resourcely-campaigns*'')]])]"

text \<open>A JSON text handed to a service (\<^verbatim>\<open>json.dumps(document)\<close>) is recorded in the
  trace as the document it encodes; \<^verbatim>\<open>bucket_name\<close> is not used by the function.\<close>

definition attach_s3_policy_to_role :: "string \<Rightarrow> string \<Rightarrow> unit run" where
  "attach_s3_policy_to_role role_name bucket_name =
     handle
       (and_then
          (boto ''iam'' ''put_role_policy''
             [(''RoleName'', PStr role_name), (''PolicyName'', PStr ''TerraformStateS3AccessPolicy''),
              (''PolicyDocument'', state_policy_document)])
          (\<lambda>response. unit ()))
       (on_client_error (\<lambda>code. exit_with ''Failed to attach S3 policy to role''))"

text \<open>Two invocations in sequence, the second on the remote state the first has left.\<close>

definition twice :: "'a run \<Rightarrow> 'a run" where
  "twice m = and_then m (\<lambda>first. m)"

section \<open>Bucket policy\<close>

definition get_current_aws_principal :: "pyval run" where
  "get_current_aws_principal =
     handle
       (and_then (boto ''sts'' ''get_caller_identity'' [])
          (\<lambda>identity. lift (py_get identity ''Arn'' PNone)))
       (on_client_error (\<lambda>code. exit_with ''Failed to retrieve AWS principal ARN''))"

definition intended_items :: "pyval \<Rightarrow> string \<Rightarrow> (string \<times> pyval) list" where
  "intended_items principal_arn bucket_name =
     [(''Sid'', PStr ''AllowLocalDockerAccess''),
      (''Effect'', PStr ''Allow''),
      (''Principal'', PDict [(''AWS'', principal_arn)]),
      (''Action'', PList [PStr ''s3:GetObject'', PStr ''s3:PutObject'', PStr ''s3:ListBucket'']),
      (''Resource'', PList [PStr (''arn:aws:s3:::'' @ bucket_name),
                            PStr (''arn:aws:s3:::'' @ bucket_name @ ''/*'')])]"

definition intended_statement :: "pyval \<Rightarrow> string \<Rightarrow> pyval" where
  "intended_statement principal_arn bucket_name = PDict (intended_items principal_arn bucket_name)"

text \<open>
  The loop over the statements of the current policy: the first statement whose
  \<^verbatim>\<open>Sid\<close> is \<^verbatim>\<open>AllowLocalDockerAccess\<close> decides. If it equals the intended statement
  the function returns at once; otherwise the statement is updated in place and the loop
  is left. The result is the statement list as the loop leaves it.
\<close>

datatype statement_scan = AlreadyApplied | Updated "pyval list" | NotFound

fun scan_statements :: "pyval \<Rightarrow> pyval list \<Rightarrow> statement_scan outcome" where
  "scan_statements intended [] = Return NotFound"
| "scan_statements intended (stmt # rest) =
     then_outcome (py_get stmt ''Sid'' PNone) (\<lambda>sid.
       if py_eq sid (PStr ''AllowLocalDockerAccess'') then
         (if py_eq stmt intended then Return AlreadyApplied
          else then_outcome (py_update stmt intended) (\<lambda>updated. Return (Updated (updated # rest))))
       else
         then_outcome (scan_statements intended rest) (\<lambda>scanned.
           case scanned of
             AlreadyApplied \<Rightarrow> Return AlreadyApplied
           | Updated statements \<Rightarrow> Return (Updated (stmt # statements))
           | NotFound \<Rightarrow> Return NotFound))"

text \<open>\<^verbatim>\<open>current_policy["Statement"]\<close> names the list that the loop has changed, so the
  policy that is written back is the current one with that member replaced.\<close>

fun with_statements :: "pyval \<Rightarrow> pyval \<Rightarrow> pyval" where
  "with_statements (PDict kvs) statements = PDict (dict_set kvs ''Statement'' statements)"
| "with_statements v statements = v"

text \<open>\<^verbatim>\<open>json.loads(response['Policy'])\<close>: the policy text is identified with the document
  it encodes, the keys of every object in the order of the text.\<close>

definition apply_bucket_policy :: "string \<Rightarrow> unit run" where
  "apply_bucket_policy bucket_name =
     and_then get_current_aws_principal (\<lambda>principal_arn.
     let intended = intended_statement principal_arn bucket_name in
     and_then
       (handle
          (and_then (boto ''s3'' ''get_bucket_policy'' [(''Bucket'', PStr bucket_name)])
             (\<lambda>response. lift (py_item response ''Policy'')))
          (on_client_error (\<lambda>code.
             if code = ''NoSuchBucketPolicy''
             then unit (PDict [(''Version'', PStr ''2012-10-17''), (''Statement'', PList [])])
             else exit_with ''Failed to retrieve bucket policy'')))
       (\<lambda>current_policy.
          and_then (lift (then_outcome (py_item current_policy ''Statement'') (\<lambda>statements.
                      then_outcome (py_iter statements) (\<lambda>stmts.
                      then_outcome (scan_statements intended stmts) (\<lambda>scanned.
                        case scanned of
                          AlreadyApplied \<Rightarrow> Return None
                        | Updated new_stmts \<Rightarrow>
                            Return (Some (with_statements current_policy (PList new_stmts)))
                        | NotFound \<Rightarrow>
                            then_outcome (py_append statements intended) (\<lambda>appended.
                              Return (Some (with_statements current_policy appended))))))))
            (\<lambda>to_write.
               case to_write of
                 None \<Rightarrow> unit ()
               | Some new_policy \<Rightarrow>
                   handle
                     (and_then
                        (boto ''s3'' ''put_bucket_policy''
                           [(''Bucket'', PStr bucket_name), (''Policy'', new_policy)])
                        (\<lambda>response. unit ()))
                     (on_client_error (\<lambda>code. exit_with ''Failed to update bucket policy'')))))"

section \<open>ECS deployment\<close>

definition create_or_update_consolidated_secret :: "string \<Rightarrow> pyval \<Rightarrow> string run" where
  "create_or_update_consolidated_secret secret_name secret_data =
     handle
       (and_then (boto ''secretsmanager'' ''describe_secret'' [(''SecretId'', PStr secret_name)])
          (\<lambda>response.
             and_then
               (boto ''secretsmanager'' ''put_secret_value''
                  [(''SecretId'', PStr secret_name), (''SecretString'', secret_data)])
               (\<lambda>put. lift (then_outcome (py_item response ''ARN'') as_str))))
       (\<lambda>e. if e = ClientError ''ResourceNotFoundException'' then
               Some (and_then
                       (boto ''secretsmanager'' ''create_secret''
                          [(''Name'', PStr secret_name), (''SecretString'', secret_data),
                           (''Description'', PStr ''Consolidated secrets for campaigns agent'')])
                       (\<lambda>response. lift (then_outcome (py_item response ''ARN'') as_str)))
             else Some (exit_with (''Failed to create or update consolidated secret '' @ secret_name)))"

definition ecs_trust_policy :: pyval where
  "ecs_trust_policy =
     PDict [(''Version'', PStr ''2012-10-17''),
       (''Statement'', PList [
          PDict [(''Effect'', PStr ''Allow''),
                 (''Principal'', PDict [(''Service'', PStr ''ecs-tasks.amazonaws.com'')]),
                 (''Action'', PStr ''sts:AssumeRole'')]])]"

definition ecs_inline_policy :: "string \<Rightarrow> pyval" where
  "ecs_inline_policy bucket_name =
     PDict [(''Version'', PStr ''2012-10-17''),
       (''Statement'', PList [
          PDict [(''Sid'', PStr ''AllowS3Access''), (''Effect'', PStr ''Allow''),
                 (''Action'', PList [PStr ''s3:ListBucket'', PStr ''s3:GetObject'',
                                     PStr ''s3:PutObject'', PStr ''s3:DeleteObject'']),
                 (''Resource'', PList [PStr (''arn:aws:s3:::'' @ bucket_name),
                                       PStr (''arn:aws:s3:::'' @ bucket_name @ ''/*'')])],
          PDict [(''Sid'', PStr ''AllowSecretsManagerAccess''), (''Effect'', PStr ''Allow''),
                 (''Action'', PList [PStr ''secretsmanager:GetSecretValue'']),
                 (''Resource'', PStr ''*'')]])]"

definition ensure_ecs_role :: "string \<Rightarrow> string \<Rightarrow> string run" where
  "ensure_ecs_role role_name bucket_name =
     and_then
       (handle
          (and_then (boto ''iam'' ''get_role'' [(''RoleName'', PStr role_name)])
             (\<lambda>role_response. unit ()))
          (on_error_code ''NoSuchEntity''
             (handle
                (and_then
                   (boto ''iam'' ''create_role''
                      [(''RoleName'', PStr role_name),
                       (''AssumeRolePolicyDocument'', ecs_trust_policy),
                       (''Description'',
                          PStr ''Role for campaigns agent with access to S3 and Secrets Manager'')])
                   (\<lambda>role_response. sleep 5))
                (on_client_error (\<lambda>code. exit_with (''Failed to create IAM role '' @ role_name))))))
       (\<lambda>ensured.
          and_then
            (handle
               (boto ''iam'' ''put_role_policy''
                  [(''RoleName'', PStr role_name),
                   (''PolicyName'', PStr ''CampaignsAgentS3AndSecretsPolicy''),
                   (''PolicyDocument'', ecs_inline_policy bucket_name)])
               (on_client_error (\<lambda>code.
                  exit_with (''Failed to attach inline policy to role '' @ role_name))))
            (\<lambda>attached.
               and_then (boto ''iam'' ''get_role'' [(''RoleName'', PStr role_name)])
                 (\<lambda>role_response.
                    lift (then_outcome (then_outcome (py_item role_response ''Role'')
                            (\<lambda>role. py_item role ''Arn'')) as_str))))"

definition ensure_ecs_roles :: "string \<Rightarrow> (string \<times> string) run" where
  "ensure_ecs_roles bucket_name =
     and_then (ensure_ecs_role ''resourcely_campaigns-agent-task-role'' bucket_name)
       (\<lambda>task_role_arn.
          and_then (ensure_ecs_role ''resourcely_campaigns-agent-execution-role'' bucket_name)
            (\<lambda>execution_role_arn. unit (task_role_arn, execution_role_arn)))"

text \<open>\<^verbatim>\<open>ensure_ecs_cluster\<close>: the whole body stands in a \<^verbatim>\<open>try\<close> whose
  \<^verbatim>\<open>except Exception\<close> ends the run.\<close>

definition ensure_ecs_cluster :: "string \<Rightarrow> string run" where
  "ensure_ecs_cluster cluster_name =
     handle
       (and_then (boto ''ecs'' ''describe_clusters'' [(''clusters'', PList [PStr cluster_name])])
          (\<lambda>response.
             and_then
               (lift (then_outcome (py_get response ''failures'' (PList [])) (\<lambda>failures.
                      then_outcome (py_get response ''clusters'' (PList [])) (\<lambda>clusters.
                        if truthy failures \<or> \<not> truthy clusters then Return True
                        else then_outcome (py_first clusters) (\<lambda>cluster.
                             then_outcome (py_item cluster ''status'') (\<lambda>status.
                               Return (\<not> py_eq status (PStr ''ACTIVE''))))))))
               (\<lambda>missing.
                  if missing then
                    and_then (boto ''ecs'' ''create_cluster'' [(''clusterName'', PStr cluster_name)])
                      (\<lambda>create_response. unit cluster_name)
                  else unit cluster_name)))
       (on_exception (\<lambda>e. exit_with ''Error ensuring ECS cluster exists''))"

definition container_definitions :: "string \<Rightarrow> pyval" where
  "container_definitions consolidated_secret_arn =
     PList [PDict [
       (''name'', PStr ''resourcely_campaigns_agent''),
       (''image'', PStr ''ghcr.io/resourcely-inc/campaigns-agent:dev-latest''),
       (''cpu'', PInt 0),
       (''portMappings'', PList []),
       (''essential'', PBool True),
       (''environment'', PList [
          PDict [(''name'', PStr ''AUTH0_DOMAIN''),
                 (''value'', PStr ''https://login.portal.dev.resourcely.io'')],
          PDict [(''name'', PStr ''APP_ENV''), (''value'', PStr ''dev'')],
          PDict [(''name'', PStr ''RESOURCELY_API_HOST''),
                 (''value'', PStr ''https://api.dev.resourcely.io'')],
          PDict [(''name'', PStr ''AUTH0_AUDIENCE''),
                 (''value'', PStr ''https://campaigns-agent.dev.resourcely.io'')]]),
       (''secrets'', PList [
          PDict [(''name'', PStr ''RESOURCELY_NGROK_TUNNEL_SEED''),
                 (''valueFrom'', PStr (consolidated_secret_arn @ '':RESOURCELY_NGROK_TUNNEL_SEED::''))],
          PDict [(''name'', PStr ''RESOURCELY_NGROK_TOKEN''),
                 (''valueFrom'', PStr (consolidated_secret_arn @ '':RESOURCELY_NGROK_TOKEN::''))],
          PDict [(''name'', PStr ''RESOURCELY_API_TOKEN''),
                 (''valueFrom'', PStr (consolidated_secret_arn @ '':RESOURCELY_API_TOKEN::''))]]),
       (''logConfiguration'', PDict [
          (''logDriver'', PStr ''awslogs''),
          (''options'', PDict [
             (''awslogs-group'', PStr ''/ecs/resourcely_campaigns_agent''),
             (''mode'', PStr ''non-blocking''),
             (''awslogs-create-group'', PStr ''true''),
             (''max-buffer-size'', PStr ''25m''),
             (''awslogs-region'', PStr ''us-west-2''),
             (''awslogs-stream-prefix'', PStr ''ecs'')])])]]"

definition service_name :: string where
  "service_name = ''resourcely-campaigns-agent''"

text \<open>The check that opens \<^verbatim>\<open>deploy_as_ecs_service\<close>, after the account id and the
  cluster: does a listed service ARN contain the service name?\<close>

definition service_exists :: "string \<Rightarrow> bool run" where
  "service_exists cluster_name =
     handle
       (and_then (boto ''ecs'' ''list_services'' [(''cluster'', PStr cluster_name)])
          (\<lambda>response.
             lift (then_outcome (py_item response ''serviceArns'') (\<lambda>services.
                   then_outcome (py_iter services) (any_contains service_name)))))
       (on_client_error (\<lambda>code. exit_with ''Failed to list ECS services''))"

definition register_call :: "string \<Rightarrow> string \<Rightarrow> string \<Rightarrow> call" where
  "register_call consolidated_secret_arn task_role_arn execution_role_arn =
     Boto ''ecs'' ''register_task_definition''
       [(''family'', PStr ''resourcely_campaigns_agent''),
        (''requiresCompatibilities'', PList [PStr ''FARGATE'']),
        (''networkMode'', PStr ''awsvpc''),
        (''containerDefinitions'', container_definitions consolidated_secret_arn),
        (''taskRoleArn'', PStr task_role_arn),
        (''executionRoleArn'', PStr execution_role_arn),
        (''cpu'', PStr ''1024''),
        (''memory'', PStr ''3072'')]"

definition register_task_definition :: "string \<Rightarrow> string \<Rightarrow> string \<Rightarrow> pyval run" where
  "register_task_definition consolidated_secret_arn task_role_arn execution_role_arn =
     handle
       (and_then
          (boto ''ecs'' ''register_task_definition''
             [(''family'', PStr ''resourcely_campaigns_agent''),
              (''requiresCompatibilities'', PList [PStr ''FARGATE'']),
              (''networkMode'', PStr ''awsvpc''),
              (''containerDefinitions'', container_definitions consolidated_secret_arn),
              (''taskRoleArn'', PStr task_role_arn),
              (''executionRoleArn'', PStr execution_role_arn),
              (''cpu'', PStr ''1024''),
              (''memory'', PStr ''3072'')])
          (\<lambda>register_response.
             lift (then_outcome (py_item register_response ''taskDefinition'')
                     (\<lambda>task_definition. py_item task_definition ''taskDefinitionArn''))))
       (on_client_error (\<lambda>code. exit_with ''Failed to register task definition''))"

definition create_service_call :: "string \<Rightarrow> pyval \<Rightarrow> pyval \<Rightarrow> pyval \<Rightarrow> call" where
  "create_service_call cluster_name task_def_arn subnets security_groups =
     Boto ''ecs'' ''create_service''
       [(''cluster'', PStr cluster_name),
        (''serviceName'', PStr service_name),
        (''taskDefinition'', task_def_arn),
        (''desiredCount'', PInt 1),
        (''launchType'', PStr ''FARGATE''),
        (''networkConfiguration'',
           PDict [(''awsvpcConfiguration'',
             PDict [(''subnets'', subnets), (''securityGroups'', security_groups),
                    (''assignPublicIp'', PStr ''ENABLED'')])])]"

definition create_service :: "string \<Rightarrow> pyval \<Rightarrow> pyval \<Rightarrow> unit run" where
  "create_service cluster_name task_def_arn network_config =
     handle
       (and_then (lift (py_item network_config ''subnets'')) (\<lambda>subnets.
        and_then (lift (py_item network_config ''securityGroups'')) (\<lambda>security_groups.
        and_then
          (boto ''ecs'' ''create_service''
             [(''cluster'', PStr cluster_name),
              (''serviceName'', PStr service_name),
              (''taskDefinition'', task_def_arn),
              (''desiredCount'', PInt 1),
              (''launchType'', PStr ''FARGATE''),
              (''networkConfiguration'',
                 PDict [(''awsvpcConfiguration'',
                   PDict [(''subnets'', subnets), (''securityGroups'', security_groups),
                          (''assignPublicIp'', PStr ''ENABLED'')])])])
          (\<lambda>response. unit ()))))
       (on_client_error (\<lambda>code. exit_with ''Failed to create ECS service''))"

text \<open>What \<^verbatim>\<open>deploy_as_ecs_service\<close> does once the check has found no service: the
  secret, the two roles, the task definition, the service.\<close>

definition deploy_steps ::
  "pyval \<Rightarrow> pyval \<Rightarrow> pyval \<Rightarrow> string \<Rightarrow> pyval \<Rightarrow> string \<Rightarrow> string \<Rightarrow> unit run" where
  "deploy_steps ngrok_seed ngrok_token resourcely_api_token bucket_name network_config
       account_id cluster_name =
     and_then
       (create_or_update_consolidated_secret
          (''campaigns_agent_resourcely_secrets_'' @ account_id)
          (PDict [(''RESOURCELY_NGROK_TUNNEL_SEED'', ngrok_seed),
                  (''RESOURCELY_NGROK_TOKEN'', ngrok_token),
                  (''RESOURCELY_API_TOKEN'', resourcely_api_token)]))
       (\<lambda>consolidated_secret_arn.
          and_then (ensure_ecs_roles bucket_name) (\<lambda>roles.
          and_then
            (register_task_definition consolidated_secret_arn (fst roles) (snd roles))
            (\<lambda>task_def_arn. create_service cluster_name task_def_arn network_config)))"

definition deploy_as_ecs_service ::
  "pyval \<Rightarrow> pyval \<Rightarrow> pyval \<Rightarrow> string \<Rightarrow> pyval \<Rightarrow> unit run" where
  "deploy_as_ecs_service ngrok_seed ngrok_token resourcely_api_token bucket_name network_config =
     and_then get_account_id (\<lambda>account_id.
     and_then (ensure_ecs_cluster ''resourcely-campaigns'') (\<lambda>cluster_name.
     and_then (service_exists cluster_name) (\<lambda>exists.
       if exists then unit ()
       else deploy_steps ngrok_seed ngrok_token resourcely_api_token bucket_name network_config
              account_id cluster_name)))"

section \<open>Waiting for the plan job\<close>

definition plan_job_name :: string where
  "plan_job_name = ''plan_and_apply / plan-and-apply-app-dev-us-west-2 / Plan Sandbox''"

text \<open>The loop over the jobs of the run: a job of the right name that is completed decides,
  with success or with its conclusion; any other job is passed.\<close>

datatype job_scan = JobSucceeded | JobFailed pyval | JobNotFound

fun scan_jobs :: "pyval list \<Rightarrow> job_scan outcome" where
  "scan_jobs [] = Return JobNotFound"
| "scan_jobs (job # rest) =
     then_outcome (py_get job ''name'' PNone) (\<lambda>name.
       if py_eq name (PStr plan_job_name) then
         then_outcome (py_get job ''status'' PNone) (\<lambda>job_status.
         then_outcome (py_get job ''conclusion'' PNone) (\<lambda>job_conclusion.
           if py_eq job_status (PStr ''completed'') \<and> py_eq job_conclusion (PStr ''success'')
           then Return JobSucceeded
           else if py_eq job_status (PStr ''completed'')
                   \<and> \<not> py_eq job_conclusion (PStr ''success'')
           then Return (JobFailed job_conclusion)
           else scan_jobs rest))
       else scan_jobs rest)"

definition runs_url :: "string \<Rightarrow> string \<Rightarrow> string" where
  "runs_url owner repo = ''https://api.github.com/repos/'' @ owner @ ''/'' @ repo @ ''/actions/runs''"

definition jobs_url :: "string \<Rightarrow> string \<Rightarrow> string \<Rightarrow> string" where
  "jobs_url owner repo run_id =
     ''https://api.github.com/repos/'' @ owner @ ''/'' @ repo @ ''/actions/runs/'' @ run_id @ ''/jobs''"

text \<open>One pass through the body of the \<^verbatim>\<open>while\<close> loop, up to the sleep: \<open>True\<close> when
  the function returns, \<open>False\<close> when the body falls through to \<^verbatim>\<open>time.sleep\<close>. The
  query parameters of the first request are not part of the recorded URL.\<close>

definition plan_job_attempt :: "string \<Rightarrow> string \<Rightarrow> bool run" where
  "plan_job_attempt owner repo =
     and_then (request (HttpGet (runs_url owner repo))) (\<lambda>response.
       if fst response \<noteq> 200 then
         and_then (lift (json_body (snd response)))
           (\<lambda>shown. exit_with ''Failed to retrieve workflow runs'')
       else
         and_then
           (lift (then_outcome (json_body (snd response))
                    (\<lambda>data. py_get data ''workflow_runs'' (PList []))))
           (\<lambda>runs.
              if truthy runs then
                and_then
                  (lift (then_outcome (py_first runs) (\<lambda>latest_run.
                         then_outcome (py_get latest_run ''id'' PNone) py_format)))
                  (\<lambda>run_id.
                     and_then (request (HttpGet (jobs_url owner repo run_id))) (\<lambda>jobs_response.
                       if fst jobs_response \<noteq> 200 then
                         and_then (lift (json_body (snd jobs_response)))
                           (\<lambda>shown. exit_with ''Failed to retrieve jobs for workflow run'')
                       else
                         and_then
                           (lift (then_outcome (json_body (snd jobs_response)) (\<lambda>data.
                                  then_outcome (py_get data ''jobs'' (PList [])) (\<lambda>jobs.
                                  then_outcome (py_iter jobs) scan_jobs))))
                           (\<lambda>scanned.
                              case scanned of
                                JobSucceeded \<Rightarrow> unit True
                              | JobFailed job_conclusion \<Rightarrow>
                                  and_then (lift (py_format job_conclusion)) (\<lambda>shown.
                                    exit_with (''Plan Sandbox job failed with conclusion: '' @ shown))
                              | JobNotFound \<Rightarrow> unit False)))
              else unit False))"

text \<open>
  The \<^verbatim>\<open>while time.time() - start_time < timeout\<close> loop. The clock is outside the
  script, so the loop runs on a list of snapshots: the clock reading at one test of the loop
  condition, and the replies that the remote gives until the next test. When the snapshots
  run out the model is \<open>Stuck\<close>.
\<close>

fun wait_for_plan_job_loop ::
  "string \<Rightarrow> string \<Rightarrow> string \<Rightarrow> real \<Rightarrow> real \<Rightarrow> real \<Rightarrow> (real \<times> reply list) list \<Rightarrow> call list
     \<Rightarrow> unit outcome \<times> call list" where
  "wait_for_plan_job_loop owner repo commit_sha timeout poll_interval start_time [] tr = (Stuck, tr)"
| "wait_for_plan_job_loop owner repo commit_sha timeout poll_interval start_time
       (snapshot # later) tr =
     (if fst snapshot - start_time < timeout then
        (case plan_job_attempt owner repo (snd snapshot, tr) of
           (Return finished, w) \<Rightarrow>
             if finished then (Return (), snd w)
             else wait_for_plan_job_loop owner repo commit_sha timeout poll_interval start_time
                    later (snd (snd (sleep poll_interval w)))
         | (Raise e, w) \<Rightarrow> (Raise e, snd w)
         | (Exit m, w) \<Rightarrow> (Exit m, snd w)
         | (Stuck, w) \<Rightarrow> (Stuck, snd w))
      else (Exit (''Timeout waiting for Plan Sandbox job to complete successfully for commit ''
                  @ commit_sha), tr))"

definition wait_for_plan_job_success ::
  "string \<Rightarrow> string \<Rightarrow> string \<Rightarrow> real \<Rightarrow> real \<Rightarrow> real \<Rightarrow> (real \<times> reply list) list
     \<Rightarrow> unit outcome \<times> call list" where
  "wait_for_plan_job_success owner repo commit_sha timeout poll_interval start_time snapshots =
     wait_for_plan_job_loop owner repo commit_sha timeout poll_interval start_time snapshots []"

section \<open>Diagnostics pollers\<close>

text \<open>
  The three diagnostics pollers share one loop, word for word:
  \<^verbatim>\<open>attempt = 0; while attempt < max_attempts: BODY; attempt += 1;
  if attempt < max_attempts: time.sleep(interval)\<close>, and after the loop a timeout message and
  \<^verbatim>\<open>sys.exit(1)\<close>. The body answers \<open>True\<close> when it returns from the function.
\<close>

function poll_loop :: "bool run \<Rightarrow> string \<Rightarrow> int \<Rightarrow> real \<Rightarrow> int \<Rightarrow> unit run" where
  "poll_loop body timeout_message max_attempts interval attempt w =
     (if attempt < max_attempts then
        (case body w of
           (Return finished, w') \<Rightarrow>
             if finished then (Return (), w')
             else if attempt + 1 < max_attempts
             then poll_loop body timeout_message max_attempts interval (attempt + 1)
                    (snd (sleep interval w'))
             else poll_loop body timeout_message max_attempts interval (attempt + 1) w'
         | (Raise e, w') \<Rightarrow> (Raise e, w')
         | (Exit m, w') \<Rightarrow> (Exit m, w')
         | (Stuck, w') \<Rightarrow> (Stuck, w'))
      else (Exit timeout_message, w))"
  by pat_completeness auto
termination
  by (relation "measure (\<lambda>(body, message, max_attempts, interval, attempt, w).
                          nat (max_attempts - attempt))") auto

declare poll_loop.simps [simp del]

definition yaml_config_url :: string where
  "yaml_config_url = ''https://api.dev.resourcely.io/api/v1/diagnostics/yaml-config''"

definition diagnostics_url :: string where
  "diagnostics_url = ''https://api.dev.resourcely.io/api/v1/diagnostics''"

definition yaml_config_attempt :: "string \<Rightarrow> bool run" where
  "yaml_config_attempt repo_url =
     and_then (request (HttpGet yaml_config_url)) (\<lambda>response.
       if fst response \<noteq> 200 then unit False
       else
         lift (then_outcome (json_body (snd response)) (\<lambda>data.
               then_outcome (py_get data ''repos'' (PDict [])) (\<lambda>repos.
               then_outcome (py_get repos (''https://github.com/'' @ repo_url) PNone) (\<lambda>repo_diag.
                 if truthy repo_diag then
                   then_outcome (py_get repo_diag ''result'' PNone) (\<lambda>result.
                   then_outcome (py_get repo_diag ''errors'' (PList [])) (\<lambda>errors.
                     Return (py_eq result (PStr ''TF_CONFIG_SCAN_RESULT_VALID_CONFIG'')
                             \<and> \<not> truthy errors)))
                 else Return False)))))"

definition poll_yaml_config_diagnostics :: "string \<Rightarrow> int \<Rightarrow> real \<Rightarrow> unit run" where
  "poll_yaml_config_diagnostics repo_url max_attempts interval =
     poll_loop (yaml_config_attempt repo_url)
       ''Timeout: YAML configuration diagnostics did not become valid after maximum attempts.''
       max_attempts interval 0"

definition status_success :: pyval where
  "status_success = PStr ''DIAGNOSTIC_STATUS_SUCCESS''"

text \<open>\<^verbatim>\<open>all(check.get("status") == "DIAGNOSTIC_STATUS_SUCCESS" for check in checks)\<close>
  stops at the first check that is not a success.\<close>

fun all_checks_success :: "pyval list \<Rightarrow> bool outcome" where
  "all_checks_success [] = Return True"
| "all_checks_success (check # rest) =
     then_outcome (py_get check ''status'' PNone) (\<lambda>status.
       if py_eq status status_success then all_checks_success rest else Return False)"

fun scan_diagnostics :: "pyval list \<Rightarrow> bool outcome" where
  "scan_diagnostics [] = Return False"
| "scan_diagnostics (diagnostic # rest) =
     then_outcome (py_get diagnostic ''source'' (PStr [])) (\<lambda>source.
       if py_eq source (PStr ''DIAGNOSTIC_SOURCE_GITLAB'')
          \<or> py_eq source (PStr ''DIAGNOSTIC_SOURCE_GITHUB'') then
         then_outcome (py_get diagnostic ''checks'' (PList [])) (\<lambda>checks.
         then_outcome (py_iter checks) (\<lambda>listed.
         then_outcome (all_checks_success listed) (\<lambda>successful.
           if successful then Return True else scan_diagnostics rest)))
       else scan_diagnostics rest)"

definition diagnostics_attempt :: "bool run" where
  "diagnostics_attempt =
     and_then (request (HttpGet diagnostics_url)) (\<lambda>response.
       if fst response \<noteq> 200 then unit False
       else
         lift (then_outcome (json_body (snd response)) (\<lambda>data.
               then_outcome (py_get data ''diagnostics'' (PList [])) (\<lambda>diagnostics.
               then_outcome (py_iter diagnostics) scan_diagnostics))))"

definition poll_diagnostics :: "int \<Rightarrow> real \<Rightarrow> unit run" where
  "poll_diagnostics max_attempts interval =
     poll_loop diagnostics_attempt
       ''Timeout: GitHub diagnostics did not reach success status after maximum attempts.''
       max_attempts interval 0"

definition required_checks :: "string list" where
  "required_checks =
     [''DIAGNOSTIC_TYPE_CAMPAIGNS_AGENT_REGISTERED'',
      ''DIAGNOSTIC_TYPE_CAMPAIGNS_AGENT_REACHABLE'',
      ''DIAGNOSTIC_TYPE_CAMPAIGNS_AGENT_EVALUATIONS'']"

text \<open>
  The two nested loops of \<^verbatim>\<open>poll_agent_diagnostics\<close> over the diagnostics and their
  checks: \<^verbatim>\<open>check_statuses\<close> starts with \<^verbatim>\<open>None\<close> for every required check and takes
  the status of each check of a required type until that type has a success.
  \<^verbatim>\<open>ctype in required_checks\<close> hashes \<^verbatim>\<open>ctype\<close>, which a list or a dictionary
  does not allow.
\<close>

fun record_check :: "(string \<times> pyval) list \<Rightarrow> pyval \<Rightarrow> (string \<times> pyval) list outcome" where
  "record_check check_statuses check =
     then_outcome (py_get check ''type'' PNone) (\<lambda>ctype.
     then_outcome (py_get check ''status'' PNone) (\<lambda>cstatus.
       case ctype of
         PStr t \<Rightarrow>
           if t \<in> set required_checks then
             (case map_of check_statuses t of
                None \<Rightarrow> Raise KeyError
              | Some current \<Rightarrow>
                  if \<not> py_eq current status_success
                  then Return (dict_set check_statuses t cstatus)
                  else Return check_statuses)
           else Return check_statuses
       | PList xs \<Rightarrow> Raise TypeError
       | PDict kvs \<Rightarrow> Raise TypeError
       | PNone \<Rightarrow> Return check_statuses
       | PBool b \<Rightarrow> Return check_statuses
       | PInt i \<Rightarrow> Return check_statuses))"

fun record_checks :: "(string \<times> pyval) list \<Rightarrow> pyval list \<Rightarrow> (string \<times> pyval) list outcome" where
  "record_checks check_statuses [] = Return check_statuses"
| "record_checks check_statuses (check # rest) =
     then_outcome (record_check check_statuses check) (\<lambda>recorded. record_checks recorded rest)"

fun record_diagnostics ::
  "(string \<times> pyval) list \<Rightarrow> pyval list \<Rightarrow> (string \<times> pyval) list outcome" where
  "record_diagnostics check_statuses [] = Return check_statuses"
| "record_diagnostics check_statuses (diagnostic # rest) =
     then_outcome (py_get diagnostic ''checks'' (PList [])) (\<lambda>checks.
     then_outcome (py_iter checks) (\<lambda>listed.
     then_outcome (record_checks check_statuses listed) (\<lambda>recorded.
       record_diagnostics recorded rest)))"

definition all_success :: "(string \<times> pyval) list \<Rightarrow> bool" where
  "all_success check_statuses =
     list_all (\<lambda>k. case map_of check_statuses k of
                      None \<Rightarrow> False
                    | Some status \<Rightarrow> py_eq status status_success) required_checks"

definition agent_attempt :: "bool run" where
  "agent_attempt =
     and_then (request (HttpGet diagnostics_url)) (\<lambda>response.
       if fst response \<noteq> 200 then exit_with ''Failed to retrieve diagnostics''
       else
         lift (then_outcome (json_body (snd response)) (\<lambda>data.
               then_outcome (py_get data ''diagnostics'' (PList [])) (\<lambda>diagnostics.
               then_outcome (py_iter diagnostics) (\<lambda>listed.
               then_outcome (record_diagnostics (map (\<lambda>k. (k, PNone)) required_checks) listed)
                 (\<lambda>check_statuses. Return (all_success check_statuses)))))))"

definition poll_agent_diagnostics :: "int \<Rightarrow> real \<Rightarrow> unit run" where
  "poll_agent_diagnostics max_attempts interval =
     poll_loop agent_attempt
       ''Timeout: Campaigns agent diagnostics did not become successful after maximum attempts.''
       max_attempts interval 0"

section \<open>The ngrok tunnel\<close>

text \<open>
  \<^verbatim>\<open>load_ngrok_credentials\<close>, as a function of the content of the credential file:
  \<open>None\<close> when there is no file or it does not parse (both give \<^verbatim>\<open>None\<close>), the decoded
  document otherwise. Any exception inside gives \<^verbatim>\<open>None\<close> too.
\<close>

definition load_ngrok_credentials :: "pyval option \<Rightarrow> pyval option" where
  "load_ngrok_credentials credential_file =
     (case credential_file of
        None \<Rightarrow> None
      | Some data \<Rightarrow>
          (case then_outcome (py_get data ''tunnel'' PNone) (\<lambda>tunnel.
                  if truthy tunnel then
                    then_outcome (py_get tunnel ''seed'' PNone) (\<lambda>seed.
                      if truthy seed then
                        then_outcome (py_get tunnel ''auth_token'' PNone)
                          (\<lambda>auth_token. Return (truthy auth_token))
                      else Return False)
                  else Return False) of
             Return usable \<Rightarrow> if usable then Some data else None
           | Raise e \<Rightarrow> None
           | Exit m \<Rightarrow> None
           | Stuck \<Rightarrow> None))"

text \<open>\<^verbatim>\<open>save_ngrok_credentials\<close>; \<open>writable\<close> says whether the file can be written.\<close>

definition save_ngrok_credentials :: "bool \<Rightarrow> pyval \<Rightarrow> unit run" where
  "save_ngrok_credentials writable data w =
     (if writable then (Return (), (fst w, snd w @ [WriteFile ''~/.resourcely/credential'' data]))
      else (Exit ''Failed to save credentials file'', w))"

definition campaigns_url :: string where
  "campaigns_url = ''https://api.dev.resourcely.io/api/v1/infrastructure/campaigns''"

definition ensure_ngrok_setup :: "pyval option \<Rightarrow> bool \<Rightarrow> pyval run" where
  "ensure_ngrok_setup credential_file writable =
     (case load_ngrok_credentials credential_file of
        Some local_creds \<Rightarrow> unit local_creds
      | None \<Rightarrow>
          and_then
            (handle
               (and_then (request (HttpGet campaigns_url)) (\<lambda>response. unit (Some response)))
               (on_exception (\<lambda>e. unit None)))
            (\<lambda>response.
               and_then
                 (lift (case response of
                          None \<Rightarrow> Return PNone
                        | Some r \<Rightarrow> if fst r = 200 then json_body (snd r) else Return PNone))
                 (\<lambda>data.
                    and_then
                      (lift (if truthy data then py_get data ''tunnel'' PNone else Return PNone))
                      (\<lambda>tunnel.
                         if truthy tunnel then
                           and_then (save_ngrok_credentials writable data) (\<lambda>saved. unit data)
                         else
                           and_then (request (HttpPost campaigns_url)) (\<lambda>post_response.
                             if fst post_response \<notin> set [200, 201] then
                               exit_with ''Failed to provision ngrok proxy''
                             else
                               and_then
                                 (lift (then_outcome (json_body (snd post_response)) (\<lambda>new_data.
                                        then_outcome (py_get new_data ''tunnel'' PNone) (\<lambda>tunnel.
                                          Return (new_data, tunnel)))))
                                 (\<lambda>created.
                                    if \<not> truthy (snd created) then
                                      exit_with ''Ngrok proxy was not created successfully.''
                                    else
                                      and_then (save_ngrok_credentials writable (fst created))
                                        (\<lambda>saved.
                                           and_then
                                             (lift (then_outcome
                                                      (py_get (snd created) ''endpoint_url'' PNone)
                                                      (\<lambda>shown. then_outcome
                                                         (py_get (snd created) ''seed'' PNone)
                                                         (\<lambda>shown. py_get (snd created)
                                                                     ''auth_token'' PNone))))
                                             (\<lambda>shown. unit (fst created)))))))))"

section \<open>Names for the calls of the bucket functions\<close>


definition put_role_policy_call :: "string \<Rightarrow> call" where
  "put_role_policy_call role_name =
     Boto ''iam'' ''put_role_policy''
       [(''RoleName'', PStr role_name), (''PolicyName'', PStr ''TerraformStateS3AccessPolicy''),
        (''PolicyDocument'', state_policy_document)]"

definition head_bucket_call :: "string \<Rightarrow> call" where
  "head_bucket_call bucket_name = Boto ''s3'' ''head_bucket'' [(''Bucket'', PStr bucket_name)]"

definition create_bucket_call :: "string \<Rightarrow> string \<Rightarrow> call" where
  "create_bucket_call bucket_name region =
     Boto ''s3'' ''create_bucket''
       [(''Bucket'', PStr bucket_name),
        (''CreateBucketConfiguration'', PDict [(''LocationConstraint'', PStr region)])]"

definition wait_bucket_call :: "string \<Rightarrow> call" where
  "wait_bucket_call bucket_name = Boto ''s3'' ''wait_bucket_exists'' [(''Bucket'', PStr bucket_name)]"

definition put_public_access_block_call :: "string \<Rightarrow> call" where
  "put_public_access_block_call bucket_name =
     Boto ''s3'' ''put_public_access_block''
       [(''Bucket'', PStr bucket_name), (''PublicAccessBlockConfiguration'', public_access_block)]"

definition caller_identity_call :: call where
  "caller_identity_call = Boto ''sts'' ''get_caller_identity'' []"


text \<open>A statement that the loop of \<^verbatim>\<open>apply_bucket_policy\<close> passes: a dictionary whose
  \<^verbatim>\<open>Sid\<close> is missing or is not \<^verbatim>\<open>AllowLocalDockerAccess\<close>.\<close>

definition other_sid :: "pyval \<Rightarrow> bool" where
  "other_sid stmt =
     (case py_get stmt ''Sid'' PNone of
        Return sid \<Rightarrow> \<not> py_eq sid (PStr ''AllowLocalDockerAccess'')
      | _ \<Rightarrow> False)"

definition get_bucket_policy_call :: "string \<Rightarrow> call" where
  "get_bucket_policy_call bucket_name =
     Boto ''s3'' ''get_bucket_policy'' [(''Bucket'', PStr bucket_name)]"

section \<open>Names for the calls of the deployment, and growing traces\<close>

definition list_services_call :: "string \<Rightarrow> call" where
  "list_services_call cluster_name = Boto ''ecs'' ''list_services'' [(''cluster'', PStr cluster_name)]"

definition describe_secret_call :: "string \<Rightarrow> call" where
  "describe_secret_call secret_name =
     Boto ''secretsmanager'' ''describe_secret'' [(''SecretId'', PStr secret_name)]"

text \<open>The calls that register a task definition.\<close>

definition registers :: "call \<Rightarrow> bool" where
  "registers c = (case c of Boto service operation kwargs \<Rightarrow> operation = ''register_task_definition''
                  | _ \<Rightarrow> False)"

text \<open>A run only adds calls to the trace.\<close>

definition grows :: "'a run \<Rightarrow> bool" where
  "grows m = (\<forall>tape tr. prefix tr (snd (snd (m (tape, tr)))))"

section \<open>Names for the jobs of a run\<close>

text \<open>A job that the loop of \<^verbatim>\<open>wait_for_plan_job_success\<close> passes without a decision: a
  dictionary whose name is not the name of the plan job, or whose status is not
  \<^verbatim>\<open>completed\<close>.\<close>

definition undecided :: "pyval \<Rightarrow> bool" where
  "undecided job =
     (case py_get job ''name'' PNone of
        Return name \<Rightarrow>
          if py_eq name (PStr plan_job_name) then
            (case py_get job ''status'' PNone of
               Return job_status \<Rightarrow> \<not> py_eq job_status (PStr ''completed'')
             | _ \<Rightarrow> False)
          else True
      | _ \<Rightarrow> False)"

text \<open>A job of another name.\<close>

definition other_job :: "pyval \<Rightarrow> bool" where
  "other_job job =
     (case py_get job ''name'' PNone of
        Return name \<Rightarrow> \<not> py_eq name (PStr plan_job_name)
      | _ \<Rightarrow> False)"

text \<open>The words printed before \<^verbatim>\<open>sys.exit(1)\<close> when the plan job has failed.\<close>

definition plan_failure_message :: "string \<Rightarrow> string" where
  "plan_failure_message reason = ''Plan Sandbox job failed with conclusion: '' @ reason"

section \<open>Names for what the pollers look for\<close>

text \<open>A diagnostic that the loop of \<^verbatim>\<open>poll_diagnostics\<close> passes: its source is neither
  GitLab nor GitHub.\<close>

definition other_source :: "pyval \<Rightarrow> bool" where
  "other_source diagnostic =
     (case py_get diagnostic ''source'' (PStr []) of
        Return source \<Rightarrow> \<not> py_eq source (PStr ''DIAGNOSTIC_SOURCE_GITLAB'')
                          \<and> \<not> py_eq source (PStr ''DIAGNOSTIC_SOURCE_GITHUB'')
      | _ \<Rightarrow> False)"

text \<open>No check of any diagnostic has the type \<open>k\<close>.\<close>

fun lacks_check :: "string \<Rightarrow> pyval list \<Rightarrow> bool" where
  "lacks_check k [] = True"
| "lacks_check k (diagnostic # rest) =
     (case then_outcome (py_get diagnostic ''checks'' (PList [])) py_iter of
        Return checks \<Rightarrow>
          list_all (\<lambda>check. py_get check ''type'' PNone \<noteq> Return (PStr k)) checks
          \<and> lacks_check k rest
      | _ \<Rightarrow> False)"

text \<open>\<^verbatim>\<open>{k: None for k in required_checks.keys()}\<close>\<close>

definition no_statuses :: "(string \<times> pyval) list" where
  "no_statuses = map (\<lambda>k. (k, PNone)) required_checks"

text \<open>The words printed before \<^verbatim>\<open>sys.exit(1)\<close> when the time for the plan job is over.\<close>

definition plan_timeout_message :: "string \<Rightarrow> string" where
  "plan_timeout_message commit_sha =
     ''Timeout waiting for Plan Sandbox job to complete successfully for commit '' @ commit_sha"

section \<open>Names for the replies to the tunnel and diagnostics requests\<close>

text \<open>The GET of \<^verbatim>\<open>ensure_ngrok_setup\<close> has not given a usable answer: the request raised,
  or the status code is not 200.\<close>

definition get_failed :: "reply \<Rightarrow> bool" where
  "get_failed r = (case r of Fails e \<Rightarrow> True | Http code body \<Rightarrow> code \<noteq> 200 | Ok v \<Rightarrow> False)"

definition credential_path :: string where
  "credential_path = ''~/.resourcely/credential''"

text \<open>A response body that holds a tunnel, and a diagnostics body that reports the
  configuration of a repository as valid.\<close>

definition created_tunnel :: pyval where
  "created_tunnel =
     PDict [(''tunnel'', PDict [(''endpoint_url'', PStr ''https://t.example''),
                                (''seed'', PStr ''s''), (''auth_token'', PStr ''a'')])]"

definition valid_yaml_doc :: "string \<Rightarrow> pyval" where
  "valid_yaml_doc repo_url =
     PDict [(''repos'', PDict [(''https://github.com/'' @ repo_url,
        PDict [(''result'', PStr ''TF_CONFIG_SCAN_RESULT_VALID_CONFIG''), (''errors'', PList [])])])]"

section \<open>The role for GitHub Actions\<close>

text \<open>\<^verbatim>\<open>create_oidc_role\<close>. The trust policy goes to \<^verbatim>\<open>create_role\<close> as the
  document that \<^verbatim>\<open>json.dumps\<close> encodes.\<close>

definition oidc_role_name :: string where
  "oidc_role_name = ''ResourcelyGithubActionsOIDC''"

definition oidc_trust_policy :: "pyval \<Rightarrow> string \<Rightarrow> pyval" where
  "oidc_trust_policy provider_arn repository =
     PDict [(''Version'', PStr ''2012-10-17''),
            (''Statement'', PList [
               PDict [(''Effect'', PStr ''Allow''),
                      (''Principal'', PDict [(''Federated'', provider_arn)]),
                      (''Action'', PStr ''sts:AssumeRoleWithWebIdentity''),
                      (''Condition'', PDict [(''StringLike'', PDict [
                         (''token.actions.githubusercontent.com:sub'',
                            PList [PStr (''repo:'' @ repository @ '':*'')]),
                         (''token.actions.githubusercontent.com:aud'',
                            PStr ''sts.amazonaws.com'')])])]])]"

definition get_oidc_role_call :: call where
  "get_oidc_role_call = Boto ''iam'' ''get_role'' [(''RoleName'', PStr oidc_role_name)]"

definition create_oidc_role_call :: "pyval \<Rightarrow> string \<Rightarrow> call" where
  "create_oidc_role_call provider_arn repository =
     Boto ''iam'' ''create_role''
       [(''RoleName'', PStr oidc_role_name),
        (''AssumeRolePolicyDocument'', oidc_trust_policy provider_arn repository),
        (''Description'', PStr ''Role for GitHub Actions OIDC'')]"

definition role_timeout_message :: string where
  "role_timeout_message =
     ''Timeout waiting for IAM role '' @ oidc_role_name @ '' to become available.''"

text \<open>
  The loop \<^verbatim>\<open>for _ in range(10)\<close> that waits for the new role, on the number of rounds
  that are left: \<^verbatim>\<open>get_role\<close> answering ends the loop, \<^verbatim>\<open>NoSuchEntityException\<close>
  sleeps three seconds and goes to the next round, and the \<^verbatim>\<open>else\<close> branch of the loop
  prints the timeout and exits. Any other exception leaves the loop.
\<close>

fun role_wait_loop :: "nat \<Rightarrow> unit run" where
  "role_wait_loop 0 = exit_with role_timeout_message"
| "role_wait_loop (Suc remaining) =
     handle
       (and_then (boto ''iam'' ''get_role'' [(''RoleName'', PStr oidc_role_name)])
          (\<lambda>found. unit ()))
       (on_error_code ''NoSuchEntity''
          (and_then (sleep 3) (\<lambda>slept. role_wait_loop remaining)))"

definition create_oidc_role :: "pyval \<Rightarrow> string \<Rightarrow> string run" where
  "create_oidc_role provider_arn repository =
     and_then
       (handle
          (and_then (boto ''iam'' ''get_role'' [(''RoleName'', PStr oidc_role_name)])
             (\<lambda>found. unit ()))
          (on_error_code ''NoSuchEntity''
             (handle
                (and_then
                   (boto ''iam'' ''create_role''
                      [(''RoleName'', PStr oidc_role_name),
                       (''AssumeRolePolicyDocument'', oidc_trust_policy provider_arn repository),
                       (''Description'', PStr ''Role for GitHub Actions OIDC'')])
                   (\<lambda>created. role_wait_loop 10))
                (on_client_error (\<lambda>code. exit_with ''Failed to create IAM role'')))))
       (\<lambda>ensured. unit oidc_role_name)"

text \<open>The reply of \<^verbatim>\<open>get_role\<close> for a role that does not exist.\<close>

definition no_such_role :: reply where
  "no_such_role = Fails (ClientError ''NoSuchEntity'')"

section \<open>Waiting for the ECS service\<close>

text \<open>\<^verbatim>\<open>for task in tasks: if task.get("lastStatus") == "RUNNING": return\<close>\<close>

fun any_running :: "pyval list \<Rightarrow> bool outcome" where
  "any_running [] = Return False"
| "any_running (task # rest) =
     then_outcome (py_get task ''lastStatus'' PNone) (\<lambda>last_status.
       if py_eq last_status (PStr ''RUNNING'') then Return True else any_running rest)"

definition list_tasks_call :: "string \<Rightarrow> string \<Rightarrow> call" where
  "list_tasks_call cluster_name service =
     Boto ''ecs'' ''list_tasks'' [(''cluster'', PStr cluster_name), (''serviceName'', PStr service)]"

definition describe_tasks_call :: "string \<Rightarrow> pyval \<Rightarrow> call" where
  "describe_tasks_call cluster_name task_arns =
     Boto ''ecs'' ''describe_tasks'' [(''cluster'', PStr cluster_name), (''tasks'', task_arns)]"

text \<open>
  One pass through the body of the \<^verbatim>\<open>while\<close> loop of
  \<^verbatim>\<open>wait_for_ecs_service_running\<close>, up to the sleep: \<open>True\<close> when the function returns,
  \<open>False\<close> on the two paths that sleep. Each of the two calls stands with its \<^verbatim>\<open>.get\<close>
  in a \<^verbatim>\<open>try\<close> block whose \<^verbatim>\<open>except Exception\<close> prints and exits.
\<close>

definition ecs_attempt :: "string \<Rightarrow> string \<Rightarrow> bool run" where
  "ecs_attempt cluster_name service =
     and_then
       (handle
          (and_then
             (boto ''ecs'' ''list_tasks''
                [(''cluster'', PStr cluster_name), (''serviceName'', PStr service)])
             (\<lambda>response. lift (py_get response ''taskArns'' (PList []))))
          (on_exception (\<lambda>e. exit_with ''Error listing ECS tasks'')))
       (\<lambda>task_arns.
          if \<not> truthy task_arns then unit False
          else
            and_then
              (handle
                 (and_then
                    (boto ''ecs'' ''describe_tasks''
                       [(''cluster'', PStr cluster_name), (''tasks'', task_arns)])
                    (\<lambda>response. lift (py_get response ''tasks'' (PList []))))
                 (on_exception (\<lambda>e. exit_with ''Error describing ECS tasks'')))
              (\<lambda>tasks. lift (then_outcome (py_iter tasks) any_running)))"

definition ecs_timeout_message :: string where
  "ecs_timeout_message = ''Timeout waiting for ECS service tasks to reach RUNNING state.''"

text \<open>The \<^verbatim>\<open>while time.time() - start_time < timeout\<close> loop, on snapshots of the clock as
  in \<^verbatim>\<open>wait_for_plan_job_success\<close>.\<close>

fun wait_for_ecs_loop ::
  "string \<Rightarrow> string \<Rightarrow> real \<Rightarrow> real \<Rightarrow> real \<Rightarrow> (real \<times> reply list) list \<Rightarrow> call list
     \<Rightarrow> unit outcome \<times> call list" where
  "wait_for_ecs_loop cluster_name service timeout poll_interval start_time [] tr = (Stuck, tr)"
| "wait_for_ecs_loop cluster_name service timeout poll_interval start_time (snapshot # later) tr =
     (if fst snapshot - start_time < timeout then
        (case ecs_attempt cluster_name service (snd snapshot, tr) of
           (Return finished, w) \<Rightarrow>
             if finished then (Return (), snd w)
             else wait_for_ecs_loop cluster_name service timeout poll_interval start_time
                    later (snd (snd (sleep poll_interval w)))
         | (Raise e, w) \<Rightarrow> (Raise e, snd w)
         | (Exit m, w) \<Rightarrow> (Exit m, snd w)
         | (Stuck, w) \<Rightarrow> (Stuck, snd w))
      else (Exit ecs_timeout_message, tr))"

definition wait_for_ecs_service_running ::
  "string \<Rightarrow> string \<Rightarrow> real \<Rightarrow> real \<Rightarrow> real \<Rightarrow> (real \<times> reply list) list
     \<Rightarrow> unit outcome \<times> call list" where
  "wait_for_ecs_service_running cluster_name service timeout poll_interval start_time snapshots =
     wait_for_ecs_loop cluster_name service timeout poll_interval start_time snapshots []"

text \<open>A reply that makes the \<^verbatim>\<open>try\<close> block around an ECS call and its
  \<^verbatim>\<open>.get(key, [])\<close> end in the \<^verbatim>\<open>except\<close> clause: the call raises, or its
  answer is not a dictionary.\<close>

definition call_failed :: "string \<Rightarrow> reply \<Rightarrow> bool" where
  "call_failed key r =
     (case r of
        Fails e \<Rightarrow> True
      | Ok v \<Rightarrow> (case py_get v key (PList []) of Raise e \<Rightarrow> True | _ \<Rightarrow> False)
      | Http code body \<Rightarrow> False)"

text \<open>A job that makes \<^verbatim>\<open>wait_for_plan_job_success\<close> end the run: it has the name of the
  plan job, the status \<^verbatim>\<open>completed\<close> and the given conclusion, which is not
  \<^verbatim>\<open>success\<close>.\<close>

definition failed_plan_job :: "pyval \<Rightarrow> pyval \<Rightarrow> bool" where
  "failed_plan_job conclusion job =
     (py_get job ''name'' PNone = Return (PStr plan_job_name) \<and>
      py_get job ''status'' PNone = Return (PStr ''completed'') \<and>
      py_get job ''conclusion'' PNone = Return conclusion \<and>
      \<not> py_eq conclusion (PStr ''success''))"

text \<open>The answer of GitHub and of the diagnostics service when the resource is not there.\<close>

definition not_found_body :: pyval where
  "not_found_body = PDict [(''message'', PStr ''Not Found'')]"

section \<open>Properties: parsing and prompts\<close>

lemma takeWhile_not_slash:
  "CHR ''/'' \<notin> set xs \<Longrightarrow> takeWhile not_slash (xs @ CHR ''/'' # ys) = xs"
  by (induction xs) (auto simp: not_slash_def)

lemma dropWhile_not_slash:
  "CHR ''/'' \<notin> set xs \<Longrightarrow> dropWhile not_slash (xs @ CHR ''/'' # ys) = CHR ''/'' # ys"
  by (induction xs) (auto simp: not_slash_def)

lemma takeWhile_not_slash_end:
  "CHR ''/'' \<notin> set xs \<Longrightarrow> (case rest of [] \<Rightarrow> True | c # cs \<Rightarrow> c = CHR ''/'') \<Longrightarrow>
   takeWhile not_slash (xs @ rest) = xs"
  by (induction xs) (auto simp: not_slash_def split: list.splits)

lemma re_match_repo_segments:
  assumes "repo_segments owner repo rest"
  shows "re_match_repo literal (literal @ owner @ ''/'' @ repo @ rest) = Some (owner, repo)"
proof -
  let ?r = "owner @ CHR ''/'' # (repo @ rest)"
  from assms have o: "CHR ''/'' \<notin> set owner" "owner \<noteq> []"
    and rp: "CHR ''/'' \<notin> set repo" "repo \<noteq> []"
    and e: "case rest of [] \<Rightarrow> True | c # cs \<Rightarrow> c = CHR ''/''"
    by (simp_all add: repo_segments_def)
  have 1: "takeWhile not_slash ?r = owner" using o(1) by (rule takeWhile_not_slash)
  have 2: "dropWhile not_slash ?r = CHR ''/'' # (repo @ rest)"
    using o(1) by (rule dropWhile_not_slash)
  have 3: "takeWhile not_slash (repo @ rest) = repo"
    using rp(1) e by (rule takeWhile_not_slash_end)
  have "re_match_repo literal (literal @ ?r) = Some (owner, repo)"
    unfolding re_match_repo_def Let_def using 1 2 3 o rp by simp
  then show ?thesis by simp
qed

lemma re_match_repo_Some:
  assumes "re_match_repo literal url = Some (owner, repo)"
  shows "\<exists>rest. url = literal @ owner @ ''/'' @ repo @ rest \<and> repo_segments owner repo rest"
proof -
  from assms have p: "prefix literal url"
    by (auto simp: re_match_repo_def split: if_splits)
  define r where "r = drop (length literal) url"
  define after where "after = dropWhile not_slash r"
  from p have url: "url = literal @ r" by (auto simp: r_def prefix_def)
  from assms have o: "owner = takeWhile not_slash r" "owner \<noteq> []" "after \<noteq> []"
    and rp: "repo = takeWhile not_slash (tl after)" "repo \<noteq> []"
    by (auto simp: re_match_repo_def Let_def r_def after_def split: if_splits)
  have r: "r = owner @ after" by (simp add: o after_def)
  from o(3) have "hd after = CHR ''/''"
    using hd_dropWhile[of not_slash r] by (auto simp: after_def not_slash_def)
  with o(3) have a: "after = CHR ''/'' # tl after" by (cases after) auto
  define rest where "rest = dropWhile not_slash (tl after)"
  have t: "tl after = repo @ rest" by (simp add: rp rest_def)
  have "case rest of [] \<Rightarrow> True | c # cs \<Rightarrow> c = CHR ''/''"
  proof (cases rest)
    case (Cons c cs)
    then have "\<not> not_slash (hd (dropWhile not_slash (tl after)))"
      using hd_dropWhile[of not_slash "tl after"] by (simp add: rest_def)
    with Cons show ?thesis by (simp add: rest_def not_slash_def)
  qed simp
  moreover have "CHR ''/'' \<notin> set owner" "CHR ''/'' \<notin> set repo"
    using set_takeWhileD[of "CHR ''/''" not_slash] by (auto simp: o rp not_slash_def)
  moreover have "url = literal @ owner @ ''/'' @ repo @ rest"
    using url r a t by simp
  ultimately show ?thesis using o rp by (auto simp: repo_segments_def)
qed

lemma ssh_not_https: "re_match_repo ssh_literal (https_literal @ x) = None"
  by (simp add: re_match_repo_def ssh_literal_def https_literal_def)

lemma py_replace_occurrence:
  assumes "old \<noteq> []" and "\<not> sublist old (a @ butlast old)"
  shows "py_replace old new (a @ old @ b) = a @ new @ py_replace old new b"
  using assms(2)
proof (induction a)
  case Nil
  from assms(1) show ?case by (subst py_replace.simps) simp
next
  case (Cons c a)
  have np: "\<not> prefix old ((c # a) @ old @ b)"
  proof
    assume "prefix old ((c # a) @ old @ b)"
    then have "old = take (length old) ((c # a) @ old @ b)"
      by (metis append_eq_conv_conj prefix_def)
    also have "\<dots> = take (length old) ((c # a) @ butlast old)"
      using assms(1) by (cases old rule: rev_cases) auto
    finally have "prefix old ((c # a) @ butlast old)"
      by (metis take_is_prefix)
    then show False using Cons.prems by (meson prefix_imp_sublist)
  qed
  have "\<not> sublist old (a @ butlast old)"
    using Cons.prems by (auto simp: sublist_Cons_right)
  with Cons.IH have ih: "py_replace old new (a @ old @ b) = a @ new @ py_replace old new b" .
  show ?case
    using np assms(1) ih by (subst py_replace.simps) simp
qed

lemma py_replace_absent:
  assumes "old \<noteq> []" and "\<not> sublist old s"
  shows "py_replace old new s = s"
  using assms(2)
proof (induction s)
  case Nil
  from assms(1) show ?case by (subst py_replace.simps) simp
next
  case (Cons c s)
  from Cons.prems have np: "\<not> prefix old (c # s)" by (meson prefix_imp_sublist)
  from Cons.prems have "\<not> sublist old s" by (auto simp: sublist_Cons_right)
  with Cons.IH have "py_replace old new s = s" .
  with np assms(1) show ?case by (subst py_replace.simps) simp
qed

text \<open>
  Claim C10. A URL that consists of the SSH or HTTPS literal, an owner and a repository
  segment (neither empty, neither containing a slash, the repository segment ending at the
  end of the URL or at a slash) is parsed to the owner, unchanged, and to the repository
  segment after Python's \<^verbatim>\<open>replace(".git", "")\<close>. That replacement removes an
  occurrence of \<^verbatim>\<open>.git\<close> wherever it stands, not only at the end: when the first
  occurrence follows the text \<open>a\<close>, the result is \<open>a\<close> followed by the replacement of
  what comes after the occurrence; a text in which \<^verbatim>\<open>.git\<close> does not occur comes back
  unchanged, so a repository segment without \<^verbatim>\<open>.git\<close> is returned as it stands. A URL
  that has no such decomposition ends the run.
\<close>

theorem parse_github_repo_spec:
  "((literal = ssh_literal \<or> literal = https_literal) \<and> repo_segments owner repo rest
      \<longrightarrow> parse_github_repo (literal @ owner @ ''/'' @ repo @ rest) =
          Return (owner, py_replace ''.git'' '''' repo))
   \<and> (\<not> sublist ''.git'' (a @ ''.gi'')
      \<longrightarrow> py_replace ''.git'' '''' (a @ ''.git'' @ b) = a @ py_replace ''.git'' '''' b)
   \<and> ((\<forall>l ow r rs.
         (l = ssh_literal \<or> l = https_literal) \<and> repo_segments ow r rs
         \<longrightarrow> url \<noteq> l @ ow @ ''/'' @ r @ rs)
       \<longrightarrow> parse_github_repo url =
           Exit (''Could not parse GitHub repository info from remote URL: '' @ url))
   \<and> (\<not> sublist ''.git'' plain \<longrightarrow> py_replace ''.git'' '''' plain = plain)
   \<and> ((literal = ssh_literal \<or> literal = https_literal) \<and> repo_segments owner repo rest \<and>
       \<not> sublist ''.git'' repo
      \<longrightarrow> parse_github_repo (literal @ owner @ ''/'' @ repo @ rest) = Return (owner, repo))"
proof (intro conjI impI)
  assume a: "(literal = ssh_literal \<or> literal = https_literal) \<and> repo_segments owner repo rest"
  let ?url = "literal @ owner @ ''/'' @ repo @ rest"
  from a have m: "re_match_repo literal ?url = Some (owner, repo)"
    using re_match_repo_segments by simp
  from a consider "literal = ssh_literal" | "literal = https_literal" by blast
  then show "parse_github_repo ?url = Return (owner, py_replace ''.git'' '''' repo)"
  proof cases
    case 1
    with m show ?thesis by (simp add: parse_github_repo_def)
  next
    case 2
    then have "re_match_repo ssh_literal ?url = None" using ssh_not_https by simp
    with m 2 show ?thesis by (simp add: parse_github_repo_def)
  qed
next
  assume "\<not> sublist ''.git'' (a @ ''.gi'')"
  then show "py_replace ''.git'' '''' (a @ ''.git'' @ b) = a @ py_replace ''.git'' '''' b"
    using py_replace_occurrence[of "''.git''" a "''''" b] by simp
next
  assume n: "\<forall>l ow r rs.
         (l = ssh_literal \<or> l = https_literal) \<and> repo_segments ow r rs
         \<longrightarrow> url \<noteq> l @ ow @ ''/'' @ r @ rs"
  have "re_match_repo ssh_literal url = None"
  proof (cases "re_match_repo ssh_literal url")
    case (Some m)
    then show ?thesis using re_match_repo_Some[of ssh_literal url "fst m" "snd m"] n by auto
  qed simp
  moreover have "re_match_repo https_literal url = None"
  proof (cases "re_match_repo https_literal url")
    case (Some m)
    then show ?thesis using re_match_repo_Some[of https_literal url "fst m" "snd m"] n by auto
  qed simp
  ultimately show "parse_github_repo url =
           Exit (''Could not parse GitHub repository info from remote URL: '' @ url)"
    by (simp add: parse_github_repo_def)
next
  assume "\<not> sublist ''.git'' plain"
  then show "py_replace ''.git'' '''' plain = plain"
    using py_replace_absent[of "''.git''" plain "''''"] by simp
next
  assume a: "(literal = ssh_literal \<or> literal = https_literal) \<and> repo_segments owner repo rest \<and>
       \<not> sublist ''.git'' repo"
  let ?url = "literal @ owner @ ''/'' @ repo @ rest"
  from a have m: "re_match_repo literal ?url = Some (owner, repo)"
    using re_match_repo_segments by simp
  from a have r: "py_replace ''.git'' '''' repo = repo"
    using py_replace_absent[of "''.git''" repo "''''"] by simp
  from a consider "literal = ssh_literal" | "literal = https_literal" by blast
  then show "parse_github_repo ?url = Return (owner, repo)"
  proof cases
    case 1
    with m r show ?thesis by (simp add: parse_github_repo_def)
  next
    case 2
    then have "re_match_repo ssh_literal ?url = None" using ssh_not_https by simp
    with m r 2 show ?thesis by (simp add: parse_github_repo_def)
  qed
qed

theorem parse_github_repo_spec_witness:
  "parse_github_repo ''git@github.com:acme/x.github.io.git'' = Return (''acme'', ''xhub.io'')
   \<and> py_replace ''.git'' '''' ''x.github.io.git'' = ''x'' @ py_replace ''.git'' '''' ''hub.io.git''
   \<and> parse_github_repo ''https://gitlab.com/acme/x'' =
       Exit ''Could not parse GitHub repository info from remote URL: https://gitlab.com/acme/x''
   \<and> py_replace ''.git'' '''' ''infra'' = ''infra''
   \<and> parse_github_repo ''https://github.com/acme/infra/tree/main'' = Return (''acme'', ''infra'')"
proof -
  have 1: "repo_segments ''acme'' ''x.github.io.git'' []" by (simp add: repo_segments_def)
  have 2: "\<not> sublist ''.git'' (''x'' @ ''.gi'')" by (simp add: sublist_code)
  have 3: "\<forall>l ow r rs.
         (l = ssh_literal \<or> l = https_literal) \<and> repo_segments ow r rs
         \<longrightarrow> ''https://gitlab.com/acme/x'' \<noteq> l @ ow @ ''/'' @ r @ rs"
    by (auto simp: ssh_literal_def https_literal_def)
  have 4: "py_replace ''.git'' '''' ''x.github.io.git'' = ''xhub.io''"
    by (simp add: py_replace.simps)
  have 5: "repo_segments ''acme'' ''infra'' ''/tree/main''" by (simp add: repo_segments_def)
  have 6: "\<not> sublist ''.git'' ''infra''" by (simp add: sublist_code)
  have first: "parse_github_repo ''git@github.com:acme/x.github.io.git'' = Return (''acme'', ''xhub.io'')
   \<and> py_replace ''.git'' '''' ''x.github.io.git'' = ''x'' @ py_replace ''.git'' '''' ''hub.io.git''
   \<and> parse_github_repo ''https://gitlab.com/acme/x'' =
       Exit ''Could not parse GitHub repository info from remote URL: https://gitlab.com/acme/x''
   \<and> py_replace ''.git'' '''' ''infra'' = ''infra''"
    using 1 2 3 4 6
      parse_github_repo_spec[where literal = ssh_literal and owner = "''acme''"
        and repo = "''x.github.io.git''" and rest = "[]" and a = "''x''" and b = "''hub.io.git''"
        and url = "''https://gitlab.com/acme/x''" and plain = "''infra''"]
    by (simp add: ssh_literal_def)
  have second: "parse_github_repo ''https://github.com/acme/infra/tree/main'' =
                  Return (''acme'', ''infra'')"
    using 5 6
      parse_github_repo_spec[where literal = https_literal and owner = "''acme''"
        and repo = "''infra''" and rest = "''/tree/main''" and a = "[]" and b = "[]"
        and url = "[]" and plain = "''infra''"]
    by (simp add: https_literal_def)
  from first second show ?thesis by simp
qed








section \<open>Properties: the run layer\<close>

lemmas run_defs = and_then_def handle_def unit_def lift_def exit_with_def boto_def request_def
  sleep_def on_client_error_def on_error_code_def on_exception_def

lemma and_then_Return: "m w = (Return a, w') \<Longrightarrow> and_then m f w = f a w'"
  by (simp add: and_then_def)








section \<open>Properties: bucket and role policy\<close>

lemmas call_defs = put_role_policy_call_def head_bucket_call_def create_bucket_call_def
  wait_bucket_call_def put_public_access_block_call_def caller_identity_call_def

lemma attach_calls:
  "calls_of (attach_s3_policy_to_role role_name bucket_name) tape = [put_role_policy_call role_name]"
  by (cases tape)
     (auto simp: calls_of_def attach_s3_policy_to_role_def run_defs call_defs Let_def
           split: reply.splits exn.splits)

lemma attach_world:
  "attach_s3_policy_to_role role_name bucket_name (Ok v # tape, tr) =
     (Return (), (tape, tr @ [put_role_policy_call role_name]))"
  by (simp add: attach_s3_policy_to_role_def run_defs call_defs)

lemma attach_snd:
  "snd (snd (attach_s3_policy_to_role role_name bucket_name (tape, tr))) =
     tr @ [put_role_policy_call role_name]"
  by (cases tape)
     (auto simp: attach_s3_policy_to_role_def run_defs call_defs Let_def
           split: reply.splits exn.splits)

lemma create_s3_bucket_existing:
  assumes "py_item identity ''Account'' = Return (PStr account_id)"
  shows "create_s3_bucket base region (Ok identity # Ok head # Ok put # tape, tr) =
     (Return (base @ ''-'' @ account_id @ ''-'' @ region),
      (tape, tr @ [caller_identity_call,
                   head_bucket_call (base @ ''-'' @ account_id @ ''-'' @ region),
                   put_public_access_block_call (base @ ''-'' @ account_id @ ''-'' @ region)]))"
  using assms
  by (simp add: create_s3_bucket_def get_account_id_def run_defs call_defs Let_def)

lemma create_s3_bucket_absent:
  assumes "py_item identity ''Account'' = Return (PStr account_id)"
      and "code = ''404'' \<or> code = ''NoSuchBucket''"
  shows "create_s3_bucket base region
           (Ok identity # Fails (ClientError code) # Ok created # Ok waited # Ok put # tape, tr) =
     (Return (base @ ''-'' @ account_id @ ''-'' @ region),
      (tape, tr @ [caller_identity_call,
                   head_bucket_call (base @ ''-'' @ account_id @ ''-'' @ region),
                   create_bucket_call (base @ ''-'' @ account_id @ ''-'' @ region) region,
                   wait_bucket_call (base @ ''-'' @ account_id @ ''-'' @ region),
                   put_public_access_block_call (base @ ''-'' @ account_id @ ''-'' @ region)]))"
  using assms
  by (auto simp add: create_s3_bucket_def get_account_id_def run_defs call_defs Let_def)

lemma mutating_calls [simp]:
  "mutating (put_role_policy_call r)" "\<not> reading (put_role_policy_call r)"
  "\<not> mutating (head_bucket_call b)" "reading (head_bucket_call b)"
  "mutating (create_bucket_call b g)" "\<not> reading (create_bucket_call b g)"
  "\<not> mutating (wait_bucket_call b)" "reading (wait_bucket_call b)"
  "mutating (put_public_access_block_call b)" "\<not> reading (put_public_access_block_call b)"
  "\<not> mutating caller_identity_call" "reading caller_identity_call"
  by (simp_all add: call_defs read_operation_def)

text \<open>
  Claim C1, as the code has it. \<^verbatim>\<open>attach_s3_policy_to_role\<close> makes exactly one remote
  call on every invocation, whatever the remote answers: the mutating
  \<^verbatim>\<open>put_role_policy\<close>; two invocations in sequence make it twice. \<^verbatim>\<open>create_s3_bucket\<close>
  on a bucket that exists makes two read calls (\<^verbatim>\<open>get_caller_identity\<close>,
  \<^verbatim>\<open>head_bucket\<close>) and one mutating call (\<^verbatim>\<open>put_public_access_block\<close>) and returns
  the bucket name. When the first of two invocations finds no bucket, the two together
  create the bucket once and put the public access block twice.
\<close>

theorem ensure_operations_put_every_time:
  "calls_of (attach_s3_policy_to_role role_name state_bucket) tape = [put_role_policy_call role_name]
   \<and> mutating (put_role_policy_call role_name)
   \<and> calls_of (twice (attach_s3_policy_to_role role_name state_bucket)) (Ok v # tape) =
       [put_role_policy_call role_name, put_role_policy_call role_name]
   \<and> (py_item identity ''Account'' = Return (PStr account_id) \<and>
        bucket_name = base @ ''-'' @ account_id @ ''-'' @ region \<longrightarrow>
      create_s3_bucket base region (Ok identity # Ok head # Ok put # tape, tr) =
        (Return bucket_name,
         (tape, tr @ [caller_identity_call, head_bucket_call bucket_name,
                      put_public_access_block_call bucket_name])))
   \<and> reading caller_identity_call \<and> reading (head_bucket_call bucket_name)
   \<and> mutating (put_public_access_block_call bucket_name)
   \<and> (py_item identity ''Account'' = Return (PStr account_id) \<and>
        bucket_name = base @ ''-'' @ account_id @ ''-'' @ region \<and>
        (code = ''404'' \<or> code = ''NoSuchBucket'') \<longrightarrow>
      filter mutating (calls_of (twice (create_s3_bucket base region))
        (Ok identity # Fails (ClientError code) # Ok created # Ok waited # Ok put #
         Ok identity # Ok head # Ok put' # tape)) =
        [create_bucket_call bucket_name region, put_public_access_block_call bucket_name,
         put_public_access_block_call bucket_name])"
proof (intro conjI impI)
  show "calls_of (attach_s3_policy_to_role role_name state_bucket) tape =
          [put_role_policy_call role_name]"
    by (rule attach_calls)
  show "mutating (put_role_policy_call role_name)"
    and "reading caller_identity_call" and "reading (head_bucket_call bucket_name)"
    and "mutating (put_public_access_block_call bucket_name)"
    by simp_all
  show "calls_of (twice (attach_s3_policy_to_role role_name state_bucket)) (Ok v # tape) =
       [put_role_policy_call role_name, put_role_policy_call role_name]"
    by (simp add: calls_of_def twice_def and_then_def attach_world attach_snd)
next
  assume "py_item identity ''Account'' = Return (PStr account_id) \<and>
        bucket_name = base @ ''-'' @ account_id @ ''-'' @ region"
  then show "create_s3_bucket base region (Ok identity # Ok head # Ok put # tape, tr) =
        (Return bucket_name,
         (tape, tr @ [caller_identity_call, head_bucket_call bucket_name,
                      put_public_access_block_call bucket_name]))"
    using create_s3_bucket_existing by simp
next
  assume a: "py_item identity ''Account'' = Return (PStr account_id) \<and>
        bucket_name = base @ ''-'' @ account_id @ ''-'' @ region \<and>
        (code = ''404'' \<or> code = ''NoSuchBucket'')"
  then have 1: "py_item identity ''Account'' = Return (PStr account_id)"
    and 2: "code = ''404'' \<or> code = ''NoSuchBucket''" by simp_all
  show "filter mutating (calls_of (twice (create_s3_bucket base region))
        (Ok identity # Fails (ClientError code) # Ok created # Ok waited # Ok put #
         Ok identity # Ok head # Ok put' # tape)) =
        [create_bucket_call bucket_name region, put_public_access_block_call bucket_name,
         put_public_access_block_call bucket_name]"
    using a
    by (simp add: calls_of_def twice_def and_then_def create_s3_bucket_absent[OF 1 2]
        create_s3_bucket_existing[OF 1])
qed

theorem ensure_operations_put_every_time_witness:
  "create_s3_bucket ''resourcely-campaigns-terraform-state'' ''us-west-2''
     ([Ok (PDict [(''Account'', PStr ''123456789012'')]), Ok (PDict []), Ok (PDict [])], []) =
     (Return ''resourcely-campaigns-terraform-state-123456789012-us-west-2'',
      ([], [caller_identity_call,
            head_bucket_call ''resourcely-campaigns-terraform-state-123456789012-us-west-2'',
            put_public_access_block_call
              ''resourcely-campaigns-terraform-state-123456789012-us-west-2'']))
   \<and> length (filter mutating (calls_of (twice (create_s3_bucket ''resourcely-campaigns-terraform-state'' ''us-west-2''))
        [Ok (PDict [(''Account'', PStr ''123456789012'')]), Fails (ClientError ''404''),
         Ok (PDict []), Ok (PDict []), Ok (PDict []),
         Ok (PDict [(''Account'', PStr ''123456789012'')]), Ok (PDict []), Ok (PDict [])])) = 3"
  using ensure_operations_put_every_time[where identity = "PDict [(''Account'', PStr ''123456789012'')]"
      and account_id = "''123456789012''" and base = "''resourcely-campaigns-terraform-state''"
      and region = "''us-west-2''" and code = "''404''" and tape = "[]" and tr = "[]"
      and bucket_name = "''resourcely-campaigns-terraform-state-123456789012-us-west-2''"]
  by simp

text \<open>
  Claim C1 as stated fails: two invocations of \<^verbatim>\<open>attach_s3_policy_to_role\<close> with the
  same role make two mutating calls, and \<^verbatim>\<open>create_s3_bucket\<close> in the steady state makes
  a mutating call and two read calls.
\<close>

theorem idempotence_counterexample:
  "\<not> length (filter mutating
        (calls_of (twice (attach_s3_policy_to_role ''ResourcelyGithubActionsOIDC''
                     ''resourcely-campaigns-terraform-state-123456789012-us-west-2''))
           [Ok (PDict []), Ok (PDict [])])) \<le> 1
   \<and> filter mutating
        (calls_of (create_s3_bucket ''resourcely-campaigns-terraform-state'' ''us-west-2'')
           [Ok (PDict [(''Account'', PStr ''123456789012'')]), Ok (PDict []), Ok (PDict [])]) \<noteq> []
   \<and> \<not> length (filter reading
        (calls_of (create_s3_bucket ''resourcely-campaigns-terraform-state'' ''us-west-2'')
           [Ok (PDict [(''Account'', PStr ''123456789012'')]), Ok (PDict []), Ok (PDict [])])) \<le> 1"
  by (simp add: calls_of_def twice_def attach_s3_policy_to_role_def create_s3_bucket_def
      get_account_id_def run_defs read_operation_def Let_def)

section \<open>Properties: bucket policy\<close>

lemma scan_statements_other:
  assumes "list_all other_sid before"
      and "scan_statements intended (stmt # rest) = Return AlreadyApplied"
  shows "scan_statements intended (before @ stmt # rest) = Return AlreadyApplied"
  using assms
proof (induction before)
  case Nil
  then show ?case by simp
next
  case (Cons s before)
  then have "other_sid s" and ih: "scan_statements intended (before @ stmt # rest) = Return AlreadyApplied"
    by simp_all
  from this(1) obtain sid where "py_get s ''Sid'' PNone = Return sid"
    "\<not> py_eq sid (PStr ''AllowLocalDockerAccess'')"
    by (auto simp: other_sid_def split: outcome.splits)
  with ih show ?case by simp
qed

lemma reordered_items:
  assumes "mset kvs = mset (intended_items principal_arn bucket_name)"
  shows "map_of kvs = map_of (intended_items principal_arn bucket_name)"
    and "set kvs = set (intended_items principal_arn bucket_name)"
    and "length kvs = length (intended_items principal_arn bucket_name)"
proof -
  let ?items = "intended_items principal_arn bucket_name"
  have d: "distinct (map fst ?items)" by (simp add: intended_items_def)
  from assms have "mset (map fst kvs) = mset (map fst ?items)" by (metis mset_map)
  with d have d': "distinct (map fst kvs)" by (metis mset_eq_imp_distinct_iff)
  from assms show s: "set kvs = set ?items" by (rule mset_eq_setD)
  from d d' s show "map_of kvs = map_of ?items" by (simp add: map_of_inject_set)
  from assms show "length kvs = length ?items" by (rule mset_eq_length)
qed

lemma py_eq_reordered:
  assumes "mset kvs = mset (intended_items (PStr arn) bucket_name)"
  shows "py_eq (PDict kvs) (intended_statement (PStr arn) bucket_name)"
proof -
  let ?items = "intended_items (PStr arn) bucket_name"
  let ?P = "\<lambda>(k, v). case map_of ?items k of None \<Rightarrow> False | Some v' \<Rightarrow> py_eq v v'"
  note r = reordered_items[OF assms]
  have "list_all ?P ?items" by (simp add: intended_items_def)
  then have "list_all ?P kvs" using r(2) by (simp add: list_all_iff)
  with r(3) show ?thesis by (simp add: intended_statement_def)
qed

lemma sid_reordered:
  assumes "mset kvs = mset (intended_items principal_arn bucket_name)"
  shows "py_get (PDict kvs) ''Sid'' PNone = Return (PStr ''AllowLocalDockerAccess'')"
  using reordered_items(1)[OF assms] by (simp add: intended_items_def)

text \<open>
  Claim C3. The current policy holds, after statements with other \<^verbatim>\<open>Sid\<close>s, a
  statement whose members are those of the intended statement in any order of the keys
  (the only nested object of the intended statement has a single key). Then Python's
  \<^verbatim>\<open>==\<close> on the decoded documents finds the two equal and \<^verbatim>\<open>apply_bucket_policy\<close>
  returns after its two read calls: no \<^verbatim>\<open>put_bucket_policy\<close> is made.
\<close>

theorem apply_bucket_policy_key_order:
  assumes "py_get identity ''Arn'' PNone = Return (PStr arn)"
      and "py_item response ''Policy'' = Return policy"
      and "py_item policy ''Statement'' = Return (PList (before @ PDict kvs # after))"
      and "list_all other_sid before"
      and "mset kvs = mset (intended_items (PStr arn) bucket_name)"
  shows "apply_bucket_policy bucket_name (Ok identity # Ok response # tape, tr) =
           (Return (), (tape, tr @ [caller_identity_call, get_bucket_policy_call bucket_name]))"
proof -
  have "scan_statements (intended_statement (PStr arn) bucket_name) (PDict kvs # after) =
          Return AlreadyApplied"
    using py_eq_reordered[OF assms(5)] sid_reordered[OF assms(5)] by simp
  from scan_statements_other[OF assms(4) this]
  show ?thesis
    using assms(1,2,3)
    by (simp add: apply_bucket_policy_def get_current_aws_principal_def run_defs Let_def
        caller_identity_call_def get_bucket_policy_call_def)
qed

theorem apply_bucket_policy_key_order_witness:
  "apply_bucket_policy ''state-bucket''
     ([Ok (PDict [(''UserId'', PStr ''AIDA''), (''Arn'', PStr ''arn:aws:iam::1:user/dev'')]),
       Ok (PDict [(''Policy'',
             PDict [(''Version'', PStr ''2012-10-17''),
                    (''Statement'', PList [
                       PDict [(''Sid'', PStr ''Other''), (''Effect'', PStr ''Deny'')],
                       PDict [(''Resource'', PList [PStr ''arn:aws:s3:::state-bucket'',
                                                     PStr ''arn:aws:s3:::state-bucket/*'']),
                              (''Action'', PList [PStr ''s3:GetObject'', PStr ''s3:PutObject'',
                                                  PStr ''s3:ListBucket'']),
                              (''Principal'', PDict [(''AWS'', PStr ''arn:aws:iam::1:user/dev'')]),
                              (''Effect'', PStr ''Allow''),
                              (''Sid'', PStr ''AllowLocalDockerAccess'')]])])])], [])
   = (Return (), ([], [caller_identity_call, get_bucket_policy_call ''state-bucket'']))"
proof -
  have 1: "list_all other_sid [PDict [(''Sid'', PStr ''Other''), (''Effect'', PStr ''Deny'')]]"
    by (simp add: other_sid_def)
  have 2: "mset [(''Resource'', PList [PStr ''arn:aws:s3:::state-bucket'',
                                      PStr ''arn:aws:s3:::state-bucket/*'']),
                 (''Action'', PList [PStr ''s3:GetObject'', PStr ''s3:PutObject'',
                                     PStr ''s3:ListBucket'']),
                 (''Principal'', PDict [(''AWS'', PStr ''arn:aws:iam::1:user/dev'')]),
                 (''Effect'', PStr ''Allow''),
                 (''Sid'', PStr ''AllowLocalDockerAccess'')]
           = mset (intended_items (PStr ''arn:aws:iam::1:user/dev'') ''state-bucket'')"
    by (simp add: intended_items_def)
  show ?thesis
    using apply_bucket_policy_key_order[OF _ _ _ 1 2, where tape = "[]" and tr = "[]"
        and after = "[]"
        and identity = "PDict [(''UserId'', PStr ''AIDA''), (''Arn'', PStr ''arn:aws:iam::1:user/dev'')]"]
    by simp
qed

section \<open>Properties: ECS deployment\<close>

lemma growsD: "grows m \<Longrightarrow> \<exists>calls. snd (snd (m (tape, tr))) = tr @ calls"
  by (auto simp: grows_def prefix_def)

lemma grows_unit [intro!]: "grows (unit a)"
  by (simp add: grows_def unit_def)

lemma grows_lift [intro!]: "grows (lift r)"
  by (simp add: grows_def lift_def)

lemma grows_exit_with [intro!]: "grows (exit_with m)"
  by (simp add: grows_def exit_with_def)

lemma grows_sleep [intro!]: "grows (sleep seconds)"
  by (simp add: grows_def sleep_def)

lemma grows_boto [intro!]: "grows (boto service operation kwargs)"
  by (auto simp: grows_def boto_def Let_def split: list.splits reply.splits)

lemma grows_request [intro!]: "grows (request c)"
  by (auto simp: grows_def request_def Let_def split: list.splits reply.splits)

lemma grows_and_then [intro!]:
  assumes "grows m" and "\<And>a. grows (f a)"
  shows "grows (and_then m f)"
  unfolding grows_def
proof (intro allI)
  fix tape tr
  obtain r tape' tr' where m: "m (tape, tr) = (r, (tape', tr'))" by (metis surj_pair)
  from assms(1) have "prefix tr (snd (snd (m (tape, tr))))" unfolding grows_def by blast
  with m have p: "prefix tr tr'" by simp
  show "prefix tr (snd (snd (and_then m f (tape, tr))))"
  proof (cases r)
    case (Return a)
    from assms(2)[of a] have "prefix tr' (snd (snd (f a (tape', tr'))))" by (simp add: grows_def)
    with p m Return show ?thesis by (auto simp: and_then_def)
  qed (use p m in \<open>simp_all add: and_then_def\<close>)
qed

lemma grows_handle [intro!]:
  assumes "grows m" and "\<And>e k. h e = Some k \<Longrightarrow> grows k"
  shows "grows (handle m h)"
  unfolding grows_def
proof (intro allI)
  fix tape tr
  obtain r tape' tr' where m: "m (tape, tr) = (r, (tape', tr'))" by (metis surj_pair)
  from assms(1) have "prefix tr (snd (snd (m (tape, tr))))" unfolding grows_def by blast
  with m have p: "prefix tr tr'" by simp
  show "prefix tr (snd (snd (handle m h (tape, tr))))"
  proof (cases r)
    case (Raise e)
    show ?thesis
    proof (cases "h e")
      case None
      with p m Raise show ?thesis by (simp add: handle_def)
    next
      case (Some k)
      from assms(2)[OF Some] have "prefix tr' (snd (snd (k (tape', tr'))))" by (simp add: grows_def)
      with p m Raise Some show ?thesis by (auto simp: handle_def)
    qed
  qed (use p m in \<open>simp_all add: handle_def\<close>)
qed

lemma grows_on_client_error:
  assumes "\<And>code. grows (k' code)" and "on_client_error k' e = Some k"
  shows "grows k"
  using assms by (auto simp: on_client_error_def split: exn.splits)

lemma grows_on_error_code:
  assumes "grows k'" and "on_error_code code k' e = Some k"
  shows "grows k"
  using assms by (auto simp: on_error_code_def split: if_splits)

lemma grows_secret: "grows (create_or_update_consolidated_secret secret_name secret_data)"
  unfolding create_or_update_consolidated_secret_def
  by (auto split: if_splits)

lemma grows_ensure_ecs_role: "grows (ensure_ecs_role role_name bucket_name)"
  unfolding ensure_ecs_role_def
  by (auto elim!: grows_on_client_error[rotated] grows_on_error_code[rotated])

lemma grows_ensure_ecs_roles: "grows (ensure_ecs_roles bucket_name)"
  unfolding ensure_ecs_roles_def
  by (auto intro: grows_ensure_ecs_role)

lemma grows_register: "grows (register_task_definition secret_arn task_role_arn execution_role_arn)"
  unfolding register_task_definition_def
  by (auto elim!: grows_on_client_error[rotated])

lemma grows_create_service: "grows (create_service cluster_name task_def_arn network_config)"
  unfolding create_service_def
  by (auto elim!: grows_on_client_error[rotated])

lemma first_call:
  assumes "\<And>a. grows (f a)" and "\<And>e k. h e = Some k \<Longrightarrow> grows k"
  shows "\<exists>calls. snd (snd (handle (and_then (boto service operation kwargs) f) h (tape, tr))) =
           tr @ Boto service operation kwargs # calls"
proof (cases tape)
  case Nil
  then show ?thesis by (simp add: handle_def and_then_def boto_def)
next
  case (Cons r rest)
  let ?tr = "tr @ [Boto service operation kwargs]"
  show ?thesis
  proof (cases r)
    case (Ok v)
    obtain r' tape' tr' where f: "f v (rest, ?tr) = (r', (tape', tr'))" by (metis surj_pair)
    from growsD[OF assms(1), of v rest ?tr] f obtain calls
      where c: "tr' = ?tr @ calls" by auto
    show ?thesis
    proof (cases r')
      case (Raise e)
      show ?thesis
      proof (cases "h e")
        case None
        with Cons Ok f c Raise show ?thesis by (simp add: handle_def and_then_def boto_def)
      next
        case (Some k)
        from growsD[OF assms(2)[OF Some], of tape' tr'] obtain more
          where "snd (snd (k (tape', tr'))) = tr' @ more" by blast
        with Cons Ok f c Raise Some show ?thesis by (simp add: handle_def and_then_def boto_def)
      qed
    qed (use Cons Ok f c in \<open>simp_all add: handle_def and_then_def boto_def\<close>)
  next
    case (Fails e)
    show ?thesis
    proof (cases "h e")
      case None
      with Cons Fails show ?thesis by (simp add: handle_def and_then_def boto_def)
    next
      case (Some k)
      from growsD[OF assms(2)[OF Some], of rest ?tr] obtain calls
        where "snd (snd (k (rest, ?tr))) = ?tr @ calls" by blast
      with Cons Fails Some show ?thesis by (simp add: handle_def and_then_def boto_def)
    qed
  next
    case (Http code body)
    with Cons show ?thesis by (simp add: handle_def and_then_def boto_def)
  qed
qed

lemma any_contains_strs:
  "any_contains name (map PStr arns) = Return (\<exists>arn \<in> set arns. sublist name arn)"
  by (induction arns) auto

lemma service_exists_listed:
  assumes "py_item response ''serviceArns'' = Return (PList (map PStr arns))"
  shows "service_exists cluster_name (Ok response # tape, tr) =
           (Return (\<exists>arn \<in> set arns. sublist service_name arn),
            (tape, tr @ [list_services_call cluster_name]))"
  using assms
  by (simp add: service_exists_def run_defs any_contains_strs list_services_call_def)

lemma secret_first_call:
  "\<exists>calls. snd (snd (create_or_update_consolidated_secret secret_name secret_data (tape, tr))) =
     tr @ describe_secret_call secret_name # calls"
  unfolding create_or_update_consolidated_secret_def describe_secret_call_def
  by (rule first_call) (auto split: if_splits)

lemma deploy_steps_first_call:
  "\<exists>calls. snd (snd (deploy_steps seed token api_token bucket_name network_config account_id
                        cluster_name (tape, tr))) =
     tr @ describe_secret_call (''campaigns_agent_resourcely_secrets_'' @ account_id) # calls"
proof -
  let ?name = "''campaigns_agent_resourcely_secrets_'' @ account_id"
  let ?data = "PDict [(''RESOURCELY_NGROK_TUNNEL_SEED'', seed), (''RESOURCELY_NGROK_TOKEN'', token),
                      (''RESOURCELY_API_TOKEN'', api_token)]"
  obtain r tape' tr' where m: "create_or_update_consolidated_secret ?name ?data (tape, tr) =
      (r, (tape', tr'))" by (metis surj_pair)
  with secret_first_call[of ?name ?data tape tr] obtain calls
    where c: "tr' = tr @ describe_secret_call ?name # calls" by auto
  show ?thesis
  proof (cases r)
    case (Return secret_arn)
    let ?rest = "and_then (ensure_ecs_roles bucket_name) (\<lambda>roles.
          and_then (register_task_definition secret_arn (fst roles) (snd roles))
            (\<lambda>task_def_arn. create_service cluster_name task_def_arn network_config))"
    have "grows ?rest"
      by (intro grows_and_then grows_ensure_ecs_roles grows_register grows_create_service)
    from growsD[OF this, of tape' tr'] obtain more
      where "snd (snd (?rest (tape', tr'))) = tr' @ more" by blast
    with m c Return show ?thesis by (simp add: deploy_steps_def and_then_def)
  qed (use m c in \<open>simp_all add: deploy_steps_def and_then_def\<close>)
qed

lemma deploy_unfold:
  assumes "get_account_id w = (Return account_id, w1)"
      and "ensure_ecs_cluster ''resourcely-campaigns'' w1 =
             (Return cluster_name, (Ok response # tape, tr))"
      and "py_item response ''serviceArns'' = Return (PList (map PStr arns))"
  shows "deploy_as_ecs_service seed token api_token bucket_name network_config w =
           (if \<exists>arn \<in> set arns. sublist service_name arn
            then (Return (), (tape, tr @ [list_services_call cluster_name]))
            else deploy_steps seed token api_token bucket_name network_config account_id
                   cluster_name (tape, tr @ [list_services_call cluster_name]))"
  using assms(1,2) service_exists_listed[OF assms(3), of cluster_name tape tr]
  by (simp add: deploy_as_ecs_service_def and_then_def unit_def)

text \<open>
  Claim C8. The account id and the cluster are settled and \<^verbatim>\<open>list_services\<close> answers
  with its list of service ARNs. Then \<^verbatim>\<open>deploy_as_ecs_service\<close> returns with
  \<^verbatim>\<open>list_services\<close> as its last call, that is, deploys nothing, if and only if the
  service name is a substring of one of the listed ARNs.
\<close>

theorem deploy_returns_early_iff_substring:
  assumes "get_account_id w = (Return account_id, w1)"
      and "ensure_ecs_cluster ''resourcely-campaigns'' w1 =
             (Return cluster_name, (Ok response # tape, tr))"
      and "py_item response ''serviceArns'' = Return (PList (map PStr arns))"
  shows "(deploy_as_ecs_service seed token api_token bucket_name network_config w =
            (Return (), (tape, tr @ [list_services_call cluster_name])))
         \<longleftrightarrow> (\<exists>arn \<in> set arns. sublist service_name arn)"
proof
  assume r: "deploy_as_ecs_service seed token api_token bucket_name network_config w =
            (Return (), (tape, tr @ [list_services_call cluster_name]))"
  show "\<exists>arn \<in> set arns. sublist service_name arn"
  proof (rule ccontr)
    assume "\<not> (\<exists>arn \<in> set arns. sublist service_name arn)"
    with deploy_unfold[OF assms] r
    have "deploy_steps seed token api_token bucket_name network_config account_id cluster_name
            (tape, tr @ [list_services_call cluster_name]) =
          (Return (), (tape, tr @ [list_services_call cluster_name]))"
      by simp
    with deploy_steps_first_call[of seed token api_token bucket_name network_config account_id
        cluster_name tape "tr @ [list_services_call cluster_name]"]
    show False by auto
  qed
next
  assume "\<exists>arn \<in> set arns. sublist service_name arn"
  with deploy_unfold[OF assms]
  show "deploy_as_ecs_service seed token api_token bucket_name network_config w =
            (Return (), (tape, tr @ [list_services_call cluster_name]))"
    by simp
qed

theorem deploy_returns_early_iff_substring_witness:
  "deploy_as_ecs_service (PStr ''seed'') (PStr ''token'') (PStr ''api'') ''bucket''
     (PDict [(''subnets'', PList [PStr ''subnet-1'']), (''securityGroups'', PList [PStr ''sg-1''])])
     ([Ok (PDict [(''Account'', PStr ''123456789012'')]),
       Ok (PDict [(''clusters'', PList [PDict [(''status'', PStr ''ACTIVE'')]]), (''failures'', PList [])]),
       Ok (PDict [(''serviceArns'', PList [PStr
          ''arn:aws:ecs:us-west-2:123456789012:service/resourcely-campaigns/resourcely-campaigns-agent-v2''])])],
      [])
   = (Return (),
      ([], [caller_identity_call,
            Boto ''ecs'' ''describe_clusters'' [(''clusters'', PList [PStr ''resourcely-campaigns''])],
            list_services_call ''resourcely-campaigns'']))"
proof -
  let ?id = "Ok (PDict [(''Account'', PStr ''123456789012'')])"
  let ?cl = "Ok (PDict [(''clusters'', PList [PDict [(''status'', PStr ''ACTIVE'')]]), (''failures'', PList [])])"
  have 1: "get_account_id (?id # t, []) = (Return ''123456789012'', (t, [caller_identity_call]))" for t
    by (simp add: get_account_id_def run_defs caller_identity_call_def)
  have 2: "ensure_ecs_cluster ''resourcely-campaigns'' (?cl # t, [caller_identity_call]) =
     (Return ''resourcely-campaigns'', (t, [caller_identity_call,
            Boto ''ecs'' ''describe_clusters'' [(''clusters'', PList [PStr ''resourcely-campaigns''])]]))" for t
    by (simp add: ensure_ecs_cluster_def run_defs)
  have 3: "sublist service_name
      ''arn:aws:ecs:us-west-2:123456789012:service/resourcely-campaigns/resourcely-campaigns-agent-v2''"
    by (simp add: service_name_def sublist_code)
  show ?thesis
    using deploy_returns_early_iff_substring[OF 1 2, where arns =
        "[''arn:aws:ecs:us-west-2:123456789012:service/resourcely-campaigns/resourcely-campaigns-agent-v2'']"
        and tape = "[]"] 3
    by simp
qed

lemma register_returns:
  assumes "py_item registered ''taskDefinition'' = Return task_definition"
      and "py_item task_definition ''taskDefinitionArn'' = Return task_def_arn"
  shows "register_task_definition secret_arn task_role_arn execution_role_arn
           (Ok registered # tape, tr) =
         (Return task_def_arn,
          (tape, tr @ [register_call secret_arn task_role_arn execution_role_arn]))"
  using assms by (simp add: register_task_definition_def register_call_def run_defs)

lemma create_service_returns:
  assumes "py_item network_config ''subnets'' = Return subnets"
      and "py_item network_config ''securityGroups'' = Return security_groups"
  shows "create_service cluster_name task_def_arn network_config (Ok created # tape, tr) =
         (Return (),
          (tape, tr @ [create_service_call cluster_name task_def_arn subnets security_groups]))"
  using assms by (simp add: create_service_def create_service_call_def run_defs)

text \<open>
  Claim C2, as the code has it. When a listed service ARN contains the service name,
  \<^verbatim>\<open>deploy_as_ecs_service\<close> returns right after \<^verbatim>\<open>list_services\<close>: nothing is
  registered. When none does, and the secret and the two roles are settled, it registers a
  task definition and then creates the service with the ARN that the registration has
  returned.
\<close>

theorem deploy_registers_unless_service_listed:
  assumes "get_account_id w = (Return account_id, w1)"
      and "ensure_ecs_cluster ''resourcely-campaigns'' w1 =
             (Return cluster_name, (Ok response # tape, tr))"
      and "py_item response ''serviceArns'' = Return (PList (map PStr arns))"
  shows "((\<exists>arn \<in> set arns. sublist service_name arn) \<longrightarrow>
            deploy_as_ecs_service seed token api_token bucket_name network_config w =
              (Return (), (tape, tr @ [list_services_call cluster_name])))
       \<and> ((\<forall>arn \<in> set arns. \<not> sublist service_name arn) \<and>
          create_or_update_consolidated_secret
            (''campaigns_agent_resourcely_secrets_'' @ account_id)
            (PDict [(''RESOURCELY_NGROK_TUNNEL_SEED'', seed), (''RESOURCELY_NGROK_TOKEN'', token),
                    (''RESOURCELY_API_TOKEN'', api_token)])
            (tape, tr @ [list_services_call cluster_name]) = (Return secret_arn, w3) \<and>
          ensure_ecs_roles bucket_name w3 =
            (Return (task_role_arn, execution_role_arn), (Ok registered # Ok created # rest, tr4)) \<and>
          py_item registered ''taskDefinition'' = Return task_definition \<and>
          py_item task_definition ''taskDefinitionArn'' = Return task_def_arn \<and>
          py_item network_config ''subnets'' = Return subnets \<and>
          py_item network_config ''securityGroups'' = Return security_groups \<longrightarrow>
            deploy_as_ecs_service seed token api_token bucket_name network_config w =
              (Return (),
               (rest, tr4 @ [register_call secret_arn task_role_arn execution_role_arn,
                             create_service_call cluster_name task_def_arn subnets
                               security_groups])))"
proof (intro conjI impI)
  assume "\<exists>arn \<in> set arns. sublist service_name arn"
  with deploy_unfold[OF assms]
  show "deploy_as_ecs_service seed token api_token bucket_name network_config w =
              (Return (), (tape, tr @ [list_services_call cluster_name]))"
    by simp
next
  assume a: "(\<forall>arn \<in> set arns. \<not> sublist service_name arn) \<and>
          create_or_update_consolidated_secret
            (''campaigns_agent_resourcely_secrets_'' @ account_id)
            (PDict [(''RESOURCELY_NGROK_TUNNEL_SEED'', seed), (''RESOURCELY_NGROK_TOKEN'', token),
                    (''RESOURCELY_API_TOKEN'', api_token)])
            (tape, tr @ [list_services_call cluster_name]) = (Return secret_arn, w3) \<and>
          ensure_ecs_roles bucket_name w3 =
            (Return (task_role_arn, execution_role_arn), (Ok registered # Ok created # rest, tr4)) \<and>
          py_item registered ''taskDefinition'' = Return task_definition \<and>
          py_item task_definition ''taskDefinitionArn'' = Return task_def_arn \<and>
          py_item network_config ''subnets'' = Return subnets \<and>
          py_item network_config ''securityGroups'' = Return security_groups"
  then have r: "register_task_definition secret_arn task_role_arn execution_role_arn
           (Ok registered # Ok created # rest, tr4) =
         (Return task_def_arn,
          (Ok created # rest, tr4 @ [register_call secret_arn task_role_arn execution_role_arn]))"
    using register_returns by simp
  from a have c: "create_service cluster_name task_def_arn network_config
        (Ok created # rest, tr4 @ [register_call secret_arn task_role_arn execution_role_arn]) =
         (Return (),
          (rest, (tr4 @ [register_call secret_arn task_role_arn execution_role_arn]) @
                 [create_service_call cluster_name task_def_arn subnets security_groups]))"
    using create_service_returns by simp
  from a have "deploy_as_ecs_service seed token api_token bucket_name network_config w =
      deploy_steps seed token api_token bucket_name network_config account_id cluster_name
        (tape, tr @ [list_services_call cluster_name])"
    using deploy_unfold[OF assms] by simp
  also have "\<dots> = (Return (),
               (rest, tr4 @ [register_call secret_arn task_role_arn execution_role_arn,
                             create_service_call cluster_name task_def_arn subnets
                               security_groups]))"
    using a r c by (simp add: deploy_steps_def and_then_def)
  finally show "deploy_as_ecs_service seed token api_token bucket_name network_config w =
              (Return (),
               (rest, tr4 @ [register_call secret_arn task_role_arn execution_role_arn,
                             create_service_call cluster_name task_def_arn subnets
                               security_groups]))" .
qed

theorem deploy_registers_unless_service_listed_witness:
  "(\<exists>before.
      deploy_as_ecs_service (PStr ''seed'') (PStr ''token'') (PStr ''api'') ''bucket''
        (PDict [(''subnets'', PList [PStr ''subnet-1'']),
                (''securityGroups'', PList [PStr ''sg-1''])])
        ([Ok (PDict [(''Account'', PStr ''123456789012'')]),
          Ok (PDict [(''clusters'', PList [PDict [(''status'', PStr ''ACTIVE'')]])]),
          Ok (PDict [(''serviceArns'', PList [])]),
          Ok (PDict [(''ARN'', PStr ''arn:secret'')]), Ok (PDict []),
          Ok (PDict []), Ok (PDict []), Ok (PDict [(''Role'', PDict [(''Arn'', PStr ''arn:task'')])]),
          Ok (PDict []), Ok (PDict []), Ok (PDict [(''Role'', PDict [(''Arn'', PStr ''arn:exec'')])]),
          Ok (PDict [(''taskDefinition'', PDict [(''taskDefinitionArn'', PStr ''arn:taskdef:7'')])]),
          Ok (PDict [])], []) =
      (Return (),
       ([], before @ [register_call ''arn:secret'' ''arn:task'' ''arn:exec'',
                      create_service_call ''resourcely-campaigns'' (PStr ''arn:taskdef:7'')
                        (PList [PStr ''subnet-1'']) (PList [PStr ''sg-1''])])))
   \<and> deploy_as_ecs_service (PStr ''seed'') (PStr ''token'') (PStr ''api'') ''bucket''
        (PDict [(''subnets'', PList [PStr ''subnet-1'']),
                (''securityGroups'', PList [PStr ''sg-1''])])
        ([Ok (PDict [(''Account'', PStr ''123456789012'')]),
          Ok (PDict [(''clusters'', PList [PDict [(''status'', PStr ''ACTIVE'')]])]),
          Ok (PDict [(''serviceArns'', PList [PStr ''arn:service/resourcely-campaigns-agent''])])],
         []) =
      (Return (),
       ([], [caller_identity_call,
             Boto ''ecs'' ''describe_clusters'' [(''clusters'', PList [PStr ''resourcely-campaigns''])],
             list_services_call ''resourcely-campaigns'']))"
proof -
  let ?id = "Ok (PDict [(''Account'', PStr ''123456789012'')])"
  let ?cl = "Ok (PDict [(''clusters'', PList [PDict [(''status'', PStr ''ACTIVE'')]])])"
  let ?tr2 = "[caller_identity_call,
            Boto ''ecs'' ''describe_clusters'' [(''clusters'', PList [PStr ''resourcely-campaigns''])]]"
  let ?tail = "[Ok (PDict [(''taskDefinition'', PDict [(''taskDefinitionArn'', PStr ''arn:taskdef:7'')])]),
          Ok (PDict [])]"
  let ?roles = "[Ok (PDict []), Ok (PDict []), Ok (PDict [(''Role'', PDict [(''Arn'', PStr ''arn:task'')])]),
          Ok (PDict []), Ok (PDict []), Ok (PDict [(''Role'', PDict [(''Arn'', PStr ''arn:exec'')])])]"
  have 1: "get_account_id (?id # t, []) = (Return ''123456789012'', (t, [caller_identity_call]))" for t
    by (simp add: get_account_id_def run_defs caller_identity_call_def)
  have 2: "ensure_ecs_cluster ''resourcely-campaigns'' (?cl # t, [caller_identity_call]) =
     (Return ''resourcely-campaigns'', (t, ?tr2))" for t
    by (simp add: ensure_ecs_cluster_def run_defs)
  have 3: "\<exists>tr3. create_or_update_consolidated_secret
            (''campaigns_agent_resourcely_secrets_'' @ ''123456789012'') d
            (Ok (PDict [(''ARN'', PStr ''arn:secret'')]) # Ok (PDict []) # t, tr) =
            (Return ''arn:secret'', (t, tr3))" for d t tr
    by (simp add: create_or_update_consolidated_secret_def run_defs)
  have 4: "\<exists>tr4. ensure_ecs_roles ''bucket'' (?roles @ t, tr) =
            (Return (''arn:task'', ''arn:exec''), (t, tr4))" for t tr
    by (simp add: ensure_ecs_roles_def ensure_ecs_role_def run_defs)
  from 3 obtain tr3 where s: "create_or_update_consolidated_secret
            (''campaigns_agent_resourcely_secrets_'' @ ''123456789012'')
            (PDict [(''RESOURCELY_NGROK_TUNNEL_SEED'', PStr ''seed''),
                    (''RESOURCELY_NGROK_TOKEN'', PStr ''token''),
                    (''RESOURCELY_API_TOKEN'', PStr ''api'')])
            (Ok (PDict [(''ARN'', PStr ''arn:secret'')]) # Ok (PDict []) # ?roles @ ?tail,
             ?tr2 @ [list_services_call ''resourcely-campaigns'']) =
            (Return ''arn:secret'', (?roles @ ?tail, tr3))"
    by blast
  from 4 obtain tr4 where e: "ensure_ecs_roles ''bucket'' (?roles @ ?tail, tr3) =
            (Return (''arn:task'', ''arn:exec''), (?tail, tr4))"
    by blast
  have 5: "sublist service_name ''arn:service/resourcely-campaigns-agent''"
    by (simp add: service_name_def sublist_code)
  have first: "\<exists>before.
      deploy_as_ecs_service (PStr ''seed'') (PStr ''token'') (PStr ''api'') ''bucket''
        (PDict [(''subnets'', PList [PStr ''subnet-1'']),
                (''securityGroups'', PList [PStr ''sg-1''])])
        (?id # ?cl # Ok (PDict [(''serviceArns'', PList [])]) #
          Ok (PDict [(''ARN'', PStr ''arn:secret'')]) # Ok (PDict []) # ?roles @ ?tail, []) =
      (Return (),
       ([], before @ [register_call ''arn:secret'' ''arn:task'' ''arn:exec'',
                      create_service_call ''resourcely-campaigns'' (PStr ''arn:taskdef:7'')
                        (PList [PStr ''subnet-1'']) (PList [PStr ''sg-1''])]))"
    using deploy_registers_unless_service_listed[OF 1 2, where arns = "[]"
        and response = "PDict [(''serviceArns'', PList [])]"
        and seed = "PStr ''seed''" and token = "PStr ''token''" and api_token = "PStr ''api''"
        and secret_arn = "''arn:secret''" and ?w3.0 = "(?roles @ ?tail, tr3)"
        and bucket_name = "''bucket''" and task_role_arn = "''arn:task''"
        and execution_role_arn = "''arn:exec''" and ?tr4.0 = tr4 and rest = "[]"
        and registered = "PDict [(''taskDefinition'', PDict [(''taskDefinitionArn'', PStr ''arn:taskdef:7'')])]"
        and created = "PDict []"
        and task_definition = "PDict [(''taskDefinitionArn'', PStr ''arn:taskdef:7'')]"
        and task_def_arn = "PStr ''arn:taskdef:7''"
        and network_config = "PDict [(''subnets'', PList [PStr ''subnet-1'']),
                (''securityGroups'', PList [PStr ''sg-1''])]"
        and subnets = "PList [PStr ''subnet-1'']" and security_groups = "PList [PStr ''sg-1'']"]
      s e
    by auto
  have second: "deploy_as_ecs_service (PStr ''seed'') (PStr ''token'') (PStr ''api'') ''bucket''
        (PDict [(''subnets'', PList [PStr ''subnet-1'']),
                (''securityGroups'', PList [PStr ''sg-1''])])
        ([?id, ?cl, Ok (PDict [(''serviceArns'', PList [PStr ''arn:service/resourcely-campaigns-agent''])])],
         []) =
      (Return (),
       ([], [caller_identity_call,
             Boto ''ecs'' ''describe_clusters'' [(''clusters'', PList [PStr ''resourcely-campaigns''])],
             list_services_call ''resourcely-campaigns'']))"
    using deploy_registers_unless_service_listed[OF 1 2, where arns =
        "[''arn:service/resourcely-campaigns-agent'']" and tape = "[]"] 5
    by simp
  from first second show ?thesis by simp
qed

text \<open>
  Claim C2 as stated fails: on an invocation that finds the service listed, no task
  definition is registered.
\<close>

theorem deploy_registers_counterexample:
  "outcome_of
     (deploy_as_ecs_service (PStr ''seed'') (PStr ''token'') (PStr ''api'') ''bucket''
        (PDict [(''subnets'', PList [PStr ''subnet-1'']),
                (''securityGroups'', PList [PStr ''sg-1''])]))
     [Ok (PDict [(''Account'', PStr ''123456789012'')]),
      Ok (PDict [(''clusters'', PList [PDict [(''status'', PStr ''ACTIVE'')]])]),
      Ok (PDict [(''serviceArns'', PList [PStr ''arn:service/resourcely-campaigns-agent''])])]
     = Return ()
   \<and> \<not> list_ex registers
     (calls_of
        (deploy_as_ecs_service (PStr ''seed'') (PStr ''token'') (PStr ''api'') ''bucket''
           (PDict [(''subnets'', PList [PStr ''subnet-1'']),
                   (''securityGroups'', PList [PStr ''sg-1''])]))
        [Ok (PDict [(''Account'', PStr ''123456789012'')]),
         Ok (PDict [(''clusters'', PList [PDict [(''status'', PStr ''ACTIVE'')]])]),
         Ok (PDict [(''serviceArns'', PList [PStr ''arn:service/resourcely-campaigns-agent''])])])"
  by (simp add: outcome_of_def calls_of_def deploy_as_ecs_service_def get_account_id_def
      ensure_ecs_cluster_def service_exists_def service_name_def run_defs sublist_code
      registers_def)

section \<open>Properties: waiting for the plan job\<close>

lemma py_eq_str: "py_eq x (PStr s) \<longleftrightarrow> x = PStr s"
  by (cases x) auto

lemma py_get_dict: "py_get job k d = Return v \<Longrightarrow> \<exists>v'. py_get job k' d' = Return v'"
  by (cases job) (auto split: option.splits)

lemma scan_jobs_undecided:
  assumes "list_all undecided before"
  shows "scan_jobs (before @ rest) = scan_jobs rest"
  using assms
proof (induction before)
  case Nil
  then show ?case by simp
next
  case (Cons job before)
  then have u: "undecided job" and ih: "scan_jobs (before @ rest) = scan_jobs rest" by simp_all
  from u obtain name where n: "py_get job ''name'' PNone = Return name"
    by (auto simp: undecided_def split: outcome.splits)
  from py_get_dict[OF n] obtain c where c: "py_get job ''conclusion'' PNone = Return c" by blast
  show ?case
  proof (cases "py_eq name (PStr plan_job_name)")
    case True
    with u n obtain st where "py_get job ''status'' PNone = Return st"
      "\<not> py_eq st (PStr ''completed'')"
      by (auto simp: undecided_def split: outcome.splits)
    with True n c ih show ?thesis by simp
  next
    case False
    with n ih show ?thesis by simp
  qed
qed

lemma other_job_undecided: "other_job job \<Longrightarrow> undecided job"
  by (auto simp: other_job_def undecided_def split: outcome.splits)

lemma scan_jobs_others:
  assumes "list_all other_job jobs"
  shows "scan_jobs jobs = Return JobNotFound"
proof -
  from assms have "list_all undecided jobs"
    by (induction jobs) (auto intro: other_job_undecided)
  from scan_jobs_undecided[OF this, of "[]"] show ?thesis by simp
qed

lemma scan_jobs_failed:
  assumes "list_all undecided before"
      and "py_get job ''name'' PNone = Return (PStr plan_job_name)"
      and "py_get job ''status'' PNone = Return (PStr ''completed'')"
      and "py_get job ''conclusion'' PNone = Return conclusion"
      and "\<not> py_eq conclusion (PStr ''success'')"
  shows "scan_jobs (before @ job # after) = Return (JobFailed conclusion)"
  using scan_jobs_undecided[OF assms(1), of "job # after"] assms(2-5) by simp

lemma scan_jobs_failed_only:
  "scan_jobs jobs = Return (JobFailed conclusion) \<Longrightarrow>
     \<exists>job \<in> set jobs.
        py_get job ''name'' PNone = Return (PStr plan_job_name) \<and>
        py_get job ''status'' PNone = Return (PStr ''completed'') \<and>
        py_get job ''conclusion'' PNone = Return conclusion \<and>
        \<not> py_eq conclusion (PStr ''success'')"
proof (induction jobs)
  case Nil
  then show ?case by simp
next
  case (Cons job jobs)
  from Cons.prems obtain name where n: "py_get job ''name'' PNone = Return name"
    by (cases "py_get job ''name'' PNone") auto
  from py_get_dict[OF n] obtain st c where s: "py_get job ''status'' PNone = Return st"
    and c: "py_get job ''conclusion'' PNone = Return c" by blast
  show ?case
  proof (cases "py_eq name (PStr plan_job_name) \<and> py_eq st (PStr ''completed'')")
    case True
    then have e: "name = PStr plan_job_name" "st = PStr ''completed''"
      by (simp_all add: py_eq_str)
    show ?thesis
    proof (cases "py_eq c (PStr ''success'')")
      case True
      with Cons.prems n s c e show ?thesis by simp
    next
      case False
      with Cons.prems n s c e show ?thesis by simp
    qed
  next
    case False
    with Cons.prems n s c have "scan_jobs jobs = Return (JobFailed conclusion)"
      by (cases "py_eq name (PStr plan_job_name)") simp_all
    from Cons.IH[OF this] show ?thesis by simp
  qed
qed

lemma plan_job_attempt_scanned:
  assumes "py_get runs_doc ''workflow_runs'' (PList []) = Return (PList (latest_run # older))"
      and "then_outcome (py_get latest_run ''id'' PNone) py_format = Return run_id"
      and "py_get jobs_doc ''jobs'' (PList []) = Return (PList jobs)"
      and "scan_jobs jobs = Return scanned"
  shows "plan_job_attempt owner repo
           (Http 200 (Some runs_doc) # Http 200 (Some jobs_doc) # more, tr) =
         (case scanned of
            JobSucceeded \<Rightarrow> unit True
          | JobFailed job_conclusion \<Rightarrow>
              and_then (lift (py_format job_conclusion)) (\<lambda>shown.
                exit_with (''Plan Sandbox job failed with conclusion: '' @ shown))
          | JobNotFound \<Rightarrow> unit False)
           (more, tr @ [HttpGet (runs_url owner repo), HttpGet (jobs_url owner repo run_id)])"
  using assms by (cases scanned) (simp_all add: plan_job_attempt_def run_defs)

lemma plan_job_attempt_no_runs:
  assumes "py_get runs_doc ''workflow_runs'' (PList []) = Return runs" and "\<not> truthy runs"
  shows "plan_job_attempt owner repo (Http 200 (Some runs_doc) # more, tr) =
         (Return False, (more, tr @ [HttpGet (runs_url owner repo)]))"
  using assms by (simp add: plan_job_attempt_def run_defs)

text \<open>
  Claim C5. When the jobs of the latest run hold the plan job with status \<^verbatim>\<open>completed\<close>
  and a conclusion other than \<^verbatim>\<open>success\<close>, and every job before it is passed without a
  decision, \<^verbatim>\<open>wait_for_plan_job_success\<close> exits on that pass through the loop with the
  conclusion in its message: the two requests of the pass are the last calls, no sleep and no
  request follows, whatever snapshots would come later. For a pending pass followed by such a
  failing pass, the run is the calls of the pending pass, one sleep, the two requests of the
  failing pass, and the exit.
\<close>

theorem plan_job_failure_aborts_at_once:
  assumes "fst snapshot - start_time < timeout"
      and "snd snapshot = Http 200 (Some runs_doc) # Http 200 (Some jobs_doc) # more"
      and "py_get runs_doc ''workflow_runs'' (PList []) = Return (PList (latest_run # older))"
      and "then_outcome (py_get latest_run ''id'' PNone) py_format = Return run_id"
      and "py_get jobs_doc ''jobs'' (PList []) = Return (PList (before @ job # after))"
      and "list_all undecided before"
      and "py_get job ''name'' PNone = Return (PStr plan_job_name)"
      and "py_get job ''status'' PNone = Return (PStr ''completed'')"
      and "py_get job ''conclusion'' PNone = Return conclusion"
      and "\<not> py_eq conclusion (PStr ''success'')"
      and "py_format conclusion = Return reason"
  shows "wait_for_plan_job_loop owner repo commit_sha timeout poll_interval start_time
           (snapshot # later) tr =
           (Exit (plan_failure_message reason),
            tr @ [HttpGet (runs_url owner repo), HttpGet (jobs_url owner repo run_id)])
       \<and> (fst pending - start_time < timeout \<and>
          plan_job_attempt owner repo (snd pending, []) = (Return False, w) \<longrightarrow>
          wait_for_plan_job_success owner repo commit_sha timeout poll_interval start_time
            [pending, snapshot] =
            (Exit (plan_failure_message reason),
             snd w @ [Sleep poll_interval, HttpGet (runs_url owner repo),
                      HttpGet (jobs_url owner repo run_id)]))"
proof -
  have s: "scan_jobs (before @ job # after) = Return (JobFailed conclusion)"
    using assms(6-10) by (rule scan_jobs_failed)
  have a: "plan_job_attempt owner repo (snd snapshot, tr') =
      (Exit (plan_failure_message reason),
       (more, tr' @ [HttpGet (runs_url owner repo), HttpGet (jobs_url owner repo run_id)]))" for tr'
    using plan_job_attempt_scanned[OF assms(3,4,5) s, of owner repo more tr'] assms(2,11)
    by (simp add: run_defs plan_failure_message_def)
  have l: "wait_for_plan_job_loop owner repo commit_sha timeout poll_interval start_time
           (snapshot # later') tr' =
           (Exit (plan_failure_message reason),
            tr' @ [HttpGet (runs_url owner repo), HttpGet (jobs_url owner repo run_id)])"
    for later' tr'
    using assms(1) a[of tr'] by simp
  show ?thesis
  proof (intro conjI impI)
    show "wait_for_plan_job_loop owner repo commit_sha timeout poll_interval start_time
           (snapshot # later) tr =
           (Exit (plan_failure_message reason),
            tr @ [HttpGet (runs_url owner repo), HttpGet (jobs_url owner repo run_id)])"
      by (rule l)
  next
    assume p: "fst pending - start_time < timeout \<and>
          plan_job_attempt owner repo (snd pending, []) = (Return False, w)"
    then show "wait_for_plan_job_success owner repo commit_sha timeout poll_interval start_time
            [pending, snapshot] =
            (Exit (plan_failure_message reason),
             snd w @ [Sleep poll_interval, HttpGet (runs_url owner repo),
                      HttpGet (jobs_url owner repo run_id)])"
      using l[of "[]" "snd w @ [Sleep poll_interval]"]
      by (simp add: wait_for_plan_job_success_def sleep_def)
  qed
qed

theorem plan_job_failure_aborts_at_once_witness:
  "wait_for_plan_job_success ''acme'' ''infra'' ''abc123'' 600 30 1000
     [(1000, [Http 200 (Some (PDict [(''workflow_runs'', PList [])]))]),
      (1031, [Http 200 (Some (PDict [(''workflow_runs'', PList [PDict [(''id'', PInt 42)]])])),
              Http 200 (Some (PDict [(''jobs'', PList [
                 PDict [(''name'', PStr ''lint''), (''status'', PStr ''completed''),
                        (''conclusion'', PStr ''success'')],
                 PDict [(''name'', PStr plan_job_name), (''status'', PStr ''completed''),
                        (''conclusion'', PStr ''x'')]])]))])]
   = (Exit (plan_failure_message ''x''),
      [HttpGet (runs_url ''acme'' ''infra''), Sleep 30, HttpGet (runs_url ''acme'' ''infra''),
       HttpGet (jobs_url ''acme'' ''infra'' ''42'')])"
proof -
  have 1: "list_all undecided [PDict [(''name'', PStr ''lint''), (''status'', PStr ''completed''),
                        (''conclusion'', PStr ''success'')]]"
    by (simp add: undecided_def plan_job_name_def)
  have 2: "plan_job_attempt ''acme'' ''infra''
             (snd (1000::real, [Http 200 (Some (PDict [(''workflow_runs'', PList [])]))]), []) =
           (Return False, ([], [HttpGet (runs_url ''acme'' ''infra'')]))"
    by (simp add: plan_job_attempt_def run_defs)
  have 3: "then_outcome (py_get (PDict [(''id'', PInt 42)]) ''id'' PNone) py_format = Return ''42''"
    by code_simp
  show ?thesis
    using plan_job_failure_aborts_at_once[OF _ _ _ 3 _ 1, where conclusion = "PStr ''x''"
        and reason = "''x''" and after = "[]" and timeout = 600 and start_time = 1000
        and snapshot = "(1031, [Http 200 (Some (PDict [(''workflow_runs'', PList [PDict [(''id'', PInt 42)]])])),
              Http 200 (Some (PDict [(''jobs'', PList [
                 PDict [(''name'', PStr ''lint''), (''status'', PStr ''completed''),
                        (''conclusion'', PStr ''success'')],
                 PDict [(''name'', PStr plan_job_name), (''status'', PStr ''completed''),
                        (''conclusion'', PStr ''x'')]])]))])"
        and more = "[]" and older = "[]"
        and pending = "(1000, [Http 200 (Some (PDict [(''workflow_runs'', PList [])]))])"
        and w = "([], [HttpGet (runs_url ''acme'' ''infra'')])"
        and owner = "''acme''" and repo = "''infra''" and poll_interval = 30
        and commit_sha = "''abc123''"] 2
    by simp
qed

section \<open>Properties: a subject that is not found yet\<close>

lemma plan_loop_no_runs:
  assumes "t - start_time < timeout"
      and "py_get no_runs_doc ''workflow_runs'' (PList []) = Return runs"
      and "\<not> truthy runs"
  shows "wait_for_plan_job_loop owner repo commit_sha timeout poll_interval start_time
           ((t, Http 200 (Some no_runs_doc) # more) # later) tr =
         wait_for_plan_job_loop owner repo commit_sha timeout poll_interval start_time later
           (tr @ [HttpGet (runs_url owner repo), Sleep poll_interval])"
  using assms(1) plan_job_attempt_no_runs[OF assms(2,3), of owner repo more tr]
  by (simp add: sleep_def)

lemma plan_loop_job_absent:
  assumes "t - start_time < timeout"
      and "py_get runs_doc ''workflow_runs'' (PList []) = Return (PList (latest_run # older))"
      and "then_outcome (py_get latest_run ''id'' PNone) py_format = Return run_id"
      and "py_get jobs_doc ''jobs'' (PList []) = Return (PList jobs)"
      and "list_all other_job jobs"
  shows "wait_for_plan_job_loop owner repo commit_sha timeout poll_interval start_time
           ((t, Http 200 (Some runs_doc) # Http 200 (Some jobs_doc) # more) # later) tr =
         wait_for_plan_job_loop owner repo commit_sha timeout poll_interval start_time later
           (tr @ [HttpGet (runs_url owner repo), HttpGet (jobs_url owner repo run_id),
                  Sleep poll_interval])"
  using assms(1)
    plan_job_attempt_scanned[OF assms(2,3,4) scan_jobs_others[OF assms(5)], of owner repo more tr]
  by (simp add: sleep_def unit_def)

lemma poll_loop_pending:
  assumes "attempt < max_attempts" and "body w = (Return False, w')"
  shows "poll_loop body message max_attempts interval attempt w =
           (if attempt + 1 < max_attempts
            then poll_loop body message max_attempts interval (attempt + 1)
                   (fst w', snd w' @ [Sleep interval])
            else (Exit message, w'))"
proof (cases "attempt + 1 < max_attempts")
  case True
  with assms show ?thesis
    by (subst poll_loop.simps) (simp add: sleep_def)
next
  case False
  then have "poll_loop body message max_attempts interval (attempt + 1) w' = (Exit message, w')"
    by (subst poll_loop.simps) simp
  with assms False show ?thesis
    by (subst poll_loop.simps) simp
qed

lemma yaml_attempt_repo_missing:
  assumes "py_get yaml_doc ''repos'' (PDict []) = Return (PDict repos)"
      and "map_of repos (''https://github.com/'' @ repo_url) = None"
  shows "yaml_config_attempt repo_url (Http 200 (Some yaml_doc) # tape, tr) =
           (Return False, (tape, tr @ [HttpGet yaml_config_url]))"
  using assms by (simp add: yaml_config_attempt_def run_defs)

lemma scan_diagnostics_others:
  "list_all other_source diagnostics \<Longrightarrow> scan_diagnostics diagnostics = Return False"
proof (induction diagnostics)
  case Nil
  then show ?case by simp
next
  case (Cons d diagnostics)
  then have "other_source d" and ih: "scan_diagnostics diagnostics = Return False" by simp_all
  from this(1) obtain source where "py_get d ''source'' (PStr []) = Return source"
    "\<not> py_eq source (PStr ''DIAGNOSTIC_SOURCE_GITLAB'')"
    "\<not> py_eq source (PStr ''DIAGNOSTIC_SOURCE_GITHUB'')"
    by (auto simp: other_source_def split: outcome.splits)
  with ih show ?case by simp
qed

lemma diagnostics_attempt_source_missing:
  assumes "py_get diagnostics_doc ''diagnostics'' (PList []) = Return (PList diagnostics)"
      and "list_all other_source diagnostics"
  shows "diagnostics_attempt (Http 200 (Some diagnostics_doc) # tape, tr) =
           (Return False, (tape, tr @ [HttpGet diagnostics_url]))"
  using assms(1) scan_diagnostics_others[OF assms(2)]
  by (simp add: diagnostics_attempt_def run_defs)

lemma map_of_dict_set:
  "map_of (dict_set statuses t v) k = (if k = t then Some v else map_of statuses k)"
  by (induction statuses) auto

lemma record_check_other:
  assumes "record_check statuses check = Return recorded"
      and "py_get check ''type'' PNone \<noteq> Return (PStr k)"
  shows "map_of recorded k = map_of statuses k"
proof -
  from assms(1) obtain ctype where t: "py_get check ''type'' PNone = Return ctype"
    by (cases "py_get check ''type'' PNone") auto
  from py_get_dict[OF t] obtain cstatus where s: "py_get check ''status'' PNone = Return cstatus"
    by blast
  from assms(2) t have "ctype \<noteq> PStr k" by simp
  with assms(1) t s show ?thesis
    by (cases ctype) (auto simp: map_of_dict_set split: if_splits option.splits)
qed

lemma record_checks_other:
  assumes "record_checks statuses checks = Return recorded"
      and "list_all (\<lambda>check. py_get check ''type'' PNone \<noteq> Return (PStr k)) checks"
  shows "map_of recorded k = map_of statuses k"
  using assms
proof (induction checks arbitrary: statuses)
  case Nil
  then show ?case by simp
next
  case (Cons check checks)
  from Cons.prems(1) obtain first where f: "record_check statuses check = Return first"
    and r: "record_checks first checks = Return recorded"
    by (cases "record_check statuses check") (auto simp del: record_check.simps)
  from Cons.prems(2) have "py_get check ''type'' PNone \<noteq> Return (PStr k)"
    and "list_all (\<lambda>check. py_get check ''type'' PNone \<noteq> Return (PStr k)) checks" by simp_all
  with record_check_other[OF f] Cons.IH[OF r] show ?case by simp
qed

lemma record_diagnostics_other:
  assumes "record_diagnostics statuses diagnostics = Return recorded"
      and "lacks_check k diagnostics"
  shows "map_of recorded k = map_of statuses k"
  using assms
proof (induction diagnostics arbitrary: statuses)
  case Nil
  then show ?case by simp
next
  case (Cons d diagnostics)
  from Cons.prems(2) obtain checks
    where c: "then_outcome (py_get d ''checks'' (PList [])) py_iter = Return checks"
      and a: "list_all (\<lambda>check. py_get check ''type'' PNone \<noteq> Return (PStr k)) checks"
      and l: "lacks_check k diagnostics"
    by (auto split: outcome.splits)
  from c obtain listed where g: "py_get d ''checks'' (PList []) = Return listed"
    and i: "py_iter listed = Return checks"
    by (cases "py_get d ''checks'' (PList [])") auto
  from Cons.prems(1) g i obtain first where f: "record_checks statuses checks = Return first"
    and r: "record_diagnostics first diagnostics = Return recorded"
    by (cases "record_checks statuses checks") auto
  from record_checks_other[OF f a] Cons.IH[OF r l] show ?case by simp
qed

lemma agent_attempt_check_missing:
  assumes "py_get agent_doc ''diagnostics'' (PList []) = Return (PList agent_diagnostics)"
      and "record_diagnostics no_statuses agent_diagnostics = Return statuses"
      and "k \<in> set required_checks"
      and "lacks_check k agent_diagnostics"
  shows "agent_attempt (Http 200 (Some agent_doc) # tape, tr) =
           (Return False, (tape, tr @ [HttpGet diagnostics_url]))"
proof -
  from assms(3) have "map_of no_statuses k = Some PNone"
    by (auto simp: no_statuses_def required_checks_def)
  with record_diagnostics_other[OF assms(2,4)] have m: "map_of statuses k = Some PNone" by simp
  have "\<not> all_success statuses"
  proof
    assume "all_success statuses"
    with assms(3) have "case map_of statuses k of None \<Rightarrow> False
                        | Some status \<Rightarrow> py_eq status status_success"
      by (simp add: all_success_def list_all_iff)
    with m show False by (simp add: status_success_def)
  qed
  with assms(1,2) show ?thesis
    by (simp add: agent_attempt_def run_defs no_statuses_def)
qed

section \<open>Properties: responses without success\<close>

lemma ngrok_get_failed:
  assumes "load_ngrok_credentials credential_file = None" and "get_failed first"
  shows "ensure_ngrok_setup credential_file writable (first # tape, tr) =
         ensure_ngrok_setup credential_file writable (Http 200 (Some PNone) # tape, tr)"
  using assms
  by (cases first) (simp_all add: ensure_ngrok_setup_def get_failed_def run_defs)

lemma ngrok_post_refused:
  assumes "load_ngrok_credentials credential_file = None" and "post_code \<notin> {200, 201}"
  shows "ensure_ngrok_setup credential_file writable
           (Http 200 (Some PNone) # Http post_code post_body # tape, tr) =
         (Exit ''Failed to provision ngrok proxy'',
          (tape, tr @ [HttpGet campaigns_url, HttpPost campaigns_url]))"
  using assms by (simp add: ensure_ngrok_setup_def run_defs)

lemma ngrok_post_created:
  assumes "load_ngrok_credentials credential_file = None" and "post_code \<in> {200, 201}"
      and "py_get new_data ''tunnel'' PNone = Return (PDict tunnel)" and "tunnel \<noteq> []"
  shows "ensure_ngrok_setup credential_file True
           (Http 200 (Some PNone) # Http post_code (Some new_data) # tape, tr) =
         (Return new_data,
          (tape, tr @ [HttpGet campaigns_url, HttpPost campaigns_url,
                       WriteFile credential_path new_data]))"
  using assms
  by (auto simp: ensure_ngrok_setup_def run_defs save_ngrok_credentials_def credential_path_def
      split: option.splits)

lemma poll_loop_exhausted:
  "max_attempts \<le> attempt \<Longrightarrow>
     poll_loop body message max_attempts interval attempt w = (Exit message, w)"
  by (subst poll_loop.simps) simp

lemma poll_loop_exit:
  assumes "attempt < max_attempts" and "body w = (Exit m, w')"
  shows "poll_loop body message max_attempts interval attempt w = (Exit m, w')"
  using assms by (subst poll_loop.simps) simp

lemma yaml_attempt_refused:
  "code \<noteq> 200 \<Longrightarrow>
     yaml_config_attempt repo_url (Http code body # tape, tr) =
       (Return False, (tape, tr @ [HttpGet yaml_config_url]))"
  by (simp add: yaml_config_attempt_def run_defs)

lemma diagnostics_attempt_refused:
  "code \<noteq> 200 \<Longrightarrow>
     diagnostics_attempt (Http code body # tape, tr) =
       (Return False, (tape, tr @ [HttpGet diagnostics_url]))"
  by (simp add: diagnostics_attempt_def run_defs)

lemma agent_attempt_refused:
  "code \<noteq> 200 \<Longrightarrow>
     agent_attempt (Http code body # tape, tr) =
       (Exit ''Failed to retrieve diagnostics'', (tape, tr @ [HttpGet diagnostics_url]))"
  by (simp add: agent_attempt_def run_defs)

text \<open>
  Claim C4, as the code has it. With no usable local credentials, a GET of
  \<^verbatim>\<open>ensure_ngrok_setup\<close> that raises or answers with a status other than 200 is passed
  over: the function goes on to the POST. A POST answered with a status other than 200 and
  201 ends the run; a POST answered with 200 or 201 and a tunnel writes the credentials and
  returns the new data. In \<^verbatim>\<open>poll_yaml_config_diagnostics\<close> and
  \<^verbatim>\<open>poll_diagnostics\<close> a status other than 200 counts as an attempt without success:
  the loop sleeps and makes the next attempt when one is left and ends with the timeout
  message when it was the last. In \<^verbatim>\<open>poll_agent_diagnostics\<close> a status other than 200
  ends the run on that attempt. A loop whose attempts are used up ends the run with its
  timeout message.
\<close>

theorem non_success_responses:
  "(load_ngrok_credentials credential_file = None \<and> get_failed first \<and>
    post_code \<notin> {200, 201} \<longrightarrow>
      ensure_ngrok_setup credential_file writable
        (first # Http post_code post_body # tape, tr) =
      (Exit ''Failed to provision ngrok proxy'',
       (tape, tr @ [HttpGet campaigns_url, HttpPost campaigns_url])))
 \<and> (load_ngrok_credentials credential_file = None \<and> get_failed first \<and>
    created_code \<in> {200, 201} \<and>
    py_get new_data ''tunnel'' PNone = Return (PDict tunnel) \<and> tunnel \<noteq> [] \<longrightarrow>
      ensure_ngrok_setup credential_file True
        (first # Http created_code (Some new_data) # tape, tr) =
      (Return new_data,
       (tape, tr @ [HttpGet campaigns_url, HttpPost campaigns_url,
                    WriteFile credential_path new_data])))
 \<and> (attempt < max_attempts \<and> code \<noteq> 200 \<longrightarrow>
      poll_loop (yaml_config_attempt repo_url) message max_attempts interval attempt
        (Http code body # tape, tr) =
      (if attempt + 1 < max_attempts
       then poll_loop (yaml_config_attempt repo_url) message max_attempts interval (attempt + 1)
              (tape, tr @ [HttpGet yaml_config_url, Sleep interval])
       else (Exit message, (tape, tr @ [HttpGet yaml_config_url]))))
 \<and> (attempt < max_attempts \<and> code \<noteq> 200 \<longrightarrow>
      poll_loop diagnostics_attempt message max_attempts interval attempt
        (Http code body # tape, tr) =
      (if attempt + 1 < max_attempts
       then poll_loop diagnostics_attempt message max_attempts interval (attempt + 1)
              (tape, tr @ [HttpGet diagnostics_url, Sleep interval])
       else (Exit message, (tape, tr @ [HttpGet diagnostics_url]))))
 \<and> (attempt < max_attempts \<and> code \<noteq> 200 \<longrightarrow>
      poll_loop agent_attempt message max_attempts interval attempt
        (Http code body # tape, tr) =
      (Exit ''Failed to retrieve diagnostics'', (tape, tr @ [HttpGet diagnostics_url])))
 \<and> (max_attempts \<le> spent \<longrightarrow>
      poll_loop attempt_body message max_attempts interval spent w = (Exit message, w))"
proof (intro conjI impI)
  assume a: "load_ngrok_credentials credential_file = None \<and> get_failed first \<and>
    post_code \<notin> {200, 201}"
  then have "ensure_ngrok_setup credential_file writable
        (first # Http post_code post_body # tape, tr) =
      ensure_ngrok_setup credential_file writable
        (Http 200 (Some PNone) # Http post_code post_body # tape, tr)"
    by (intro ngrok_get_failed) simp_all
  also from a have "\<dots> = (Exit ''Failed to provision ngrok proxy'',
       (tape, tr @ [HttpGet campaigns_url, HttpPost campaigns_url]))"
    by (intro ngrok_post_refused) simp_all
  finally show "ensure_ngrok_setup credential_file writable
        (first # Http post_code post_body # tape, tr) =
      (Exit ''Failed to provision ngrok proxy'',
       (tape, tr @ [HttpGet campaigns_url, HttpPost campaigns_url]))" .
next
  assume a: "load_ngrok_credentials credential_file = None \<and> get_failed first \<and>
    created_code \<in> {200, 201} \<and>
    py_get new_data ''tunnel'' PNone = Return (PDict tunnel) \<and> tunnel \<noteq> []"
  then have "ensure_ngrok_setup credential_file True
        (first # Http created_code (Some new_data) # tape, tr) =
      ensure_ngrok_setup credential_file True
        (Http 200 (Some PNone) # Http created_code (Some new_data) # tape, tr)"
    by (intro ngrok_get_failed) simp_all
  also from a have "\<dots> = (Return new_data,
       (tape, tr @ [HttpGet campaigns_url, HttpPost campaigns_url,
                    WriteFile credential_path new_data]))"
    by (intro ngrok_post_created[where tunnel = tunnel]) simp_all
  finally show "ensure_ngrok_setup credential_file True
        (first # Http created_code (Some new_data) # tape, tr) =
      (Return new_data,
       (tape, tr @ [HttpGet campaigns_url, HttpPost campaigns_url,
                    WriteFile credential_path new_data]))" .
next
  assume a: "attempt < max_attempts \<and> code \<noteq> 200"
  then have "yaml_config_attempt repo_url (Http code body # tape, tr) =
       (Return False, (tape, tr @ [HttpGet yaml_config_url]))"
    by (intro yaml_attempt_refused) simp
  from a poll_loop_pending[where body = "yaml_config_attempt repo_url" and attempt = attempt
      and max_attempts = max_attempts and message = message and interval = interval
      and w = "(Http code body # tape, tr)", OF _ this]
  show "poll_loop (yaml_config_attempt repo_url) message max_attempts interval attempt
        (Http code body # tape, tr) =
      (if attempt + 1 < max_attempts
       then poll_loop (yaml_config_attempt repo_url) message max_attempts interval (attempt + 1)
              (tape, tr @ [HttpGet yaml_config_url, Sleep interval])
       else (Exit message, (tape, tr @ [HttpGet yaml_config_url])))"
    by simp
next
  assume a: "attempt < max_attempts \<and> code \<noteq> 200"
  then have "diagnostics_attempt (Http code body # tape, tr) =
       (Return False, (tape, tr @ [HttpGet diagnostics_url]))"
    by (intro diagnostics_attempt_refused) simp
  from a poll_loop_pending[where body = diagnostics_attempt and attempt = attempt
      and max_attempts = max_attempts and message = message and interval = interval
      and w = "(Http code body # tape, tr)", OF _ this]
  show "poll_loop diagnostics_attempt message max_attempts interval attempt
        (Http code body # tape, tr) =
      (if attempt + 1 < max_attempts
       then poll_loop diagnostics_attempt message max_attempts interval (attempt + 1)
              (tape, tr @ [HttpGet diagnostics_url, Sleep interval])
       else (Exit message, (tape, tr @ [HttpGet diagnostics_url])))"
    by simp
next
  assume a: "attempt < max_attempts \<and> code \<noteq> 200"
  then have "agent_attempt (Http code body # tape, tr) =
       (Exit ''Failed to retrieve diagnostics'', (tape, tr @ [HttpGet diagnostics_url]))"
    by (intro agent_attempt_refused) simp
  from a poll_loop_exit[where body = agent_attempt and attempt = attempt
      and max_attempts = max_attempts and message = message and interval = interval
      and w = "(Http code body # tape, tr)", OF _ this]
  show "poll_loop agent_attempt message max_attempts interval attempt
        (Http code body # tape, tr) =
      (Exit ''Failed to retrieve diagnostics'', (tape, tr @ [HttpGet diagnostics_url]))"
    by simp
next
  assume "max_attempts \<le> spent"
  then show "poll_loop attempt_body message max_attempts interval spent w = (Exit message, w)"
    by (rule poll_loop_exhausted)
qed

theorem non_success_responses_witness:
  "ensure_ngrok_setup None False ([Http 500 None, Http 502 None], []) =
     (Exit ''Failed to provision ngrok proxy'',
      ([], [HttpGet campaigns_url, HttpPost campaigns_url]))
 \<and> ensure_ngrok_setup None True ([Http 500 None, Http 201 (Some created_tunnel)], []) =
     (Return created_tunnel,
      ([], [HttpGet campaigns_url, HttpPost campaigns_url,
            WriteFile credential_path created_tunnel]))
 \<and> poll_loop (yaml_config_attempt ''acme/infra'') ''Timeout'' 2 5 1
       ([Http 500 None], []) =
     (Exit ''Timeout'', ([], [HttpGet yaml_config_url]))
 \<and> poll_loop diagnostics_attempt ''Timeout'' 2 5 1 ([Http 500 None], []) =
     (Exit ''Timeout'', ([], [HttpGet diagnostics_url]))
 \<and> poll_loop agent_attempt ''Timeout'' 2 5 1 ([Http 500 None], []) =
     (Exit ''Failed to retrieve diagnostics'', ([], [HttpGet diagnostics_url]))
 \<and> poll_loop agent_attempt ''Timeout'' 2 5 2 ([], []) = (Exit ''Timeout'', ([], []))"
proof -
  have 1: "load_ngrok_credentials None = None"
    by (simp add: load_ngrok_credentials_def)
  have 2: "get_failed (Http 500 None)"
    by (simp add: get_failed_def)
  have 3: "py_get created_tunnel ''tunnel'' PNone =
             Return (PDict [(''endpoint_url'', PStr ''https://t.example''),
                            (''seed'', PStr ''s''), (''auth_token'', PStr ''a'')])"
    by (simp add: created_tunnel_def)
  show ?thesis
    using non_success_responses[where credential_file = None and first = "Http 500 None"
        and post_code = 502 and post_body = None and writable = False and tape = "[]"
        and tr = "[]" and created_code = 201 and new_data = created_tunnel
        and tunnel = "[(''endpoint_url'', PStr ''https://t.example''),
                       (''seed'', PStr ''s''), (''auth_token'', PStr ''a'')]"
        and attempt = 1 and max_attempts = 2 and code = 500 and body = None
        and repo_url = "''acme/infra''" and message = "''Timeout''" and interval = 5
        and spent = 2 and attempt_body = agent_attempt and w = "([], [])"]
      1 2 3
    by simp
qed

text \<open>
  Claim C4 as stated fails: after a GET answered with status 500, and after a GET that
  raised, \<^verbatim>\<open>ensure_ngrok_setup\<close> makes the POST and returns; after a response with
  status 500 or 503 \<^verbatim>\<open>poll_yaml_config_diagnostics\<close> and \<^verbatim>\<open>poll_diagnostics\<close> sleep,
  ask again and return.
\<close>

theorem failed_lookup_bypassed_counterexample:
  "ensure_ngrok_setup None True ([Http 500 None, Http 201 (Some created_tunnel)], []) =
     (Return created_tunnel,
      ([], [HttpGet campaigns_url, HttpPost campaigns_url,
            WriteFile credential_path created_tunnel]))
 \<and> ensure_ngrok_setup None True
       ([Fails (OtherError ''ConnectionError''), Http 200 (Some created_tunnel)], []) =
     (Return created_tunnel,
      ([], [HttpGet campaigns_url, HttpPost campaigns_url,
            WriteFile credential_path created_tunnel]))
 \<and> poll_yaml_config_diagnostics ''acme/infra'' 5 5
       ([Http 500 None, Http 200 (Some (valid_yaml_doc ''acme/infra''))], []) =
     (Return (), ([], [HttpGet yaml_config_url, Sleep 5, HttpGet yaml_config_url]))
 \<and> poll_diagnostics 5 5
       ([Http 503 None,
         Http 200 (Some (PDict [(''diagnostics'', PList [
            PDict [(''source'', PStr ''DIAGNOSTIC_SOURCE_GITHUB''), (''checks'', PList [])]])]))],
        []) =
     (Return (), ([], [HttpGet diagnostics_url, Sleep 5, HttpGet diagnostics_url]))"
  by (simp add: ensure_ngrok_setup_def load_ngrok_credentials_def save_ngrok_credentials_def
      created_tunnel_def credential_path_def run_defs poll_yaml_config_diagnostics_def
      poll_diagnostics_def poll_loop.simps yaml_config_attempt_def diagnostics_attempt_def
      valid_yaml_doc_def)

section \<open>Properties: what the pollers make of a lookup\<close>

lemma ecs_attempt_no_tasks:
  assumes "py_get listing ''taskArns'' (PList []) = Return task_arns" and "\<not> truthy task_arns"
  shows "ecs_attempt cluster_name service (Ok listing # more, tr) =
           (Return False, (more, tr @ [list_tasks_call cluster_name service]))"
  using assms by (simp add: ecs_attempt_def run_defs list_tasks_call_def)

lemma ecs_loop_no_tasks:
  assumes "t - start_time < timeout"
      and "py_get listing ''taskArns'' (PList []) = Return task_arns" and "\<not> truthy task_arns"
  shows "wait_for_ecs_loop cluster_name service timeout poll_interval start_time
           ((t, Ok listing # more) # later) tr =
         wait_for_ecs_loop cluster_name service timeout poll_interval start_time later
           (tr @ [list_tasks_call cluster_name service, Sleep poll_interval])"
  using assms(1) ecs_attempt_no_tasks[OF assms(2,3), of cluster_name service more tr]
  by (simp add: sleep_def)

lemma ecs_loop_list_raises:
  assumes "t - start_time < timeout"
  shows "wait_for_ecs_loop cluster_name service timeout poll_interval start_time
           ((t, Fails e # more) # later) tr =
         (Exit ''Error listing ECS tasks'', tr @ [list_tasks_call cluster_name service])"
  using assms by (simp add: ecs_attempt_def run_defs list_tasks_call_def)

lemma ecs_loop_describe_raises:
  assumes "t - start_time < timeout"
      and "py_get listing ''taskArns'' (PList []) = Return task_arns" and "truthy task_arns"
  shows "wait_for_ecs_loop cluster_name service timeout poll_interval start_time
           ((t, Ok listing # Fails e # more) # later) tr =
         (Exit ''Error describing ECS tasks'',
          tr @ [list_tasks_call cluster_name service, describe_tasks_call cluster_name task_arns])"
  using assms
  by (simp add: ecs_attempt_def run_defs list_tasks_call_def describe_tasks_call_def)

lemma plan_loop_runs_refused:
  assumes "t - start_time < timeout" and "code \<noteq> 200"
  shows "wait_for_plan_job_loop owner repo commit_sha timeout poll_interval start_time
           ((t, Http code (Some shown) # more) # later) tr =
         (Exit ''Failed to retrieve workflow runs'', tr @ [HttpGet (runs_url owner repo)])"
  using assms by (simp add: plan_job_attempt_def run_defs)

lemma plan_loop_jobs_refused:
  assumes "t - start_time < timeout" and "code \<noteq> 200"
      and "py_get runs_doc ''workflow_runs'' (PList []) = Return (PList (latest_run # older))"
      and "then_outcome (py_get latest_run ''id'' PNone) py_format = Return run_id"
  shows "wait_for_plan_job_loop owner repo commit_sha timeout poll_interval start_time
           ((t, Http 200 (Some runs_doc) # Http code (Some shown) # more) # later) tr =
         (Exit ''Failed to retrieve jobs for workflow run'',
          tr @ [HttpGet (runs_url owner repo), HttpGet (jobs_url owner repo run_id)])"
  using assms by (simp add: plan_job_attempt_def run_defs)

lemma request_reply:
  "request c (tape, tr) =
     (case tape of
        [] \<Rightarrow> (Stuck, ([], tr @ [c]))
      | Ok v # rest \<Rightarrow> (Stuck, (rest, tr @ [c]))
      | Fails e # rest \<Rightarrow> (Raise e, (rest, tr @ [c]))
      | Http code body # rest \<Rightarrow> (Return (code, body), (rest, tr @ [c])))"
  by (simp add: request_def split: list.splits reply.splits)

lemma boto_reply:
  "boto service operation kwargs (tape, tr) =
     (case tape of
        [] \<Rightarrow> (Stuck, ([], tr @ [Boto service operation kwargs]))
      | Ok v # rest \<Rightarrow> (Return v, (rest, tr @ [Boto service operation kwargs]))
      | Fails e # rest \<Rightarrow> (Raise e, (rest, tr @ [Boto service operation kwargs]))
      | Http code body # rest \<Rightarrow> (Stuck, (rest, tr @ [Boto service operation kwargs])))"
  by (simp add: boto_def split: list.splits reply.splits)

lemma then_outcome_Exit:
  "then_outcome r f = Exit m \<longleftrightarrow> r = Exit m \<or> (\<exists>a. r = Return a \<and> f a = Exit m)"
  by (cases r) auto

lemma py_get_no_exit: "py_get v k d \<noteq> Exit m"
  by (cases v) (auto split: option.splits)

lemma json_body_no_exit: "json_body b \<noteq> Exit m"
  by (cases b) auto

lemma py_iter_no_exit: "py_iter v \<noteq> Exit m"
  by (cases v) auto

lemma py_first_no_exit: "py_first v \<noteq> Exit m"
  by (cases v) (auto split: list.splits)

lemma py_format_no_exit: "py_format v \<noteq> Exit m"
  by (cases v) auto

lemmas no_exit = then_outcome_Exit py_get_no_exit json_body_no_exit py_iter_no_exit
  py_first_no_exit py_format_no_exit

lemma scan_jobs_no_exit: "scan_jobs jobs \<noteq> Exit m"
  by (induction jobs) (auto simp: no_exit)

lemma all_checks_success_no_exit: "all_checks_success checks \<noteq> Exit m"
  by (induction checks) (auto simp: no_exit)

lemma scan_diagnostics_no_exit: "scan_diagnostics diagnostics \<noteq> Exit m"
  by (induction diagnostics) (auto simp: no_exit all_checks_success_no_exit)

lemma record_check_no_exit: "record_check statuses check \<noteq> Exit m"
  by (auto simp: no_exit split: pyval.splits option.splits)

lemma record_checks_no_exit: "record_checks statuses checks \<noteq> Exit m"
  by (induction checks arbitrary: statuses)
     (auto simp: no_exit record_check_no_exit simp del: record_check.simps)

lemma record_diagnostics_no_exit: "record_diagnostics statuses diagnostics \<noteq> Exit m"
  by (induction diagnostics arbitrary: statuses) (auto simp: no_exit record_checks_no_exit)

lemma any_running_no_exit: "any_running tasks \<noteq> Exit m"
  by (induction tasks) (auto simp: no_exit)

lemma yaml_attempt_no_exit: "fst (yaml_config_attempt repo_url w) \<noteq> Exit m"
proof (cases w)
  case (Pair tape tr)
  show ?thesis
    unfolding Pair yaml_config_attempt_def and_then_def unit_def lift_def request_reply
    by (auto simp: no_exit split: list.splits reply.splits)
qed

lemma diagnostics_attempt_no_exit: "fst (diagnostics_attempt w) \<noteq> Exit m"
proof (cases w)
  case (Pair tape tr)
  show ?thesis
    unfolding Pair diagnostics_attempt_def and_then_def unit_def lift_def request_reply
    by (auto simp: no_exit scan_diagnostics_no_exit split: list.splits reply.splits)
qed

lemma agent_attempt_exit:
  assumes "agent_attempt (tape, tr) = (Exit m, w')"
  shows "\<exists>code body rest. tape = Http code body # rest \<and> code \<noteq> 200 \<and>
           m = ''Failed to retrieve diagnostics''"
  using assms
  unfolding agent_attempt_def and_then_def unit_def lift_def exit_with_def request_reply
  by (auto simp: no_exit record_diagnostics_no_exit split: list.splits reply.splits if_splits)

lemma call_failed_reply:
  "call_failed key (Fails e)"
  "call_failed key (Ok v) \<longleftrightarrow> (\<exists>e. py_get v key (PList []) = Raise e)"
  "\<not> call_failed key (Http code body)"
  by (auto simp: call_failed_def split: outcome.splits)

lemma ecs_attempt_exit:
  assumes "ecs_attempt cluster_name service (tape, tr) = (Exit m, w')"
  shows "(m = ''Error listing ECS tasks'' \<and>
            (\<exists>first rest. tape = first # rest \<and> call_failed ''taskArns'' first))
       \<or> (m = ''Error describing ECS tasks'' \<and>
            (\<exists>listing second rest. tape = Ok listing # second # rest \<and>
               call_failed ''tasks'' second))"
  using assms
  unfolding ecs_attempt_def and_then_def handle_def on_exception_def unit_def lift_def
    exit_with_def boto_reply
  by (auto simp: no_exit any_running_no_exit boto_reply call_failed_reply
      split: list.splits reply.splits if_splits outcome.splits prod.splits)

lemma plan_loop_timeout:
  assumes "timeout \<le> late - start_time"
  shows "wait_for_plan_job_loop owner repo commit_sha timeout poll_interval start_time
           ((late, replies) # later) tr = (Exit (plan_timeout_message commit_sha), tr)"
  using assms by (simp add: plan_timeout_message_def)

lemma ecs_loop_timeout:
  assumes "timeout \<le> late - start_time"
  shows "wait_for_ecs_loop cluster_name service timeout poll_interval start_time
           ((late, replies) # later) tr = (Exit ecs_timeout_message, tr)"
  using assms by simp

lemma ecs_loop_not_running:
  assumes "t - start_time < timeout"
      and "py_get task_listing ''taskArns'' (PList []) = Return task_arns" and "truthy task_arns"
      and "py_get described ''tasks'' (PList []) = Return (PList tasks)"
      and "any_running tasks = Return False"
  shows "wait_for_ecs_loop cluster_name service timeout poll_interval start_time
           ((t, Ok task_listing # Ok described # more) # later) tr =
         wait_for_ecs_loop cluster_name service timeout poll_interval start_time later
           (tr @ [list_tasks_call cluster_name service, describe_tasks_call cluster_name task_arns,
                  Sleep poll_interval])"
  using assms
  by (simp add: ecs_attempt_def run_defs list_tasks_call_def describe_tasks_call_def)

lemma plan_attempt_exit:
  assumes "plan_job_attempt owner repo (tape, tr) = (Exit m, w')"
  shows "(\<exists>code shown rest. tape = Http code (Some shown) # rest \<and> code \<noteq> 200 \<and>
            m = ''Failed to retrieve workflow runs'')
       \<or> (\<exists>runs_doc code shown rest.
            tape = Http 200 (Some runs_doc) # Http code (Some shown) # rest \<and> code \<noteq> 200 \<and>
            m = ''Failed to retrieve jobs for workflow run'')
       \<or> (\<exists>runs_doc jobs_doc rest jobs conclusion reason.
            tape = Http 200 (Some runs_doc) # Http 200 (Some jobs_doc) # rest \<and>
            then_outcome (py_get jobs_doc ''jobs'' (PList [])) py_iter = Return jobs \<and>
            list_ex (failed_plan_job conclusion) jobs \<and>
            py_format conclusion = Return reason \<and> m = plan_failure_message reason)"
proof (cases tape)
  case Nil
  with assms show ?thesis by (simp add: plan_job_attempt_def and_then_def request_reply)
next
  case (Cons first rest)
  show ?thesis
  proof (cases first)
    case (Ok v)
    with Cons assms show ?thesis by (simp add: plan_job_attempt_def and_then_def request_reply)
  next
    case (Fails e)
    with Cons assms show ?thesis by (simp add: plan_job_attempt_def and_then_def request_reply)
  next
    case (Http code body)
    show ?thesis
    proof (cases "code = 200")
      case False
      with Cons Http assms show ?thesis
        by (cases body) (simp_all add: plan_job_attempt_def run_defs request_reply)
    next
      case True
      from Cons Http True assms obtain runs_doc where b: "body = Some runs_doc"
        by (cases body) (simp_all add: plan_job_attempt_def run_defs)
      from Cons Http True assms b obtain runs
        where r: "py_get runs_doc ''workflow_runs'' (PList []) = Return runs"
        by (cases "py_get runs_doc ''workflow_runs'' (PList [])")
           (simp_all add: plan_job_attempt_def run_defs py_get_no_exit)
      from Cons Http True assms b r have t: "truthy runs"
        by (cases "truthy runs") (simp_all add: plan_job_attempt_def run_defs)
      from Cons Http True assms b r t obtain run_id
        where i: "then_outcome (py_first runs) (\<lambda>latest_run.
                    then_outcome (py_get latest_run ''id'' PNone) py_format) = Return run_id"
        by (cases "then_outcome (py_first runs) (\<lambda>latest_run.
                    then_outcome (py_get latest_run ''id'' PNone) py_format)")
           (simp_all add: plan_job_attempt_def run_defs no_exit)
      let ?tr = "tr @ [HttpGet (runs_url owner repo)]"
      let ?jobs_stage = "and_then (request (HttpGet (jobs_url owner repo run_id))) (\<lambda>jobs_response.
                       if fst jobs_response \<noteq> 200 then
                         and_then (lift (json_body (snd jobs_response)))
                           (\<lambda>shown. exit_with ''Failed to retrieve jobs for workflow run'')
                       else
                         and_then
                           (lift (then_outcome (json_body (snd jobs_response)) (\<lambda>data.
                                  then_outcome (py_get data ''jobs'' (PList [])) (\<lambda>jobs.
                                  then_outcome (py_iter jobs) scan_jobs))))
                           (\<lambda>scanned.
                              case scanned of
                                JobSucceeded \<Rightarrow> unit True
                              | JobFailed job_conclusion \<Rightarrow>
                                  and_then (lift (py_format job_conclusion)) (\<lambda>shown.
                                    exit_with (''Plan Sandbox job failed with conclusion: '' @ shown))
                              | JobNotFound \<Rightarrow> unit False))"
      from Cons Http True assms b r t i have s: "?jobs_stage (rest, ?tr) = (Exit m, w')"
        by (simp add: plan_job_attempt_def and_then_def lift_def request_reply)
      show ?thesis
      proof (cases rest)
        case Nil
        with s show ?thesis by (simp add: and_then_def request_reply)
      next
        case second: (Cons second rest')
        show ?thesis
        proof (cases second)
          case (Ok v)
          with second s show ?thesis by (simp add: and_then_def request_reply)
        next
          case (Fails e)
          with second s show ?thesis by (simp add: and_then_def request_reply)
        next
          case jobs: (Http code' body')
          show ?thesis
          proof (cases "code' = 200")
            case False
            with second jobs s Cons Http True b show ?thesis
              by (cases body') (simp_all add: run_defs request_reply)
          next
            case ok: True
            from second jobs ok s obtain jobs_doc where b': "body' = Some jobs_doc"
              by (cases body') (simp_all add: run_defs request_reply)
            from second jobs ok s b' obtain scanned
              where sc: "then_outcome (py_get jobs_doc ''jobs'' (PList [])) (\<lambda>jobs.
                           then_outcome (py_iter jobs) scan_jobs) = Return scanned"
              by (cases "then_outcome (py_get jobs_doc ''jobs'' (PList [])) (\<lambda>jobs.
                           then_outcome (py_iter jobs) scan_jobs)")
                 (simp_all add: run_defs request_reply no_exit scan_jobs_no_exit)
            from sc obtain listed where g: "py_get jobs_doc ''jobs'' (PList []) = Return listed"
              and sc': "then_outcome (py_iter listed) scan_jobs = Return scanned"
              by (cases "py_get jobs_doc ''jobs'' (PList [])") auto
            from sc' obtain jobs where it: "py_iter listed = Return jobs"
              and sj: "scan_jobs jobs = Return scanned"
              by (cases "py_iter listed") auto
            from second jobs ok s b' sc obtain conclusion reason
              where f: "scanned = JobFailed conclusion" and p: "py_format conclusion = Return reason"
                and m: "m = plan_failure_message reason"
              by (cases scanned; cases "py_format (case scanned of JobFailed c \<Rightarrow> c | _ \<Rightarrow> PNone)")
                 (auto simp: run_defs request_reply plan_failure_message_def py_format_no_exit)
            from scan_jobs_failed_only[OF sj[unfolded f]]
            have "list_ex (failed_plan_job conclusion) jobs"
              by (auto simp: list_ex_iff failed_plan_job_def)
            with Cons Http True b second jobs ok b' g it p m show ?thesis by auto
          qed
        qed
      qed
    qed
  qed
qed

lemma poll_loop_exits:
  "poll_loop body message max_attempts interval attempt w = (Exit m, w') \<Longrightarrow>
     m = message \<or> (\<exists>w0 w1. body w0 = (Exit m, w1))"
proof (induction body message max_attempts interval attempt w rule: poll_loop.induct)
  case (1 body message max_attempts interval attempt w)
  show ?case
  proof (cases "attempt < max_attempts")
    case False
    with "1.prems" show ?thesis by (subst (asm) poll_loop.simps) simp
  next
    case True
    obtain r w1 where b: "body w = (r, w1)" by (cases "body w")
    show ?thesis
    proof (cases r)
      case (Return finished)
      show ?thesis
      proof (cases finished)
        case True
        with \<open>attempt < max_attempts\<close> b Return "1.prems" show ?thesis
          by (subst (asm) poll_loop.simps) simp
      next
        case False
        show ?thesis
        proof (cases "attempt + 1 < max_attempts")
          case more: True
          with \<open>attempt < max_attempts\<close> b Return False "1.prems"
          have "poll_loop body message max_attempts interval (attempt + 1)
                  (snd (sleep interval w1)) = (Exit m, w')"
            by (subst (asm) poll_loop.simps) simp
          from "1.IH"(1)[OF \<open>attempt < max_attempts\<close> b[symmetric] Return _ more this] False
          show ?thesis by simp
        next
          case last: False
          with \<open>attempt < max_attempts\<close> b Return False "1.prems"
          have "poll_loop body message max_attempts interval (attempt + 1) w1 = (Exit m, w')"
            by (subst (asm) poll_loop.simps) simp
          from "1.IH"(2)[OF \<open>attempt < max_attempts\<close> b[symmetric] Return _ last this] False
          show ?thesis by simp
        qed
      qed
    next
      case (Exit m')
      with True b "1.prems" have "m' = m" by (subst (asm) poll_loop.simps) simp
      with b Exit show ?thesis by blast
    next
      case (Raise e)
      with True b "1.prems" show ?thesis by (subst (asm) poll_loop.simps) simp
    next
      case Stuck
      with True b "1.prems" show ?thesis by (subst (asm) poll_loop.simps) simp
    qed
  qed
qed

lemma plan_loop_exits:
  "wait_for_plan_job_loop owner repo commit_sha timeout poll_interval start_time snapshots tr =
     (Exit m, tr') \<Longrightarrow>
   m = plan_timeout_message commit_sha \<or>
   (\<exists>snapshot \<in> set snapshots. \<exists>tr0 w. plan_job_attempt owner repo (snd snapshot, tr0) = (Exit m, w))"
proof (induction snapshots arbitrary: tr)
  case Nil
  then show ?case by simp
next
  case (Cons snapshot later)
  show ?case
  proof (cases "fst snapshot - start_time < timeout")
    case False
    with Cons.prems show ?thesis by (simp add: plan_timeout_message_def)
  next
    case True
    obtain r w where a: "plan_job_attempt owner repo (snd snapshot, tr) = (r, w)"
      by (cases "plan_job_attempt owner repo (snd snapshot, tr)")
    show ?thesis
    proof (cases r)
      case (Return finished)
      show ?thesis
      proof (cases finished)
        case True
        with \<open>fst snapshot - start_time < timeout\<close> a Return Cons.prems show ?thesis by simp
      next
        case False
        with \<open>fst snapshot - start_time < timeout\<close> a Return Cons.prems
        have "wait_for_plan_job_loop owner repo commit_sha timeout poll_interval start_time
                later (snd (snd (sleep poll_interval w))) = (Exit m, tr')" by simp
        from Cons.IH[OF this] show ?thesis by auto
      qed
    next
      case (Exit m')
      with True a Cons.prems have "m' = m" by simp
      with a Exit have "\<exists>tr0 w. plan_job_attempt owner repo (snd snapshot, tr0) = (Exit m, w)"
        by blast
      then show ?thesis by simp
    next
      case (Raise e)
      with True a Cons.prems show ?thesis by simp
    next
      case Stuck
      with True a Cons.prems show ?thesis by simp
    qed
  qed
qed

lemma ecs_loop_exits:
  "wait_for_ecs_loop cluster_name service timeout poll_interval start_time snapshots tr =
     (Exit m, tr') \<Longrightarrow>
   m = ecs_timeout_message \<or> m = ''Error listing ECS tasks'' \<or> m = ''Error describing ECS tasks''"
proof (induction snapshots arbitrary: tr)
  case Nil
  then show ?case by simp
next
  case (Cons snapshot later)
  show ?case
  proof (cases "fst snapshot - start_time < timeout")
    case False
    with Cons.prems show ?thesis by simp
  next
    case True
    obtain r w where a: "ecs_attempt cluster_name service (snd snapshot, tr) = (r, w)"
      by (cases "ecs_attempt cluster_name service (snd snapshot, tr)")
    show ?thesis
    proof (cases r)
      case (Return finished)
      show ?thesis
      proof (cases finished)
        case True
        with \<open>fst snapshot - start_time < timeout\<close> a Return Cons.prems show ?thesis by simp
      next
        case False
        with \<open>fst snapshot - start_time < timeout\<close> a Return Cons.prems
        have "wait_for_ecs_loop cluster_name service timeout poll_interval start_time
                later (snd (snd (sleep poll_interval w))) = (Exit m, tr')" by simp
        from Cons.IH[OF this] show ?thesis .
      qed
    next
      case (Exit m')
      with True a Cons.prems have "m' = m" by simp
      with a Exit ecs_attempt_exit[of cluster_name service "snd snapshot" tr m w]
      show ?thesis by auto
    next
      case (Raise e)
      with True a Cons.prems show ?thesis by simp
    next
      case Stuck
      with True a Cons.prems show ?thesis by simp
    qed
  qed
qed

lemma role_wait_not_yet:
  "role_wait_loop (Suc remaining) (no_such_role # tape, tr) =
     role_wait_loop remaining (tape, tr @ [get_oidc_role_call, Sleep 3])"
  by (simp add: run_defs no_such_role_def get_oidc_role_call_def)

lemma role_wait_found:
  "role_wait_loop (Suc remaining) (Ok role # tape, tr) =
     (Return (), (tape, tr @ [get_oidc_role_call]))"
  by (simp add: run_defs get_oidc_role_call_def)

lemma role_wait_used_up: "role_wait_loop 0 w = (Exit role_timeout_message, w)"
  by (simp add: run_defs)

lemma role_wait_exits:
  "role_wait_loop rounds w = (Exit m, w') \<Longrightarrow> m = role_timeout_message"
proof (induction rounds arbitrary: w)
  case 0
  then show ?case by (simp add: run_defs)
next
  case (Suc rounds)
  obtain tape tr where w: "w = (tape, tr)" by (cases w)
  show ?case
  proof (cases tape)
    case Nil
    with Suc.prems w show ?thesis by (simp add: run_defs)
  next
    case (Cons first rest)
    show ?thesis
    proof (cases first)
      case (Ok v)
      with Suc.prems w Cons show ?thesis by (simp add: run_defs)
    next
      case (Http code body)
      with Suc.prems w Cons show ?thesis by (simp add: run_defs)
    next
      case (Fails e)
      show ?thesis
      proof (cases "e = ClientError ''NoSuchEntity''")
        case True
        with Suc.prems w Cons Fails
        have "role_wait_loop rounds (rest, tr @ [get_oidc_role_call, Sleep 3]) = (Exit m, w')"
          by (simp add: run_defs get_oidc_role_call_def)
        then show ?thesis by (rule Suc.IH)
      next
        case False
        with Suc.prems w Cons Fails show ?thesis by (simp add: run_defs)
      qed
    qed
  qed
qed

lemma create_oidc_role_waits:
  assumes "role_wait_loop 10 (tape, tr @ [get_oidc_role_call,
             create_oidc_role_call provider_arn repository]) = (Return (), w)"
  shows "create_oidc_role provider_arn repository (no_such_role # Ok created # tape, tr) =
           (Return oidc_role_name, w)"
  using assms
  by (simp add: create_oidc_role_def run_defs no_such_role_def get_oidc_role_call_def
      create_oidc_role_call_def del: role_wait_loop.simps)

lemma create_oidc_role_lookup_fails:
  assumes "code \<noteq> ''NoSuchEntity''"
  shows "create_oidc_role provider_arn repository
           (no_such_role # Ok created # Fails (ClientError code) # tape, tr) =
         (Exit ''Failed to create IAM role'',
          (tape, tr @ [get_oidc_role_call, create_oidc_role_call provider_arn repository,
                       get_oidc_role_call]))"
  using assms
  by (simp add: create_oidc_role_def run_defs no_such_role_def get_oidc_role_call_def
      create_oidc_role_call_def numeral_eq_Suc)

lemma create_oidc_role_exits:
  assumes "create_oidc_role provider_arn repository w = (Exit m, w')"
  shows "m = role_timeout_message \<or> m = ''Failed to create IAM role''"
proof -
  obtain tape tr where w: "w = (tape, tr)" by (cases w)
  show ?thesis
  proof (cases tape)
    case Nil
    with assms w show ?thesis by (simp add: create_oidc_role_def run_defs)
  next
    case (Cons first rest)
    show ?thesis
    proof (cases first)
      case (Ok v)
      with assms w Cons show ?thesis by (simp add: create_oidc_role_def run_defs)
    next
      case (Http code body)
      with assms w Cons show ?thesis by (simp add: create_oidc_role_def run_defs)
    next
      case (Fails e)
      show ?thesis
      proof (cases "e = ClientError ''NoSuchEntity''")
        case False
        with assms w Cons Fails show ?thesis by (simp add: create_oidc_role_def run_defs)
      next
        case True
        show ?thesis
        proof (cases rest)
          case Nil
          with assms w Cons Fails True show ?thesis
            by (simp add: create_oidc_role_def run_defs)
        next
          case second: (Cons second rest')
          show ?thesis
          proof (cases second)
            case (Ok created)
            let ?w = "(rest', tr @ [get_oidc_role_call,
                        create_oidc_role_call provider_arn repository])"
            obtain r w1 where l: "role_wait_loop 10 ?w = (r, w1)"
              by (cases "role_wait_loop 10 ?w")
            show ?thesis
            proof (cases r)
              case (Exit m')
              with l have "m' = role_timeout_message" by (auto dest: role_wait_exits)
              with assms w Cons Fails True second Ok l Exit show ?thesis
                by (simp add: create_oidc_role_def run_defs get_oidc_role_call_def
                    create_oidc_role_call_def del: role_wait_loop.simps)
            next
              case (Return u)
              with assms w Cons Fails True second Ok l show ?thesis
                by (simp add: create_oidc_role_def run_defs get_oidc_role_call_def
                    create_oidc_role_call_def del: role_wait_loop.simps)
            next
              case (Raise e')
              with assms w Cons Fails True second Ok l show ?thesis
                by (cases e') (simp_all add: create_oidc_role_def run_defs get_oidc_role_call_def
                    create_oidc_role_call_def del: role_wait_loop.simps)
            next
              case Stuck
              with assms w Cons Fails True second Ok l show ?thesis
                by (simp add: create_oidc_role_def run_defs get_oidc_role_call_def
                    create_oidc_role_call_def del: role_wait_loop.simps)
            qed
          next
            case (Fails e2)
            with assms w Cons \<open>first = Fails e\<close> True second show ?thesis
              by (cases e2) (simp_all add: create_oidc_role_def run_defs)
          next
            case (Http code body)
            with assms w Cons Fails True second show ?thesis
              by (simp add: create_oidc_role_def run_defs)
          qed
        qed
      qed
    qed
  qed
qed

lemma create_oidc_role_found_later:
  "create_oidc_role provider_arn repository
     (no_such_role # Ok created # no_such_role # Ok found_role # tape, tr) =
   (Return oidc_role_name,
    (tape, tr @ [get_oidc_role_call, create_oidc_role_call provider_arn repository,
                 get_oidc_role_call, Sleep 3, get_oidc_role_call]))"
  by (simp add: create_oidc_role_def run_defs no_such_role_def get_oidc_role_call_def
      create_oidc_role_call_def numeral_eq_Suc)

text \<open>
  Claim C7, as the code has it, for the six polling loops of the script:
  \<^verbatim>\<open>wait_for_plan_job_success\<close>, \<^verbatim>\<open>poll_yaml_config_diagnostics\<close>,
  \<^verbatim>\<open>poll_diagnostics\<close>, \<^verbatim>\<open>wait_for_ecs_service_running\<close>,
  \<^verbatim>\<open>poll_agent_diagnostics\<close>, and the wait for the new role in
  \<^verbatim>\<open>create_oidc_role\<close>.

  A lookup that is answered, and whose answer does not hold the subject yet, leaves the loop
  running: no workflow run, no plan job among the jobs of the run, no listed ECS task, and
  listed tasks of which none is \<^verbatim>\<open>RUNNING\<close>, end the pass with the sleep and the next test
  of the clock; a repository that is not a key of \<^verbatim>\<open>repos\<close>, no diagnostic of the source
  GitLab or GitHub, and a required check type that no check has make the attempt count as not
  successful, so the loop sleeps and makes the next attempt when one is left and ends with its
  timeout message when it was the last. A test of the clock after the timeout ends the two
  timed loops with their timeout message. The scan of the jobs reports a failure only for a
  listed job that has the name of the plan job, the status \<^verbatim>\<open>completed\<close> and a conclusion
  that is not \<^verbatim>\<open>success\<close>. In \<^verbatim>\<open>create_oidc_role\<close> a \<^verbatim>\<open>get_role\<close> that raises
  \<^verbatim>\<open>NoSuchEntityException\<close> sleeps and goes to the next of the ten rounds, and the loop
  ends with its timeout message when no round is left.

  A lookup that is not answered with success is another matter. In
  \<^verbatim>\<open>wait_for_plan_job_success\<close> a status other than 200 for the runs or for the jobs,
  in \<^verbatim>\<open>poll_agent_diagnostics\<close> a status other than 200, in
  \<^verbatim>\<open>wait_for_ecs_service_running\<close> an exception of \<^verbatim>\<open>list_tasks\<close> or
  \<^verbatim>\<open>describe_tasks\<close>, and in the wait of \<^verbatim>\<open>create_oidc_role\<close> a
  \<^verbatim>\<open>ClientError\<close> of another code end the run on that pass; in
  \<^verbatim>\<open>poll_yaml_config_diagnostics\<close> and \<^verbatim>\<open>poll_diagnostics\<close> a status other than 200
  counts as an attempt without success.

  These are all the ways in which a poller ends the run. A pass of
  \<^verbatim>\<open>wait_for_plan_job_success\<close> exits only after a status other than 200 for the runs or
  the jobs, or with the conclusion of a listed plan job that is completed without success; an
  attempt of \<^verbatim>\<open>poll_agent_diagnostics\<close> exits only after a status other than 200; an
  attempt of \<^verbatim>\<open>poll_yaml_config_diagnostics\<close> or \<^verbatim>\<open>poll_diagnostics\<close> never exits; a
  pass of \<^verbatim>\<open>wait_for_ecs_service_running\<close> exits only when one of its two calls has
  failed. Each loop exits only with its timeout message or with the exit of one of its passes;
  \<^verbatim>\<open>create_oidc_role\<close> exits only with the timeout message of its wait or with the
  message of its \<^verbatim>\<open>except ClientError\<close> clause.
\<close>

theorem poller_lookup_outcomes:
  "(t - start_time < timeout \<and>
    py_get no_runs_doc ''workflow_runs'' (PList []) = Return runs \<and> \<not> truthy runs \<longrightarrow>
      wait_for_plan_job_loop owner repo commit_sha timeout poll_interval start_time
        ((t, Http 200 (Some no_runs_doc) # more) # later) tr =
      wait_for_plan_job_loop owner repo commit_sha timeout poll_interval start_time later
        (tr @ [HttpGet (runs_url owner repo), Sleep poll_interval]))
 \<and> (t - start_time < timeout \<and>
    py_get runs_doc ''workflow_runs'' (PList []) = Return (PList (latest_run # older)) \<and>
    then_outcome (py_get latest_run ''id'' PNone) py_format = Return run_id \<and>
    py_get jobs_doc ''jobs'' (PList []) = Return (PList jobs) \<and> list_all other_job jobs \<longrightarrow>
      wait_for_plan_job_loop owner repo commit_sha timeout poll_interval start_time
        ((t, Http 200 (Some runs_doc) # Http 200 (Some jobs_doc) # more) # later) tr =
      wait_for_plan_job_loop owner repo commit_sha timeout poll_interval start_time later
        (tr @ [HttpGet (runs_url owner repo), HttpGet (jobs_url owner repo run_id),
               Sleep poll_interval]))
 \<and> (attempt < max_attempts \<and>
    py_get yaml_doc ''repos'' (PDict []) = Return (PDict repos) \<and>
    map_of repos (''https://github.com/'' @ repo_url) = None \<longrightarrow>
      poll_loop (yaml_config_attempt repo_url) message max_attempts interval attempt
        (Http 200 (Some yaml_doc) # tape, tr) =
      (if attempt + 1 < max_attempts
       then poll_loop (yaml_config_attempt repo_url) message max_attempts interval (attempt + 1)
              (tape, tr @ [HttpGet yaml_config_url, Sleep interval])
       else (Exit message, (tape, tr @ [HttpGet yaml_config_url]))))
 \<and> (attempt < max_attempts \<and>
    py_get diagnostics_doc ''diagnostics'' (PList []) = Return (PList diagnostics) \<and>
    list_all other_source diagnostics \<longrightarrow>
      poll_loop diagnostics_attempt message max_attempts interval attempt
        (Http 200 (Some diagnostics_doc) # tape, tr) =
      (if attempt + 1 < max_attempts
       then poll_loop diagnostics_attempt message max_attempts interval (attempt + 1)
              (tape, tr @ [HttpGet diagnostics_url, Sleep interval])
       else (Exit message, (tape, tr @ [HttpGet diagnostics_url]))))
 \<and> (attempt < max_attempts \<and>
    py_get agent_doc ''diagnostics'' (PList []) = Return (PList agent_diagnostics) \<and>
    record_diagnostics no_statuses agent_diagnostics = Return statuses \<and>
    k \<in> set required_checks \<and> lacks_check k agent_diagnostics \<longrightarrow>
      poll_loop agent_attempt message max_attempts interval attempt
        (Http 200 (Some agent_doc) # tape, tr) =
      (if attempt + 1 < max_attempts
       then poll_loop agent_attempt message max_attempts interval (attempt + 1)
              (tape, tr @ [HttpGet diagnostics_url, Sleep interval])
       else (Exit message, (tape, tr @ [HttpGet diagnostics_url]))))
 \<and> (scan_jobs listed = Return (JobFailed conclusion) \<longrightarrow>
      (\<exists>job \<in> set listed.
         py_get job ''name'' PNone = Return (PStr plan_job_name) \<and>
         py_get job ''status'' PNone = Return (PStr ''completed'') \<and>
         py_get job ''conclusion'' PNone = Return conclusion \<and>
         \<not> py_eq conclusion (PStr ''success'')))
 \<and> (t - start_time < timeout \<and>
    py_get listing ''taskArns'' (PList []) = Return no_arns \<and> \<not> truthy no_arns \<longrightarrow>
      wait_for_ecs_loop cluster_name service timeout poll_interval start_time
        ((t, Ok listing # more) # later) tr =
      wait_for_ecs_loop cluster_name service timeout poll_interval start_time later
        (tr @ [list_tasks_call cluster_name service, Sleep poll_interval]))
 \<and> (t - start_time < timeout \<and> code \<noteq> 200 \<longrightarrow>
      wait_for_plan_job_loop owner repo commit_sha timeout poll_interval start_time
        ((t, Http code (Some shown) # more) # later) tr =
      (Exit ''Failed to retrieve workflow runs'', tr @ [HttpGet (runs_url owner repo)]))
 \<and> (t - start_time < timeout \<and> code \<noteq> 200 \<and>
    py_get runs_doc ''workflow_runs'' (PList []) = Return (PList (latest_run # older)) \<and>
    then_outcome (py_get latest_run ''id'' PNone) py_format = Return run_id \<longrightarrow>
      wait_for_plan_job_loop owner repo commit_sha timeout poll_interval start_time
        ((t, Http 200 (Some runs_doc) # Http code (Some shown) # more) # later) tr =
      (Exit ''Failed to retrieve jobs for workflow run'',
       tr @ [HttpGet (runs_url owner repo), HttpGet (jobs_url owner repo run_id)]))
 \<and> (attempt < max_attempts \<and> code \<noteq> 200 \<longrightarrow>
      poll_loop agent_attempt message max_attempts interval attempt
        (Http code body # tape, tr) =
      (Exit ''Failed to retrieve diagnostics'', (tape, tr @ [HttpGet diagnostics_url])))
 \<and> (t - start_time < timeout \<longrightarrow>
      wait_for_ecs_loop cluster_name service timeout poll_interval start_time
        ((t, Fails e # more) # later) tr =
      (Exit ''Error listing ECS tasks'', tr @ [list_tasks_call cluster_name service]))
 \<and> (t - start_time < timeout \<and>
    py_get task_listing ''taskArns'' (PList []) = Return task_arns \<and> truthy task_arns \<longrightarrow>
      wait_for_ecs_loop cluster_name service timeout poll_interval start_time
        ((t, Ok task_listing # Fails e # more) # later) tr =
      (Exit ''Error describing ECS tasks'',
       tr @ [list_tasks_call cluster_name service, describe_tasks_call cluster_name task_arns]))
 \<and> (attempt < max_attempts \<and> code \<noteq> 200 \<longrightarrow>
      poll_loop (yaml_config_attempt repo_url) message max_attempts interval attempt
        (Http code body # tape, tr) =
      (if attempt + 1 < max_attempts
       then poll_loop (yaml_config_attempt repo_url) message max_attempts interval (attempt + 1)
              (tape, tr @ [HttpGet yaml_config_url, Sleep interval])
       else (Exit message, (tape, tr @ [HttpGet yaml_config_url]))))
 \<and> (attempt < max_attempts \<and> code \<noteq> 200 \<longrightarrow>
      poll_loop diagnostics_attempt message max_attempts interval attempt
        (Http code body # tape, tr) =
      (if attempt + 1 < max_attempts
       then poll_loop diagnostics_attempt message max_attempts interval (attempt + 1)
              (tape, tr @ [HttpGet diagnostics_url, Sleep interval])
       else (Exit message, (tape, tr @ [HttpGet diagnostics_url]))))
 \<and> (plan_job_attempt owner repo (plan_tape, plan_tr) = (Exit plan_m, plan_w) \<longrightarrow>
      (\<exists>refused answer rest. plan_tape = Http refused (Some answer) # rest \<and> refused \<noteq> 200 \<and>
         plan_m = ''Failed to retrieve workflow runs'')
    \<or> (\<exists>listed_runs refused answer rest.
         plan_tape = Http 200 (Some listed_runs) # Http refused (Some answer) # rest \<and>
         refused \<noteq> 200 \<and> plan_m = ''Failed to retrieve jobs for workflow run'')
    \<or> (\<exists>listed_runs listed_jobs rest run_jobs failure reason.
         plan_tape = Http 200 (Some listed_runs) # Http 200 (Some listed_jobs) # rest \<and>
         then_outcome (py_get listed_jobs ''jobs'' (PList [])) py_iter = Return run_jobs \<and>
         list_ex (failed_plan_job failure) run_jobs \<and>
         py_format failure = Return reason \<and> plan_m = plan_failure_message reason))
 \<and> (agent_attempt (agent_tape, agent_tr) = (Exit agent_m, agent_w) \<longrightarrow>
      (\<exists>refused answer rest. agent_tape = Http refused answer # rest \<and> refused \<noteq> 200 \<and>
         agent_m = ''Failed to retrieve diagnostics''))
 \<and> fst (yaml_config_attempt repo_url any_w) \<noteq> Exit any_m
 \<and> fst (diagnostics_attempt any_w) \<noteq> Exit any_m
 \<and> (ecs_attempt cluster_name service (ecs_tape, ecs_tr) = (Exit ecs_m, ecs_w) \<longrightarrow>
      (ecs_m = ''Error listing ECS tasks'' \<and>
         (\<exists>first rest. ecs_tape = first # rest \<and> call_failed ''taskArns'' first))
    \<or> (ecs_m = ''Error describing ECS tasks'' \<and>
         (\<exists>listed_tasks second rest. ecs_tape = Ok listed_tasks # second # rest \<and>
            call_failed ''tasks'' second)))
 \<and> (wait_for_plan_job_loop owner repo commit_sha timeout poll_interval start_time
      snapshots loop_tr = (Exit loop_m, loop_tr') \<longrightarrow>
      loop_m = plan_timeout_message commit_sha \<or>
      (\<exists>snapshot \<in> set snapshots. \<exists>tr0 w.
         plan_job_attempt owner repo (snd snapshot, tr0) = (Exit loop_m, w)))
 \<and> (poll_loop attempt_body message max_attempts interval attempt poll_w =
      (Exit poll_m, poll_w') \<longrightarrow>
      poll_m = message \<or> (\<exists>w0 w1. attempt_body w0 = (Exit poll_m, w1)))
 \<and> (wait_for_ecs_loop cluster_name service timeout poll_interval start_time
      ecs_snapshots ecs_loop_tr = (Exit ecs_loop_m, ecs_loop_tr') \<longrightarrow>
      ecs_loop_m = ecs_timeout_message \<or> ecs_loop_m = ''Error listing ECS tasks'' \<or>
      ecs_loop_m = ''Error describing ECS tasks'')
 \<and> (timeout \<le> late - start_time \<longrightarrow>
      wait_for_plan_job_loop owner repo commit_sha timeout poll_interval start_time
        ((late, replies) # later) tr = (Exit (plan_timeout_message commit_sha), tr))
 \<and> (timeout \<le> late - start_time \<longrightarrow>
      wait_for_ecs_loop cluster_name service timeout poll_interval start_time
        ((late, replies) # later) tr = (Exit ecs_timeout_message, tr))
 \<and> (t - start_time < timeout \<and>
    py_get task_listing ''taskArns'' (PList []) = Return task_arns \<and> truthy task_arns \<and>
    py_get described ''tasks'' (PList []) = Return (PList tasks) \<and>
    any_running tasks = Return False \<longrightarrow>
      wait_for_ecs_loop cluster_name service timeout poll_interval start_time
        ((t, Ok task_listing # Ok described # more) # later) tr =
      wait_for_ecs_loop cluster_name service timeout poll_interval start_time later
        (tr @ [list_tasks_call cluster_name service, describe_tasks_call cluster_name task_arns,
               Sleep poll_interval]))
 \<and> role_wait_loop (Suc remaining) (no_such_role # tape, tr) =
      role_wait_loop remaining (tape, tr @ [get_oidc_role_call, Sleep 3])
 \<and> role_wait_loop 0 (tape, tr) = (Exit role_timeout_message, (tape, tr))
 \<and> create_oidc_role provider_arn repository
      (no_such_role # Ok created # no_such_role # Ok found_role # tape, tr) =
    (Return oidc_role_name,
     (tape, tr @ [get_oidc_role_call, create_oidc_role_call provider_arn repository,
                  get_oidc_role_call, Sleep 3, get_oidc_role_call]))
 \<and> (role_code \<noteq> ''NoSuchEntity'' \<longrightarrow>
      create_oidc_role provider_arn repository
        (no_such_role # Ok created # Fails (ClientError role_code) # tape, tr) =
      (Exit ''Failed to create IAM role'',
       (tape, tr @ [get_oidc_role_call, create_oidc_role_call provider_arn repository,
                    get_oidc_role_call])))
 \<and> (role_wait_loop rounds wait_w = (Exit wait_m, wait_w') \<longrightarrow> wait_m = role_timeout_message)
 \<and> (create_oidc_role provider_arn repository role_w = (Exit role_m, role_w') \<longrightarrow>
      role_m = role_timeout_message \<or> role_m = ''Failed to create IAM role'')"
proof (intro conjI impI)
  assume "t - start_time < timeout \<and>
    py_get no_runs_doc ''workflow_runs'' (PList []) = Return runs \<and> \<not> truthy runs"
  then show "wait_for_plan_job_loop owner repo commit_sha timeout poll_interval start_time
        ((t, Http 200 (Some no_runs_doc) # more) # later) tr =
      wait_for_plan_job_loop owner repo commit_sha timeout poll_interval start_time later
        (tr @ [HttpGet (runs_url owner repo), Sleep poll_interval])"
    by (intro plan_loop_no_runs[where runs = runs]) simp_all
next
  assume "t - start_time < timeout \<and>
    py_get runs_doc ''workflow_runs'' (PList []) = Return (PList (latest_run # older)) \<and>
    then_outcome (py_get latest_run ''id'' PNone) py_format = Return run_id \<and>
    py_get jobs_doc ''jobs'' (PList []) = Return (PList jobs) \<and> list_all other_job jobs"
  then show "wait_for_plan_job_loop owner repo commit_sha timeout poll_interval start_time
        ((t, Http 200 (Some runs_doc) # Http 200 (Some jobs_doc) # more) # later) tr =
      wait_for_plan_job_loop owner repo commit_sha timeout poll_interval start_time later
        (tr @ [HttpGet (runs_url owner repo), HttpGet (jobs_url owner repo run_id),
               Sleep poll_interval])"
    by (intro plan_loop_job_absent[where latest_run = latest_run and older = older and jobs = jobs]) simp_all
next
  assume a: "attempt < max_attempts \<and>
    py_get yaml_doc ''repos'' (PDict []) = Return (PDict repos) \<and>
    map_of repos (''https://github.com/'' @ repo_url) = None"
  then have "yaml_config_attempt repo_url (Http 200 (Some yaml_doc) # tape, tr) =
           (Return False, (tape, tr @ [HttpGet yaml_config_url]))"
    by (intro yaml_attempt_repo_missing[where repos = repos]) simp_all
  from a poll_loop_pending[where body = "yaml_config_attempt repo_url" and attempt = attempt
      and max_attempts = max_attempts and message = message and interval = interval
      and w = "(Http 200 (Some yaml_doc) # tape, tr)", OF _ this]
  show "poll_loop (yaml_config_attempt repo_url) message max_attempts interval attempt
        (Http 200 (Some yaml_doc) # tape, tr) =
      (if attempt + 1 < max_attempts
       then poll_loop (yaml_config_attempt repo_url) message max_attempts interval (attempt + 1)
              (tape, tr @ [HttpGet yaml_config_url, Sleep interval])
       else (Exit message, (tape, tr @ [HttpGet yaml_config_url])))"
    by simp
next
  assume a: "attempt < max_attempts \<and>
    py_get diagnostics_doc ''diagnostics'' (PList []) = Return (PList diagnostics) \<and>
    list_all other_source diagnostics"
  then have "diagnostics_attempt (Http 200 (Some diagnostics_doc) # tape, tr) =
           (Return False, (tape, tr @ [HttpGet diagnostics_url]))"
    by (intro diagnostics_attempt_source_missing[where diagnostics = diagnostics]) simp_all
  from a poll_loop_pending[where body = "diagnostics_attempt" and attempt = attempt
      and max_attempts = max_attempts and message = message and interval = interval
      and w = "(Http 200 (Some diagnostics_doc) # tape, tr)", OF _ this]
  show "poll_loop diagnostics_attempt message max_attempts interval attempt
        (Http 200 (Some diagnostics_doc) # tape, tr) =
      (if attempt + 1 < max_attempts
       then poll_loop diagnostics_attempt message max_attempts interval (attempt + 1)
              (tape, tr @ [HttpGet diagnostics_url, Sleep interval])
       else (Exit message, (tape, tr @ [HttpGet diagnostics_url])))"
    by simp
next
  assume a: "attempt < max_attempts \<and>
    py_get agent_doc ''diagnostics'' (PList []) = Return (PList agent_diagnostics) \<and>
    record_diagnostics no_statuses agent_diagnostics = Return statuses \<and>
    k \<in> set required_checks \<and> lacks_check k agent_diagnostics"
  then have "agent_attempt (Http 200 (Some agent_doc) # tape, tr) =
           (Return False, (tape, tr @ [HttpGet diagnostics_url]))"
    by (intro agent_attempt_check_missing[where k = k and statuses = statuses
          and agent_diagnostics = agent_diagnostics]) simp_all
  from a poll_loop_pending[where body = "agent_attempt" and attempt = attempt
      and max_attempts = max_attempts and message = message and interval = interval
      and w = "(Http 200 (Some agent_doc) # tape, tr)", OF _ this]
  show "poll_loop agent_attempt message max_attempts interval attempt
        (Http 200 (Some agent_doc) # tape, tr) =
      (if attempt + 1 < max_attempts
       then poll_loop agent_attempt message max_attempts interval (attempt + 1)
              (tape, tr @ [HttpGet diagnostics_url, Sleep interval])
       else (Exit message, (tape, tr @ [HttpGet diagnostics_url])))"
    by simp
next
  assume "scan_jobs listed = Return (JobFailed conclusion)"
  then show "\<exists>job \<in> set listed.
         py_get job ''name'' PNone = Return (PStr plan_job_name) \<and>
         py_get job ''status'' PNone = Return (PStr ''completed'') \<and>
         py_get job ''conclusion'' PNone = Return conclusion \<and>
         \<not> py_eq conclusion (PStr ''success'')"
    by (rule scan_jobs_failed_only)
next
  assume "t - start_time < timeout \<and>
    py_get listing ''taskArns'' (PList []) = Return no_arns \<and> \<not> truthy no_arns"
  then show "wait_for_ecs_loop cluster_name service timeout poll_interval start_time
        ((t, Ok listing # more) # later) tr =
      wait_for_ecs_loop cluster_name service timeout poll_interval start_time later
        (tr @ [list_tasks_call cluster_name service, Sleep poll_interval])"
    by (intro ecs_loop_no_tasks[where task_arns = no_arns]) simp_all
next
  assume "t - start_time < timeout \<and> code \<noteq> 200"
  then show "wait_for_plan_job_loop owner repo commit_sha timeout poll_interval start_time
        ((t, Http code (Some shown) # more) # later) tr =
      (Exit ''Failed to retrieve workflow runs'', tr @ [HttpGet (runs_url owner repo)])"
    by (intro plan_loop_runs_refused) simp_all
next
  assume "t - start_time < timeout \<and> code \<noteq> 200 \<and>
    py_get runs_doc ''workflow_runs'' (PList []) = Return (PList (latest_run # older)) \<and>
    then_outcome (py_get latest_run ''id'' PNone) py_format = Return run_id"
  then show "wait_for_plan_job_loop owner repo commit_sha timeout poll_interval start_time
        ((t, Http 200 (Some runs_doc) # Http code (Some shown) # more) # later) tr =
      (Exit ''Failed to retrieve jobs for workflow run'',
       tr @ [HttpGet (runs_url owner repo), HttpGet (jobs_url owner repo run_id)])"
    by (intro plan_loop_jobs_refused[where latest_run = latest_run and older = older]) simp_all
next
  assume a: "attempt < max_attempts \<and> code \<noteq> 200"
  then have "agent_attempt (Http code body # tape, tr) =
       (Exit ''Failed to retrieve diagnostics'', (tape, tr @ [HttpGet diagnostics_url]))"
    by (intro agent_attempt_refused) simp
  from a poll_loop_exit[where body = agent_attempt and attempt = attempt
      and max_attempts = max_attempts and message = message and interval = interval
      and w = "(Http code body # tape, tr)", OF _ this]
  show "poll_loop agent_attempt message max_attempts interval attempt
        (Http code body # tape, tr) =
      (Exit ''Failed to retrieve diagnostics'', (tape, tr @ [HttpGet diagnostics_url]))"
    by simp
next
  assume "t - start_time < timeout"
  then show "wait_for_ecs_loop cluster_name service timeout poll_interval start_time
        ((t, Fails e # more) # later) tr =
      (Exit ''Error listing ECS tasks'', tr @ [list_tasks_call cluster_name service])"
    by (rule ecs_loop_list_raises)
next
  assume "t - start_time < timeout \<and>
    py_get task_listing ''taskArns'' (PList []) = Return task_arns \<and> truthy task_arns"
  then show "wait_for_ecs_loop cluster_name service timeout poll_interval start_time
        ((t, Ok task_listing # Fails e # more) # later) tr =
      (Exit ''Error describing ECS tasks'',
       tr @ [list_tasks_call cluster_name service, describe_tasks_call cluster_name task_arns])"
    by (intro ecs_loop_describe_raises) simp_all
next
  assume a: "attempt < max_attempts \<and> code \<noteq> 200"
  then have "yaml_config_attempt repo_url (Http code body # tape, tr) =
       (Return False, (tape, tr @ [HttpGet yaml_config_url]))"
    by (intro yaml_attempt_refused) simp
  from a poll_loop_pending[where body = "yaml_config_attempt repo_url" and attempt = attempt
      and max_attempts = max_attempts and message = message and interval = interval
      and w = "(Http code body # tape, tr)", OF _ this]
  show "poll_loop (yaml_config_attempt repo_url) message max_attempts interval attempt
        (Http code body # tape, tr) =
      (if attempt + 1 < max_attempts
       then poll_loop (yaml_config_attempt repo_url) message max_attempts interval (attempt + 1)
              (tape, tr @ [HttpGet yaml_config_url, Sleep interval])
       else (Exit message, (tape, tr @ [HttpGet yaml_config_url])))"
    by simp
next
  assume a: "attempt < max_attempts \<and> code \<noteq> 200"
  then have "diagnostics_attempt (Http code body # tape, tr) =
       (Return False, (tape, tr @ [HttpGet diagnostics_url]))"
    by (intro diagnostics_attempt_refused) simp
  from a poll_loop_pending[where body = diagnostics_attempt and attempt = attempt
      and max_attempts = max_attempts and message = message and interval = interval
      and w = "(Http code body # tape, tr)", OF _ this]
  show "poll_loop diagnostics_attempt message max_attempts interval attempt
        (Http code body # tape, tr) =
      (if attempt + 1 < max_attempts
       then poll_loop diagnostics_attempt message max_attempts interval (attempt + 1)
              (tape, tr @ [HttpGet diagnostics_url, Sleep interval])
       else (Exit message, (tape, tr @ [HttpGet diagnostics_url])))"
    by simp
next
  assume "plan_job_attempt owner repo (plan_tape, plan_tr) = (Exit plan_m, plan_w)"
  then show "(\<exists>refused answer rest. plan_tape = Http refused (Some answer) # rest \<and> refused \<noteq> 200 \<and>
         plan_m = ''Failed to retrieve workflow runs'')
    \<or> (\<exists>listed_runs refused answer rest.
         plan_tape = Http 200 (Some listed_runs) # Http refused (Some answer) # rest \<and>
         refused \<noteq> 200 \<and> plan_m = ''Failed to retrieve jobs for workflow run'')
    \<or> (\<exists>listed_runs listed_jobs rest run_jobs failure reason.
         plan_tape = Http 200 (Some listed_runs) # Http 200 (Some listed_jobs) # rest \<and>
         then_outcome (py_get listed_jobs ''jobs'' (PList [])) py_iter = Return run_jobs \<and>
         list_ex (failed_plan_job failure) run_jobs \<and>
         py_format failure = Return reason \<and> plan_m = plan_failure_message reason)"
    by (rule plan_attempt_exit)
next
  assume "agent_attempt (agent_tape, agent_tr) = (Exit agent_m, agent_w)"
  then show "\<exists>refused answer rest. agent_tape = Http refused answer # rest \<and> refused \<noteq> 200 \<and>
         agent_m = ''Failed to retrieve diagnostics''"
    by (rule agent_attempt_exit)
next
  show "fst (yaml_config_attempt repo_url any_w) \<noteq> Exit any_m"
    by (rule yaml_attempt_no_exit)
next
  show "fst (diagnostics_attempt any_w) \<noteq> Exit any_m"
    by (rule diagnostics_attempt_no_exit)
next
  assume "ecs_attempt cluster_name service (ecs_tape, ecs_tr) = (Exit ecs_m, ecs_w)"
  then show "(ecs_m = ''Error listing ECS tasks'' \<and>
         (\<exists>first rest. ecs_tape = first # rest \<and> call_failed ''taskArns'' first))
    \<or> (ecs_m = ''Error describing ECS tasks'' \<and>
         (\<exists>listed_tasks second rest. ecs_tape = Ok listed_tasks # second # rest \<and>
            call_failed ''tasks'' second))"
    by (rule ecs_attempt_exit)
next
  assume "wait_for_plan_job_loop owner repo commit_sha timeout poll_interval start_time
      snapshots loop_tr = (Exit loop_m, loop_tr')"
  then show "loop_m = plan_timeout_message commit_sha \<or>
      (\<exists>snapshot \<in> set snapshots. \<exists>tr0 w.
         plan_job_attempt owner repo (snd snapshot, tr0) = (Exit loop_m, w))"
    by (rule plan_loop_exits)
next
  assume "poll_loop attempt_body message max_attempts interval attempt poll_w =
      (Exit poll_m, poll_w')"
  then show "poll_m = message \<or> (\<exists>w0 w1. attempt_body w0 = (Exit poll_m, w1))"
    by (rule poll_loop_exits)
next
  assume "wait_for_ecs_loop cluster_name service timeout poll_interval start_time
      ecs_snapshots ecs_loop_tr = (Exit ecs_loop_m, ecs_loop_tr')"
  then show "ecs_loop_m = ecs_timeout_message \<or> ecs_loop_m = ''Error listing ECS tasks'' \<or>
      ecs_loop_m = ''Error describing ECS tasks''"
    by (rule ecs_loop_exits)
next
  assume "timeout \<le> late - start_time"
  then show "wait_for_plan_job_loop owner repo commit_sha timeout poll_interval start_time
        ((late, replies) # later) tr = (Exit (plan_timeout_message commit_sha), tr)"
    by (rule plan_loop_timeout)
next
  assume "timeout \<le> late - start_time"
  then show "wait_for_ecs_loop cluster_name service timeout poll_interval start_time
        ((late, replies) # later) tr = (Exit ecs_timeout_message, tr)"
    by (rule ecs_loop_timeout)
next
  assume "t - start_time < timeout \<and>
    py_get task_listing ''taskArns'' (PList []) = Return task_arns \<and> truthy task_arns \<and>
    py_get described ''tasks'' (PList []) = Return (PList tasks) \<and>
    any_running tasks = Return False"
  then show "wait_for_ecs_loop cluster_name service timeout poll_interval start_time
        ((t, Ok task_listing # Ok described # more) # later) tr =
      wait_for_ecs_loop cluster_name service timeout poll_interval start_time later
        (tr @ [list_tasks_call cluster_name service, describe_tasks_call cluster_name task_arns,
               Sleep poll_interval])"
    by (intro ecs_loop_not_running[where tasks = tasks]) simp_all
next
  show "role_wait_loop (Suc remaining) (no_such_role # tape, tr) =
      role_wait_loop remaining (tape, tr @ [get_oidc_role_call, Sleep 3])"
    by (rule role_wait_not_yet)
next
  show "role_wait_loop 0 (tape, tr) = (Exit role_timeout_message, (tape, tr))"
    by (rule role_wait_used_up)
next
  show "create_oidc_role provider_arn repository
      (no_such_role # Ok created # no_such_role # Ok found_role # tape, tr) =
    (Return oidc_role_name,
     (tape, tr @ [get_oidc_role_call, create_oidc_role_call provider_arn repository,
                  get_oidc_role_call, Sleep 3, get_oidc_role_call]))"
    by (rule create_oidc_role_found_later)
next
  assume "role_code \<noteq> ''NoSuchEntity''"
  then show "create_oidc_role provider_arn repository
        (no_such_role # Ok created # Fails (ClientError role_code) # tape, tr) =
      (Exit ''Failed to create IAM role'',
       (tape, tr @ [get_oidc_role_call, create_oidc_role_call provider_arn repository,
                    get_oidc_role_call]))"
    by (rule create_oidc_role_lookup_fails)
next
  assume "role_wait_loop rounds wait_w = (Exit wait_m, wait_w')"
  then show "wait_m = role_timeout_message"
    by (rule role_wait_exits)
next
  assume "create_oidc_role provider_arn repository role_w = (Exit role_m, role_w')"
  then show "role_m = role_timeout_message \<or> role_m = ''Failed to create IAM role''"
    by (rule create_oidc_role_exits)
qed

theorem poller_lookup_outcomes_witness:
  "wait_for_plan_job_loop ''acme'' ''infra'' ''abc123'' 600 30 1000
     [(1031, [Http 200 (Some (PDict [(''workflow_runs'', PList [])]))]), (1700, [])] [] =
     (Exit (plan_timeout_message ''abc123''), [HttpGet (runs_url ''acme'' ''infra''), Sleep 30])
 \<and> wait_for_plan_job_loop ''acme'' ''infra'' ''abc123'' 600 30 1000
     [(1031, [Http 200 (Some (PDict [(''workflow_runs'', PList [PDict [(''id'', PInt 42)]])])),
              Http 200 (Some (PDict [(''jobs'', PList [
                 PDict [(''name'', PStr ''lint''), (''status'', PStr ''completed''),
                        (''conclusion'', PStr ''failure'')]])]))]),
      (1700, [])] [] =
     (Exit (plan_timeout_message ''abc123''),
      [HttpGet (runs_url ''acme'' ''infra''), HttpGet (jobs_url ''acme'' ''infra'' ''42''),
       Sleep 30])
 \<and> poll_loop (yaml_config_attempt ''acme/infra'') ''Timeout'' 2 5 0
     ([Http 200 (Some (PDict [(''repos'', PDict [(''https://github.com/acme/other'',
          PDict [(''result'', PStr ''TF_CONFIG_SCAN_RESULT_VALID_CONFIG'')])])])),
       Http 200 (Some (PDict []))], []) =
     (Exit ''Timeout'', ([], [HttpGet yaml_config_url, Sleep 5, HttpGet yaml_config_url]))
 \<and> poll_loop diagnostics_attempt ''Timeout'' 2 5 0
     ([Http 200 (Some (PDict [(''diagnostics'', PList [
          PDict [(''source'', PStr ''DIAGNOSTIC_SOURCE_AWS''), (''checks'', PList [])]])])),
       Http 200 (Some (PDict []))], []) =
     (Exit ''Timeout'', ([], [HttpGet diagnostics_url, Sleep 5, HttpGet diagnostics_url]))
 \<and> poll_loop agent_attempt ''Timeout'' 2 5 0
     ([Http 200 (Some (PDict [(''diagnostics'', PList [
          PDict [(''checks'', PList [
            PDict [(''type'', PStr ''DIAGNOSTIC_TYPE_CAMPAIGNS_AGENT_REGISTERED''),
                   (''status'', PStr ''DIAGNOSTIC_STATUS_SUCCESS'')],
            PDict [(''type'', PStr ''DIAGNOSTIC_TYPE_CAMPAIGNS_AGENT_REACHABLE''),
                   (''status'', PStr ''DIAGNOSTIC_STATUS_SUCCESS'')]])]])])),
       Http 200 (Some (PDict []))], []) =
     (Exit ''Timeout'', ([], [HttpGet diagnostics_url, Sleep 5, HttpGet diagnostics_url]))
 \<and> scan_jobs [PDict [(''name'', PStr plan_job_name), (''status'', PStr ''completed''),
                   (''conclusion'', PStr ''failure'')]] = Return (JobFailed (PStr ''failure''))
 \<and> wait_for_ecs_loop ''resourcely-campaigns'' ''resourcely-campaigns-agent'' 600 30 1000
     [(1031, [Ok (PDict [(''taskArns'', PList [])])]), (1700, [])] [] =
     (Exit ecs_timeout_message,
      [list_tasks_call ''resourcely-campaigns'' ''resourcely-campaigns-agent'', Sleep 30])
 \<and> wait_for_plan_job_loop ''acme'' ''infra'' ''abc123'' 600 30 1000
     [(1031, [Http 404 (Some not_found_body)]), (1700, [])] [] =
     (Exit ''Failed to retrieve workflow runs'', [HttpGet (runs_url ''acme'' ''infra'')])
 \<and> wait_for_plan_job_loop ''acme'' ''infra'' ''abc123'' 600 30 1000
     [(1031, [Http 200 (Some (PDict [(''workflow_runs'', PList [PDict [(''id'', PInt 42)]])])),
              Http 404 (Some not_found_body)]),
      (1700, [])] [] =
     (Exit ''Failed to retrieve jobs for workflow run'',
      [HttpGet (runs_url ''acme'' ''infra''), HttpGet (jobs_url ''acme'' ''infra'' ''42'')])
 \<and> poll_loop agent_attempt ''Timeout'' 2 5 0
     ([Http 404 (Some not_found_body), Http 200 (Some (PDict []))], []) =
     (Exit ''Failed to retrieve diagnostics'',
      ([Http 200 (Some (PDict []))], [HttpGet diagnostics_url]))
 \<and> wait_for_ecs_loop ''resourcely-campaigns'' ''resourcely-campaigns-agent'' 600 30 1000
     [(1031, [Fails (ClientError ''ServiceNotFoundException'')]), (1700, [])] [] =
     (Exit ''Error listing ECS tasks'',
      [list_tasks_call ''resourcely-campaigns'' ''resourcely-campaigns-agent''])
 \<and> wait_for_ecs_loop ''resourcely-campaigns'' ''resourcely-campaigns-agent'' 600 30 1000
     [(1031, [Ok (PDict [(''taskArns'', PList [PStr ''arn:task/1''])]),
              Fails (ClientError ''ServiceNotFoundException'')]),
      (1700, [])] [] =
     (Exit ''Error describing ECS tasks'',
      [list_tasks_call ''resourcely-campaigns'' ''resourcely-campaigns-agent'',
       describe_tasks_call ''resourcely-campaigns'' (PList [PStr ''arn:task/1''])])
 \<and> poll_loop (yaml_config_attempt ''acme/infra'') ''Timeout'' 2 5 0
     ([Http 404 (Some not_found_body), Http 200 (Some (PDict []))], []) =
     (Exit ''Timeout'', ([], [HttpGet yaml_config_url, Sleep 5, HttpGet yaml_config_url]))
 \<and> poll_loop diagnostics_attempt ''Timeout'' 2 5 0
     ([Http 404 (Some not_found_body), Http 200 (Some (PDict []))], []) =
     (Exit ''Timeout'', ([], [HttpGet diagnostics_url, Sleep 5, HttpGet diagnostics_url]))
 \<and> wait_for_plan_job_loop ''acme'' ''infra'' ''abc123'' 600 30 1000
     [(1700, [Http 200 (Some (PDict []))]), (1700, [])] [] =
     (Exit (plan_timeout_message ''abc123''), [])
 \<and> wait_for_ecs_loop ''resourcely-campaigns'' ''resourcely-campaigns-agent'' 600 30 1000
     [(1700, [Http 200 (Some (PDict []))]), (1700, [])] [] = (Exit ecs_timeout_message, [])
 \<and> wait_for_ecs_loop ''resourcely-campaigns'' ''resourcely-campaigns-agent'' 600 30 1000
     [(1031, [Ok (PDict [(''taskArns'', PList [PStr ''arn:task/1''])]),
              Ok (PDict [(''tasks'', PList [PDict [(''lastStatus'', PStr ''STOPPED'')]])])]),
      (1700, [])] [] =
     (Exit ecs_timeout_message,
      [list_tasks_call ''resourcely-campaigns'' ''resourcely-campaigns-agent'',
       describe_tasks_call ''resourcely-campaigns'' (PList [PStr ''arn:task/1'']), Sleep 30])
 \<and> role_wait_loop 1 ([no_such_role, Http 200 (Some (PDict []))], []) =
     (Exit role_timeout_message, ([Http 200 (Some (PDict []))], [get_oidc_role_call, Sleep 3]))
 \<and> create_oidc_role (PStr ''arn:aws:iam::1:oidc-provider/token'') ''acme/infra''
     ([no_such_role, Ok (PDict []), no_such_role, Ok (PDict []), Http 200 (Some (PDict []))], []) =
     (Return oidc_role_name,
      ([Http 200 (Some (PDict []))],
       [get_oidc_role_call,
        create_oidc_role_call (PStr ''arn:aws:iam::1:oidc-provider/token'') ''acme/infra'',
        get_oidc_role_call, Sleep 3, get_oidc_role_call]))
 \<and> create_oidc_role (PStr ''arn:aws:iam::1:oidc-provider/token'') ''acme/infra''
     ([no_such_role, Ok (PDict []), Fails (ClientError ''AccessDenied''),
       Http 200 (Some (PDict []))], []) =
     (Exit ''Failed to create IAM role'',
      ([Http 200 (Some (PDict []))],
       [get_oidc_role_call,
        create_oidc_role_call (PStr ''arn:aws:iam::1:oidc-provider/token'') ''acme/infra'',
        get_oidc_role_call]))"
proof -
  let ?lint = "PDict [(''name'', PStr ''lint''), (''status'', PStr ''completed''),
                      (''conclusion'', PStr ''failure'')]"
  let ?plan = "PDict [(''name'', PStr plan_job_name), (''status'', PStr ''completed''),
                      (''conclusion'', PStr ''failure'')]"
  let ?agent_diagnostics = "[PDict [(''checks'', PList [
            PDict [(''type'', PStr ''DIAGNOSTIC_TYPE_CAMPAIGNS_AGENT_REGISTERED''),
                   (''status'', PStr ''DIAGNOSTIC_STATUS_SUCCESS'')],
            PDict [(''type'', PStr ''DIAGNOSTIC_TYPE_CAMPAIGNS_AGENT_REACHABLE''),
                   (''status'', PStr ''DIAGNOSTIC_STATUS_SUCCESS'')]])]]"
  let ?statuses = "[(''DIAGNOSTIC_TYPE_CAMPAIGNS_AGENT_REGISTERED'', PStr ''DIAGNOSTIC_STATUS_SUCCESS''),
                    (''DIAGNOSTIC_TYPE_CAMPAIGNS_AGENT_REACHABLE'', PStr ''DIAGNOSTIC_STATUS_SUCCESS''),
                    (''DIAGNOSTIC_TYPE_CAMPAIGNS_AGENT_EVALUATIONS'', PNone)]"
  let ?missing = "Fails (ClientError ''ServiceNotFoundException'')"
  let ?list_tasks = "list_tasks_call ''resourcely-campaigns'' ''resourcely-campaigns-agent''"
  have 1: "then_outcome (py_get (PDict [(''id'', PInt 42)]) ''id'' PNone) py_format = Return ''42''"
    by code_simp
  have 2: "list_all other_job [?lint]"
    by (simp add: other_job_def plan_job_name_def)
  have 3: "list_all other_source
             [PDict [(''source'', PStr ''DIAGNOSTIC_SOURCE_AWS''), (''checks'', PList [])]]"
    by (simp add: other_source_def)
  have 4: "record_diagnostics no_statuses ?agent_diagnostics = Return ?statuses"
    by (simp add: no_statuses_def required_checks_def status_success_def)
  have 5: "''DIAGNOSTIC_TYPE_CAMPAIGNS_AGENT_EVALUATIONS'' \<in> set required_checks"
    by (simp add: required_checks_def)
  have 6: "lacks_check ''DIAGNOSTIC_TYPE_CAMPAIGNS_AGENT_EVALUATIONS'' ?agent_diagnostics"
    by simp
  have 7: "scan_jobs [?plan] = Return (JobFailed (PStr ''failure''))"
    by simp
  have 8: "poll_loop (yaml_config_attempt ''acme/infra'') ''Timeout'' 2 5 1
             ([Http 200 (Some (PDict []))], calls) =
           (Exit ''Timeout'', ([], calls @ [HttpGet yaml_config_url]))" for calls
    by (simp add: poll_loop.simps yaml_config_attempt_def run_defs)
  have 9: "poll_loop diagnostics_attempt ''Timeout'' 2 5 1
             ([Http 200 (Some (PDict []))], calls) =
           (Exit ''Timeout'', ([], calls @ [HttpGet diagnostics_url]))" for calls
    by (simp add: poll_loop.simps diagnostics_attempt_def run_defs)
  have 10: "poll_loop agent_attempt ''Timeout'' 2 5 1
             ([Http 200 (Some (PDict []))], calls) =
           (Exit ''Timeout'', ([], calls @ [HttpGet diagnostics_url]))" for calls
    by (simp add: poll_loop.simps agent_attempt_def run_defs required_checks_def all_success_def
        status_success_def)
  have 11: "plan_job_attempt ''acme'' ''infra'' ([Http 404 (Some not_found_body)], []) =
              (Exit ''Failed to retrieve workflow runs'', ([], [HttpGet (runs_url ''acme'' ''infra'')]))"
    by (simp add: plan_job_attempt_def run_defs)
  have 12: "agent_attempt ([Http 404 (Some not_found_body)], []) =
              (Exit ''Failed to retrieve diagnostics'', ([], [HttpGet diagnostics_url]))"
    by (simp add: agent_attempt_def run_defs)
  have 13: "ecs_attempt ''resourcely-campaigns'' ''resourcely-campaigns-agent'' ([?missing], []) =
              (Exit ''Error listing ECS tasks'', ([], [?list_tasks]))"
    by (simp add: ecs_attempt_def run_defs list_tasks_call_def)
  have 14: "wait_for_plan_job_loop ''acme'' ''infra'' ''abc123'' 600 30 1000
              [(1031, [Http 404 (Some not_found_body)])] [] =
              (Exit ''Failed to retrieve workflow runs'', [HttpGet (runs_url ''acme'' ''infra'')])"
    using 11 by simp
  have 15: "poll_loop agent_attempt ''Timeout'' 2 5 0 ([Http 404 (Some not_found_body)], []) =
              (Exit ''Failed to retrieve diagnostics'', ([], [HttpGet diagnostics_url]))"
    using 12 by (simp add: poll_loop.simps)
  have 16: "wait_for_ecs_loop ''resourcely-campaigns'' ''resourcely-campaigns-agent'' 600 30 1000
              [(1031, [?missing])] [] = (Exit ''Error listing ECS tasks'', [?list_tasks])"
    using 13 by simp
  have 17: "role_wait_loop 0 ([Http 200 (Some (PDict []))], [get_oidc_role_call, Sleep 3]) =
              (Exit role_timeout_message,
               ([Http 200 (Some (PDict []))], [get_oidc_role_call, Sleep 3]))"
    by (simp add: run_defs)
  have 18: "create_oidc_role (PStr ''arn:aws:iam::1:oidc-provider/token'') ''acme/infra''
              ([no_such_role, Ok (PDict []), Fails (ClientError ''AccessDenied'')], []) =
            (Exit ''Failed to create IAM role'',
             ([], [get_oidc_role_call,
                   create_oidc_role_call (PStr ''arn:aws:iam::1:oidc-provider/token'') ''acme/infra'',
                   get_oidc_role_call]))"
    by (simp add: create_oidc_role_def run_defs no_such_role_def get_oidc_role_call_def
        create_oidc_role_call_def numeral_eq_Suc)
  note at_input = poller_lookup_outcomes[where t = 1031 and start_time = 1000 and timeout = 600
        and no_runs_doc = "PDict [(''workflow_runs'', PList [])]" and runs = "PList []"
        and owner = "''acme''" and repo = "''infra''" and commit_sha = "''abc123''"
        and poll_interval = 30 and more = "[]" and later = "[(1700, [])]" and tr = "[]"
        and runs_doc = "PDict [(''workflow_runs'', PList [PDict [(''id'', PInt 42)]])]"
        and latest_run = "PDict [(''id'', PInt 42)]" and older = "[]" and run_id = "''42''"
        and jobs_doc = "PDict [(''jobs'', PList [?lint])]" and jobs = "[?lint]"
        and attempt = 0 and max_attempts = 2 and interval = 5 and message = "''Timeout''"
        and tape = "[Http 200 (Some (PDict []))]" and repo_url = "''acme/infra''"
        and yaml_doc = "PDict [(''repos'', PDict [(''https://github.com/acme/other'',
              PDict [(''result'', PStr ''TF_CONFIG_SCAN_RESULT_VALID_CONFIG'')])])]"
        and repos = "[(''https://github.com/acme/other'',
              PDict [(''result'', PStr ''TF_CONFIG_SCAN_RESULT_VALID_CONFIG'')])]"
        and diagnostics_doc = "PDict [(''diagnostics'', PList [
              PDict [(''source'', PStr ''DIAGNOSTIC_SOURCE_AWS''), (''checks'', PList [])]])]"
        and diagnostics = "[PDict [(''source'', PStr ''DIAGNOSTIC_SOURCE_AWS''),
                                   (''checks'', PList [])]]"
        and agent_doc = "PDict [(''diagnostics'', PList ?agent_diagnostics)]"
        and agent_diagnostics = ?agent_diagnostics and statuses = ?statuses
        and k = "''DIAGNOSTIC_TYPE_CAMPAIGNS_AGENT_EVALUATIONS''"
        and listed = "[?plan]" and conclusion = "PStr ''failure''"
        and cluster_name = "''resourcely-campaigns''" and service = "''resourcely-campaigns-agent''"
        and listing = "PDict [(''taskArns'', PList [])]" and no_arns = "PList []"
        and code = 404 and shown = not_found_body and body = "Some not_found_body"
        and e = "ClientError ''ServiceNotFoundException''"
        and task_listing = "PDict [(''taskArns'', PList [PStr ''arn:task/1''])]"
        and task_arns = "PList [PStr ''arn:task/1'']"
        and plan_tape = "[Http 404 (Some not_found_body)]" and plan_tr = "[]"
        and plan_m = "''Failed to retrieve workflow runs''"
        and plan_w = "([], [HttpGet (runs_url ''acme'' ''infra'')])"
        and agent_tape = "[Http 404 (Some not_found_body)]" and agent_tr = "[]"
        and agent_m = "''Failed to retrieve diagnostics''"
        and agent_w = "([], [HttpGet diagnostics_url])"
        and any_w = "([], [])" and any_m = "[]"
        and ecs_tape = "[?missing]" and ecs_tr = "[]" and ecs_m = "''Error listing ECS tasks''"
        and ecs_w = "([], [?list_tasks])"
        and snapshots = "[(1031, [Http 404 (Some not_found_body)])]" and loop_tr = "[]"
        and loop_m = "''Failed to retrieve workflow runs''"
        and loop_tr' = "[HttpGet (runs_url ''acme'' ''infra'')]"
        and attempt_body = agent_attempt and poll_w = "([Http 404 (Some not_found_body)], [])"
        and poll_m = "''Failed to retrieve diagnostics''"
        and poll_w' = "([], [HttpGet diagnostics_url])"
        and ecs_snapshots = "[(1031, [?missing])]" and ecs_loop_tr = "[]"
        and ecs_loop_m = "''Error listing ECS tasks''" and ecs_loop_tr' = "[?list_tasks]"
        and late = 1700 and replies = "[Http 200 (Some (PDict []))]"
        and described = "PDict [(''tasks'', PList [PDict [(''lastStatus'', PStr ''STOPPED'')]])]"
        and tasks = "[PDict [(''lastStatus'', PStr ''STOPPED'')]]"
        and remaining = 0 and provider_arn = "PStr ''arn:aws:iam::1:oidc-provider/token''"
        and repository = "''acme/infra''" and created = "PDict []" and found_role = "PDict []"
        and role_code = "''AccessDenied''" and rounds = 0
        and wait_w = "([Http 200 (Some (PDict []))], [get_oidc_role_call, Sleep 3])"
        and wait_m = role_timeout_message
        and wait_w' = "([Http 200 (Some (PDict []))], [get_oidc_role_call, Sleep 3])"
        and role_w = "([no_such_role, Ok (PDict []), Fails (ClientError ''AccessDenied'')], [])"
        and role_m = "''Failed to create IAM role''"
        and role_w' = "([], [get_oidc_role_call,
              create_oidc_role_call (PStr ''arn:aws:iam::1:oidc-provider/token'') ''acme/infra'',
              get_oidc_role_call])"]
  show ?thesis
    using at_input 1 2 3 4 5 6 7 8 9 10 11 12 13 14 15 16 17 18
    by (simp add: plan_timeout_message_def)
qed

text \<open>
  Claim C7 as stated fails: a lookup that is answered with \<^verbatim>\<open>404 Not Found\<close> ends
  \<^verbatim>\<open>wait_for_plan_job_success\<close> (for the runs and for the jobs of the run) and
  \<^verbatim>\<open>poll_agent_diagnostics\<close> on that pass, and \<^verbatim>\<open>list_tasks\<close> raising because the
  service is not found ends \<^verbatim>\<open>wait_for_ecs_service_running\<close>; in none of the four runs
  has a status value been read.
\<close>

theorem failed_lookup_aborts_counterexample:
  "wait_for_plan_job_success ''acme'' ''infra'' ''abc123'' 600 30 1000
     [(1000, [Http 404 (Some not_found_body)])] =
     (Exit ''Failed to retrieve workflow runs'', [HttpGet (runs_url ''acme'' ''infra'')])
 \<and> wait_for_plan_job_success ''acme'' ''infra'' ''abc123'' 600 30 1000
     [(1000, [Http 200 (Some (PDict [(''workflow_runs'', PList [PDict [(''id'', PInt 42)]])])),
              Http 404 (Some not_found_body)])] =
     (Exit ''Failed to retrieve jobs for workflow run'',
      [HttpGet (runs_url ''acme'' ''infra''), HttpGet (jobs_url ''acme'' ''infra'' ''42'')])
 \<and> poll_agent_diagnostics 5 5 ([Http 404 (Some not_found_body)], []) =
     (Exit ''Failed to retrieve diagnostics'', ([], [HttpGet diagnostics_url]))
 \<and> wait_for_ecs_service_running ''resourcely-campaigns'' ''resourcely-campaigns-agent'' 300 10 1000
     [(1000, [Fails (ClientError ''ServiceNotFoundException'')])] =
     (Exit ''Error listing ECS tasks'',
      [list_tasks_call ''resourcely-campaigns'' ''resourcely-campaigns-agent''])"
proof -
  have "then_outcome (py_get (PDict [(''id'', PInt 42)]) ''id'' PNone) py_format = Return ''42''"
    by code_simp
  then show ?thesis
    by (simp add: wait_for_plan_job_success_def plan_job_attempt_def poll_agent_diagnostics_def
        poll_loop.simps agent_attempt_def wait_for_ecs_service_running_def ecs_attempt_def
        list_tasks_call_def run_defs)
qed

end
